theory Spec2Isabelle
  imports Complex_Main "HOL-Library.List_Lexorder" "HOL-Library.Char_ord"
    "HOL-Library.Log_Nat" "HOL-Library.Code_Target_Numeral"
begin

section \<open>Ticket router (src/tickets/tickets.service.ts)\<close>

subsection \<open>Data model\<close>

text \<open>
  Modelled from the spec: the enums \<open>TicketType\<close>, \<open>TicketStatus\<close>, \<open>TicketCategory\<close> and
  \<open>UserRole\<close> and the row types \<open>Ticket\<close> and \<open>User\<close> are imported by the service from
  \<open>db/models\<close>, which is not among the sources; their members are the ones section 3 of the
  specification lists, and the string of a role is its member name (the service prints
  it into its messages). \<open>status_open\<close> stands for \<open>TicketStatus.open\<close>, a name HOL already
  uses.
\<close>

datatype TicketType = managementReport | registrationAddressChange | strikeOff

datatype TicketStatus = status_open | resolved

datatype TicketCategory = accounting | corporate | management

datatype UserRole = director | accountant | corporateSecretary

fun UserRole_string :: "UserRole \<Rightarrow> string" where
  "UserRole_string director = ''director''"
| "UserRole_string accountant = ''accountant''"
| "UserRole_string corporateSecretary = ''corporateSecretary''"

record User =
  user_id :: int
  user_role :: UserRole
  user_companyId :: int
  user_createdAt :: nat

record Ticket =
  ticket_id :: int
  ticket_type :: TicketType
  ticket_companyId :: int
  ticket_assigneeId :: int
  ticket_status :: TicketStatus
  ticket_category :: TicketCategory

text \<open>\<open>CreateTicketDto\<close> and \<open>TicketResponseDto\<close>, as the service declares them.\<close>

record CreateTicketDto =
  dto_type :: TicketType
  dto_companyId :: int

record TicketResponseDto =
  res_id :: int
  res_type :: TicketType
  res_companyId :: int
  res_assigneeId :: int
  res_status :: TicketStatus
  res_category :: TicketCategory

text \<open>
  What the service throws: a \<open>ConflictException\<close> with its message, or any other error (a
  failure of the relational store, \<open>Unknown ticket type\<close>).
\<close>

datatype exn = ConflictException string | OtherError string

subsection \<open>The relational store\<close>

text \<open>
  The store holds the two tables the service touches, rows in insertion order. Every
  call into it may fail: \<open>faults\<close> says which calls throw (with the message of the error)
  during one request, so that a theorem over all \<open>faults\<close> covers every way the store can
  let the service down.
\<close>

record store =
  users :: "User list"
  tickets :: "Ticket list"

record faults =
  fail_User_findAll :: "string option"
  fail_Ticket_findOne :: "string option"
  fail_Ticket_create :: "string option"
  fail_Ticket_update :: "string option"

definition no_faults :: faults where
  "no_faults = \<lparr>fail_User_findAll = None, fail_Ticket_findOne = None,
     fail_Ticket_create = None, fail_Ticket_update = None\<rparr>"

text \<open>
  \<open>User.findAll({where: {companyId, role}, order: [['createdAt', 'DESC']]})\<close>: the matching
  rows, most recently created first (rows created at the same instant come in an order
  of the store's choosing; here the later row first).
\<close>

definition User_findAll :: "faults \<Rightarrow> int \<Rightarrow> UserRole \<Rightarrow> store \<Rightarrow> exn + User list" where
  "User_findAll f companyId role s =
     (case fail_User_findAll f of
        Some msg \<Rightarrow> Inl (OtherError msg)
      | None \<Rightarrow> Inr (rev (sort_key user_createdAt
          (filter (\<lambda>u. user_companyId u = companyId \<and> user_role u = role) (users s)))))"

text \<open>The identifier the store assigns to a new ticket: one no row of the table has.\<close>

definition next_id :: "Ticket list \<Rightarrow> int" where
  "next_id ts = fold max (map ticket_id ts) 0 + 1"

text \<open>\<open>Ticket.create({companyId, assigneeId, category, type, status})\<close>: the new row and the
  table with it.\<close>

definition Ticket_create ::
  "faults \<Rightarrow> int \<Rightarrow> int \<Rightarrow> TicketCategory \<Rightarrow> TicketType \<Rightarrow> TicketStatus \<Rightarrow> store
     \<Rightarrow> exn + Ticket \<times> store" where
  "Ticket_create f companyId assigneeId category type status s =
     (case fail_Ticket_create f of
        Some msg \<Rightarrow> Inl (OtherError msg)
      | None \<Rightarrow>
          (let ticket = \<lparr>ticket_id = next_id (tickets s), ticket_type = type,
                 ticket_companyId = companyId, ticket_assigneeId = assigneeId,
                 ticket_status = status, ticket_category = category\<rparr>
           in Inr (ticket, s\<lparr>tickets := tickets s @ [ticket]\<rparr>)))"

text \<open>\<open>Ticket.update({status: resolved}, {where: {companyId, status: open, id: {[Op.ne]:
  excludeTicketId}}})\<close>.\<close>

definition Ticket_update_resolved :: "faults \<Rightarrow> int \<Rightarrow> int \<Rightarrow> store \<Rightarrow> exn + store" where
  "Ticket_update_resolved f companyId excludeTicketId s =
     (case fail_Ticket_update f of
        Some msg \<Rightarrow> Inl (OtherError msg)
      | None \<Rightarrow> Inr (s\<lparr>tickets := map (\<lambda>t.
          if ticket_companyId t = companyId \<and> ticket_status t = status_open
             \<and> ticket_id t \<noteq> excludeTicketId
          then t\<lparr>ticket_status := resolved\<rparr> else t) (tickets s)\<rparr>))"

text \<open>\<open>Ticket.findOne({where: {companyId, type, status}})\<close>.\<close>

definition Ticket_findOne ::
  "faults \<Rightarrow> int \<Rightarrow> TicketType \<Rightarrow> TicketStatus \<Rightarrow> store \<Rightarrow> exn + Ticket option" where
  "Ticket_findOne f companyId type status s =
     (case fail_Ticket_findOne f of
        Some msg \<Rightarrow> Inl (OtherError msg)
      | None \<Rightarrow> Inr (find (\<lambda>t. ticket_companyId t = companyId \<and> ticket_type t = type
          \<and> ticket_status t = status) (tickets s)))"

text \<open>
  \<open>sequelize.transaction(callback)\<close>: the callback works on the store; when it returns,
  its writes are committed, and when it throws, they are rolled back and the error is
  thrown on. The callback hands back the store as it left it, so that the rollback is
  this function's work and not the callback's.
\<close>

definition transaction ::
  "(store \<Rightarrow> (exn + 'a) \<times> store) \<Rightarrow> store \<Rightarrow> (exn + 'a) \<times> store" where
  "transaction callback s =
     (case callback s of
        (Inl e, s') \<Rightarrow> (Inl e, s)
      | (Inr r, s') \<Rightarrow> (Inr r, s'))"

subsection \<open>The service\<close>

definition mapTicketToDto :: "Ticket \<Rightarrow> TicketResponseDto" where
  "mapTicketToDto ticket = \<lparr>res_id = ticket_id ticket, res_type = ticket_type ticket,
     res_companyId = ticket_companyId ticket, res_assigneeId = ticket_assigneeId ticket,
     res_status = ticket_status ticket, res_category = ticket_category ticket\<rparr>"

fun determineTicketCategory :: "TicketType \<Rightarrow> TicketCategory" where
  "determineTicketCategory managementReport = accounting"
| "determineTicketCategory registrationAddressChange = corporate"
| "determineTicketCategory strikeOff = management"

definition checkForDuplicateRegistrationTicket :: "faults \<Rightarrow> int \<Rightarrow> store \<Rightarrow> exn + unit" where
  "checkForDuplicateRegistrationTicket f companyId s =
     (case Ticket_findOne f companyId registrationAddressChange status_open s of
        Inl e \<Rightarrow> Inl e
      | Inr (Some existingTicket) \<Rightarrow> Inl (ConflictException
          ''A registration address change ticket already exists for this company.'')
      | Inr None \<Rightarrow> Inr ())"

fun primaryRole :: "TicketType \<Rightarrow> UserRole" where
  "primaryRole managementReport = accountant"
| "primaryRole registrationAddressChange = corporateSecretary"
| "primaryRole strikeOff = director"

definition findAssignee :: "faults \<Rightarrow> TicketType \<Rightarrow> int \<Rightarrow> store \<Rightarrow> exn + User" where
  "findAssignee f type companyId s =
     (case User_findAll f companyId (primaryRole type) s of
        Inl e \<Rightarrow> Inl e
      | Inr assignees0 \<Rightarrow>
          (case (if type = registrationAddressChange \<and> assignees0 = []
                 then (case User_findAll f companyId director s of
                         Inl e \<Rightarrow> Inl e
                       | Inr ds \<Rightarrow> Inr (director, ds))
                 else Inr (primaryRole type, assignees0)) of
             Inl e \<Rightarrow> Inl e
           | Inr (userRole, assignees) \<Rightarrow>
               if assignees = []
               then Inl (ConflictException (''Cannot find user with role ''
                      @ UserRole_string userRole @ '' to create a ticket''))
               else if (userRole = corporateSecretary \<or> userRole = director)
                       \<and> length assignees > 1
               then Inl (ConflictException (''Multiple users with role ''
                      @ UserRole_string userRole @ ''. Cannot create a ticket''))
               else Inr (hd assignees)))"

text \<open>
  The callback of \<open>createStrikeOffTicket\<close>: the \<open>try\<close> block, which returns the store
  with the writes made so far, and the \<open>catch\<close> block, which throws a conflict on and
  wraps every other error into one.
\<close>

definition strikeOff_try :: "faults \<Rightarrow> int \<Rightarrow> store \<Rightarrow> (exn + TicketResponseDto) \<times> store" where
  "strikeOff_try f companyId s =
     (case User_findAll f companyId director s of
        Inl e \<Rightarrow> (Inl e, s)
      | Inr directors \<Rightarrow>
          if directors = []
          then (Inl (ConflictException (''Cannot find user with role ''
                  @ UserRole_string director @ '' to create a strike off ticket'')), s)
          else if length directors > 1
          then (Inl (ConflictException (''Multiple users with role ''
                  @ UserRole_string director @ ''. Cannot create a strike off ticket'')), s)
          else
            (case Ticket_create f companyId (user_id (hd directors)) management strikeOff
                    status_open s of
               Inl e \<Rightarrow> (Inl e, s)
             | Inr (ticket, s1) \<Rightarrow>
                 (case Ticket_update_resolved f companyId (ticket_id ticket) s1 of
                    Inl e \<Rightarrow> (Inl e, s1)
                  | Inr s2 \<Rightarrow> (Inr (mapTicketToDto ticket), s2))))"

fun strikeOff_catch :: "exn \<Rightarrow> exn" where
  "strikeOff_catch (ConflictException msg) = ConflictException msg"
| "strikeOff_catch (OtherError msg) =
     ConflictException ''Failed to process strike off ticket. Please try again.''"

definition createStrikeOffTicket ::
  "faults \<Rightarrow> int \<Rightarrow> store \<Rightarrow> (exn + TicketResponseDto) \<times> store" where
  "createStrikeOffTicket f companyId =
     transaction (\<lambda>s. case strikeOff_try f companyId s of
        (Inl e, s') \<Rightarrow> (Inl (strikeOff_catch e), s')
      | (Inr r, s') \<Rightarrow> (Inr r, s'))"

definition createTicket ::
  "faults \<Rightarrow> CreateTicketDto \<Rightarrow> store \<Rightarrow> (exn + TicketResponseDto) \<times> store" where
  "createTicket f createTicketDto s =
     (let type = dto_type createTicketDto; companyId = dto_companyId createTicketDto in
      if type = strikeOff then createStrikeOffTicket f companyId s
      else
        (case (if type = registrationAddressChange
               then checkForDuplicateRegistrationTicket f companyId s else Inr ()) of
           Inl e \<Rightarrow> (Inl e, s)
         | Inr _ \<Rightarrow>
             (case findAssignee f type companyId s of
                Inl e \<Rightarrow> (Inl e, s)
              | Inr assignee \<Rightarrow>
                  (case Ticket_create f companyId (user_id assignee)
                          (determineTicketCategory type) type status_open s of
                     Inl e \<Rightarrow> (Inl e, s)
                   | Inr (ticket, s') \<Rightarrow> (Inr (mapTicketToDto ticket), s')))))"

text \<open>The directors of a company, and its tickets: what the claims speak about.\<close>

definition directors_of :: "store \<Rightarrow> int \<Rightarrow> User list" where
  "directors_of s companyId =
     filter (\<lambda>u. user_companyId u = companyId \<and> user_role u = director) (users s)"

definition tickets_of :: "store \<Rightarrow> int \<Rightarrow> Ticket list" where
  "tickets_of s companyId = filter (\<lambda>t. ticket_companyId t = companyId) (tickets s)"

text \<open>
  A store to run the service on: company 1 has one director and an accountant, company 2
  has two directors; each company has one open ticket.
\<close>

definition acme :: store where
  "acme = \<lparr>users = [\<lparr>user_id = 1, user_role = director, user_companyId = 1, user_createdAt = 0\<rparr>,
                    \<lparr>user_id = 2, user_role = accountant, user_companyId = 1, user_createdAt = 1\<rparr>,
                    \<lparr>user_id = 4, user_role = director, user_companyId = 2, user_createdAt = 2\<rparr>,
                    \<lparr>user_id = 5, user_role = director, user_companyId = 2, user_createdAt = 3\<rparr>],
            tickets = [\<lparr>ticket_id = 1, ticket_type = managementReport, ticket_companyId = 1,
                        ticket_assigneeId = 2, ticket_status = status_open, ticket_category = accounting\<rparr>,
                       \<lparr>ticket_id = 2, ticket_type = registrationAddressChange, ticket_companyId = 2,
                        ticket_assigneeId = 4, ticket_status = status_open, ticket_category = corporate\<rparr>]\<rparr>"

text \<open>A request during which the bulk update of the tickets fails in the store.\<close>

definition update_fails :: faults where
  "update_fails = no_faults\<lparr>fail_Ticket_update := Some ''deadlock detected''\<rparr>"

section \<open>Report pipeline (src/reports/reports.service.ts)\<close>

subsection \<open>JavaScript numbers\<close>

text \<open>
  A number of the runtime is a binary64 floating-point number, \<open>NaN\<close> or an infinity. A
  finite one is given by the real it stands for, and the result of an operation on finite
  numbers is the exact result rounded to binary64 (\<open>binary64\<close> below). The negative zero
  is not told from zero: no report can show the difference, since every balance and every
  total starts from \<open>0\<close>, and \<open>0 + -0\<close> is \<open>0\<close>.
\<close>

datatype jsnum = Fin real | NaN | PosInfinity | NegInfinity

text \<open>The integer nearest to a real, the even one of two.\<close>

definition round_half_even :: "real \<Rightarrow> int" where
  "round_half_even z =
     (let f = \<lfloor>z\<rfloor>; d = z - of_int f
      in if d < 1 / 2 then f else if 1 / 2 < d then f + 1 else if even f then f else f + 1)"

text \<open>The exponent \<open>e\<close> of a real other than \<open>0\<close>: \<open>2^e \<le> |x| < 2^(e + 1)\<close>.\<close>

definition exponent2 :: "real \<Rightarrow> int" where
  "exponent2 x =
     (if 1 \<le> \<bar>x\<bar> then int (floorlog 2 (nat \<lfloor>\<bar>x\<bar>\<rfloor>)) - 1
      else - int (floorlog 2 (nat (\<lceil>1 / \<bar>x\<bar>\<rceil> - 1))))"

text \<open>
  Rounding to nearest, ties to even, with the 53 significant bits of binary64 and its
  smallest exponent (below \<open>2^-1022\<close> the numbers are the multiples of \<open>2^-1074\<close>), the
  exponent not bounded above; and the number of the runtime for a real: an infinity when
  the rounded magnitude reaches \<open>2^1024\<close>.
\<close>

definition round64 :: "real \<Rightarrow> real" where
  "round64 x =
     (if x = 0 then 0
      else (let q = max (exponent2 x) (- 1022) - 52
            in of_int (round_half_even (x / 2 powi q)) * 2 powi q))"

definition binary64 :: "real \<Rightarrow> jsnum" where
  "binary64 x =
     (let y = round64 x
      in if 2 ^ 1024 \<le> y then PosInfinity
         else if y \<le> - (2 ^ 1024) then NegInfinity else Fin y)"

fun js_neg :: "jsnum \<Rightarrow> jsnum" where
  "js_neg (Fin a) = Fin (- a)"
| "js_neg NaN = NaN"
| "js_neg PosInfinity = NegInfinity"
| "js_neg NegInfinity = PosInfinity"

fun js_add :: "jsnum \<Rightarrow> jsnum \<Rightarrow> jsnum" where
  "js_add (Fin a) (Fin b) = binary64 (a + b)"
| "js_add NaN y = NaN"
| "js_add x NaN = NaN"
| "js_add PosInfinity NegInfinity = NaN"
| "js_add NegInfinity PosInfinity = NaN"
| "js_add PosInfinity y = PosInfinity"
| "js_add x PosInfinity = PosInfinity"
| "js_add NegInfinity y = NegInfinity"
| "js_add x NegInfinity = NegInfinity"

definition js_sub :: "jsnum \<Rightarrow> jsnum \<Rightarrow> jsnum" where
  "js_sub x y = js_add x (js_neg y)"

text \<open>Whether a value of the model is a number of the runtime: a finite one has to be a
  binary64 number, one that rounding leaves as it is.\<close>

fun is_binary64 :: "jsnum \<Rightarrow> bool" where
  "is_binary64 (Fin y) = (binary64 y = Fin y)"
| "is_binary64 other = True"

text \<open>\<open>ToBoolean\<close> of a number: \<open>0\<close> and \<open>NaN\<close> are falsy.\<close>

definition truthy_number :: "jsnum \<Rightarrow> bool" where
  "truthy_number x = (x \<noteq> Fin 0 \<and> x \<noteq> NaN)"

subsection \<open>JavaScript strings\<close>

text \<open>
  A string is the list of its code units; the model has the 256 code units of \<open>char\<close>.
  Among them the white space of ECMAScript (\<open>WhiteSpace\<close> and \<open>LineTerminator\<close>, which
  \<open>trim\<close> strips and \<open>parseFloat\<close> skips) is TAB, LF, VT, FF, CR, SP and NBSP.
\<close>

definition StrWhiteSpaceChar :: "char \<Rightarrow> bool" where
  "StrWhiteSpaceChar c =
     (c \<in> set [CHR 0x09, CHR 0x0A, CHR 0x0B, CHR 0x0C, CHR 0x0D, CHR 0x20, CHR 0xA0])"

definition trim :: "string \<Rightarrow> string" where
  "trim s = rev (dropWhile StrWhiteSpaceChar (rev (dropWhile StrWhiteSpaceChar s)))"

text \<open>\<open>s.split(c)\<close> for a separator of one code unit: never empty, \<open>''''.split(c)\<close> is \<open>['''']\<close>.\<close>

fun split :: "char \<Rightarrow> string \<Rightarrow> string list" where
  "split c [] = [[]]"
| "split c (x # xs) =
     (if x = c then [] # split c xs
      else (case split c xs of [] \<Rightarrow> [[x]] | y # ys \<Rightarrow> (x # y) # ys))"

text \<open>\<open>lines.join(sep)\<close>.\<close>

fun join :: "string \<Rightarrow> string list \<Rightarrow> string" where
  "join sep [] = []"
| "join sep [x] = x"
| "join sep (x # y # ys) = x @ sep @ join sep (y # ys)"

definition endsWith :: "string \<Rightarrow> string \<Rightarrow> bool" where
  "endsWith s searchString =
     (length searchString \<le> length s
      \<and> drop (length s - length searchString) s = searchString)"

text \<open>
  An element of an array by its index, \<open>undefined\<close> (\<open>None\<close>) beyond the end: what the
  destructuring \<open>[, account, , debit, credit] = line.split(',')\<close> reads.
\<close>

definition element :: "'a list \<Rightarrow> nat \<Rightarrow> 'a option" where
  "element xs i = (if i < length xs then Some (xs ! i) else None)"

subsection \<open>Decimal digits\<close>

definition is_digit :: "char \<Rightarrow> bool" where
  "is_digit c = (c \<in> set ''0123456789'')"

definition digit_value :: "char \<Rightarrow> nat" where
  "digit_value c = of_char c - 48"

definition digits_value :: "string \<Rightarrow> nat" where
  "digits_value ds = foldl (\<lambda>a c. 10 * a + digit_value c) 0 ds"

definition digit_char :: "nat \<Rightarrow> char" where
  "digit_char d = ''0123456789'' ! (d mod 10)"

text \<open>The decimal digits of a natural number, no leading zero (\<open>0\<close> is \<open>''0''\<close>).\<close>

fun digits :: "nat \<Rightarrow> string" where
  "digits n = (if n < 10 then [digit_char n] else digits (n div 10) @ [digit_char n])"

declare digits.simps [simp del]

subsection \<open>\<open>parseFloat\<close>\<close>

text \<open>
  \<open>parseFloat(string)\<close>: skip leading white space, then read the longest prefix that is a
  \<open>StrDecimalLiteral\<close> (a sign, then \<open>Infinity\<close> or digits with an optional fraction and an
  optional exponent); \<open>NaN\<close> when there is none. What follows the prefix is ignored.
  The result is the binary64 number nearest to the value of the decimal numeral.
\<close>

definition exponent_part :: "string \<Rightarrow> bool \<times> nat" where
  "exponent_part r =
     (case r of
        [] \<Rightarrow> (False, 0)
      | c # r1 \<Rightarrow>
          if c = CHR ''e'' \<or> c = CHR ''E'' then
            (let (neg, r2) = (case r1 of
                    [] \<Rightarrow> (False, r1)
                  | d # r3 \<Rightarrow> if d = CHR ''-'' then (True, r3)
                             else if d = CHR ''+'' then (False, r3) else (False, r1))
             in (neg, digits_value (takeWhile is_digit r2)))
          else (False, 0))"

definition parseFloat :: "string \<Rightarrow> jsnum" where
  "parseFloat inputString =
     (let trimmedString = dropWhile StrWhiteSpaceChar inputString;
          (neg, t) = (case trimmedString of
              [] \<Rightarrow> (False, trimmedString)
            | c # r \<Rightarrow> if c = CHR ''-'' then (True, r)
                       else if c = CHR ''+'' then (False, r) else (False, trimmedString))
      in if take 8 t = ''Infinity'' then (if neg then NegInfinity else PosInfinity)
         else
           (let ip = takeWhile is_digit t;
                r1 = dropWhile is_digit t;
                (fp, r2) = (case r1 of
                    [] \<Rightarrow> ([], r1)
                  | c # r \<Rightarrow> if c = CHR ''.''
                             then (takeWhile is_digit r, dropWhile is_digit r) else ([], r1))
            in if ip = [] \<and> fp = [] then NaN
               else
                 (let (eneg, e) = exponent_part r2;
                      m = real (digits_value ip) + real (digits_value fp) / 10 ^ length fp;
                      v = (if eneg then m / 10 ^ e else m * 10 ^ e)
                  in binary64 (if neg then - v else v))))"

text \<open>
  \<open>parseFloat(String(field || 0))\<close>, as every generator reads \<open>debit\<close> and \<open>credit\<close>: a
  field that is \<open>undefined\<close> or empty is falsy, and so read as \<open>parseFloat('0')\<close>.
\<close>

definition parseFloat_or_0 :: "string option \<Rightarrow> jsnum" where
  "parseFloat_or_0 field =
     (case field of
        None \<Rightarrow> parseFloat ''0''
      | Some s \<Rightarrow> if s = [] then parseFloat ''0'' else parseFloat s)"

text \<open>\<open>parseFloat(String(debit || 0)) - parseFloat(String(credit || 0))\<close>.\<close>

definition row_amount :: "string option \<Rightarrow> string option \<Rightarrow> jsnum" where
  "row_amount debit credit = js_sub (parseFloat_or_0 debit) (parseFloat_or_0 credit)"

subsection \<open>\<open>toFixed(2)\<close>\<close>

text \<open>
  \<open>Number.prototype.toFixed\<close> with two fraction digits, as ECMAScript defines it: the
  integer \<open>n\<close> nearest to \<open>100 x\<close> (the larger one of two), its digits padded to three,
  a point before the last two. At \<open>10^21\<close> and beyond the result is \<open>Number::toString\<close>
  instead, an exponent notation of the shortest digits that read back as the same
  binary64 number; that text is taken from outside (\<open>toStringLarge\<close>).
\<close>

definition toFixed2 :: "(real \<Rightarrow> string) \<Rightarrow> jsnum \<Rightarrow> string" where
  "toFixed2 toStringLarge x =
     (case x of
        NaN \<Rightarrow> ''NaN''
      | PosInfinity \<Rightarrow> ''Infinity''
      | NegInfinity \<Rightarrow> ''-Infinity''
      | Fin r \<Rightarrow>
          (let s = (if r < 0 then ''-'' else '''');
               y = \<bar>r\<bar>
           in if y \<ge> 10 ^ 21 then s @ toStringLarge y
              else
                (let n = nat \<lfloor>y * 100 + 1 / 2\<rfloor>;
                     m = digits n;
                     m = (if length m \<le> 2 then replicate (3 - length m) CHR ''0'' @ m else m);
                     k = length m
                 in s @ take (k - 2) m @ ''.'' @ drop (k - 2) m)))"

text \<open>A decimal numeral with exactly two fraction digits: an optional minus sign, one
  digit or more, a point, two digits.\<close>

definition two_decimals :: "string \<Rightarrow> bool" where
  "two_decimals s =
     (let u = (if s \<noteq> [] \<and> hd s = CHR ''-'' then tl s else s);
          k = length u
      in 4 \<le> k \<and> list_all is_digit (take (k - 3) u) \<and> u ! (k - 3) = CHR ''.''
         \<and> list_all is_digit (drop (k - 2) u))"

subsection \<open>JavaScript objects used as dictionaries\<close>

text \<open>
  An object made by the literal \<open>{}\<close> (or one with properties): its own properties, in the
  order of their creation, and behind them the members it inherits from
  \<open>Object.prototype\<close>. Reading a property finds an own property first, then an inherited
  member, and is \<open>undefined\<close> otherwise.
\<close>

type_synonym 'v object = "(string \<times> 'v) list"

definition Object_prototype_names :: "string list" where
  "Object_prototype_names =
     [''constructor'', ''__defineGetter__'', ''__defineSetter__'', ''hasOwnProperty'',
      ''__lookupGetter__'', ''__lookupSetter__'', ''isPrototypeOf'', ''propertyIsEnumerable'',
      ''toString'', ''valueOf'', ''__proto__'', ''toLocaleString'']"

datatype 'v lookup = Undefined | Own 'v | Inherited

definition get :: "'v object \<Rightarrow> string \<Rightarrow> 'v lookup" where
  "get obj key =
     (case map_of obj key of
        Some v \<Rightarrow> Own v
      | None \<Rightarrow> if key \<in> set Object_prototype_names then Inherited else Undefined)"

text \<open>
  \<open>obj[key] = v\<close> for a number or a string \<open>v\<close>: an own property is overwritten where it
  stands, a new one is created last. \<open>__proto__\<close> is the one inherited member that is a
  setter, and it ignores a value that is not an object.
\<close>

definition put :: "'v object \<Rightarrow> string \<Rightarrow> 'v \<Rightarrow> 'v object" where
  "put obj key v =
     (if key = ''__proto__'' then obj
      else if key \<in> set (map fst obj)
      then map (\<lambda>(k, w). if k = key then (k, v) else (k, w)) obj
      else obj @ [(key, v)])"

definition hasOwnProperty :: "'v object \<Rightarrow> string \<Rightarrow> bool" where
  "hasOwnProperty obj key = (key \<in> set (map fst obj))"

text \<open>
  The order in which \<open>Object.entries\<close> and \<open>Object.keys\<close> list own properties: first the
  keys that are array indices (the canonical numerals of \<open>0\<close> to \<open>2^32 - 2\<close>), ascending,
  then the other keys in the order of their creation.
\<close>

definition is_array_index :: "string \<Rightarrow> bool" where
  "is_array_index key =
     (key \<noteq> [] \<and> list_all is_digit key \<and> (key = ''0'' \<or> hd key \<noteq> CHR ''0'')
      \<and> digits_value key < 4294967295)"

definition entries :: "'v object \<Rightarrow> (string \<times> 'v) list" where
  "entries obj =
     sort_key (\<lambda>(k, v). digits_value k) (filter (\<lambda>(k, v). is_array_index k) obj)
     @ filter (\<lambda>(k, v). \<not> is_array_index k) obj"

text \<open>
  What a dictionary of balances holds under a key: a number, or a value that is not a
  number. The latter arises when \<open>+=\<close> meets an inherited member: a function plus a number
  is a string.
\<close>

datatype cell = Num jsnum | NotNumber

definition truthy :: "cell lookup \<Rightarrow> bool" where
  "truthy l =
     (case l of
        Undefined \<Rightarrow> False
      | Own (Num x) \<Rightarrow> truthy_number x
      | Own NotNumber \<Rightarrow> True
      | Inherited \<Rightarrow> True)"

text \<open>\<open>l + amount\<close> for a number \<open>amount\<close>.\<close>

definition plus_amount :: "cell lookup \<Rightarrow> jsnum \<Rightarrow> cell" where
  "plus_amount l amount =
     (case l of
        Undefined \<Rightarrow> Num NaN
      | Own (Num x) \<Rightarrow> Num (js_add x amount)
      | Own NotNumber \<Rightarrow> NotNumber
      | Inherited \<Rightarrow> NotNumber)"

text \<open>
  The step the \<open>accounts\<close> and \<open>yearly\<close> loops share:
  \<open>if (!balances[key]) balances[key] = 0; balances[key] += amount\<close>.
\<close>

definition add_to :: "cell object \<Rightarrow> string \<Rightarrow> jsnum \<Rightarrow> cell object" where
  "add_to balances key amount =
     (let b = (if \<not> truthy (get balances key) then put balances key (Num (Fin 0))
               else balances)
      in put b key (plus_amount (get b key) amount))"

text \<open>The property key of a destructured field: \<open>undefined\<close> is the key \<open>''undefined''\<close>.\<close>

definition property_key :: "string option \<Rightarrow> string" where
  "property_key field = (case field of None \<Rightarrow> ''undefined'' | Some s \<Rightarrow> s)"

subsection \<open>The world outside the service\<close>

text \<open>
  What one run of a generator gets from outside: the file system (each call may fail,
  with the message of its error), the order in which the reads the asynchronous
  generators start together complete, the calendar year the runtime's \<open>Date\<close> gives a date
  field in local time (\<open>None\<close> is \<open>NaN\<close>, an unreadable date), and \<open>toStringLarge\<close> of the
  section on \<open>toFixed\<close>. The time a generator measures with \<open>performance.now()\<close> is a
  parameter of its own.
\<close>

record io =
  readdir :: "string \<Rightarrow> string + string list"
  readFile :: "string \<Rightarrow> string + string"
  writeFile :: "string \<Rightarrow> string \<Rightarrow> string option"
  completion :: "string list \<Rightarrow> string list"
  getFullYear :: "string \<Rightarrow> int option"
  toStringLarge :: "real \<Rightarrow> string"

text \<open>\<open>path.join(dir, file)\<close> for a directory and a name that \<open>readdir\<close> listed.\<close>

definition path_join :: "string \<Rightarrow> string \<Rightarrow> string" where
  "path_join dir file = dir @ ''/'' @ file"

text \<open>
  Reading the files one after the other and working each into the accumulator; the
  first read that fails ends it with that error.
\<close>

fun read_each ::
  "io \<Rightarrow> string \<Rightarrow> (string \<Rightarrow> 'b \<Rightarrow> 'b) \<Rightarrow> string list \<Rightarrow> 'b \<Rightarrow> string + 'b" where
  "read_each w dir per_file [] acc = Inr acc"
| "read_each w dir per_file (file # files) acc =
     (case readFile w (path_join dir file) of
        Inl msg \<Rightarrow> Inl msg
      | Inr content \<Rightarrow> read_each w dir per_file files (per_file content acc))"

text \<open>\<open>content.trim().split('\n')\<close>, and the fields of a line the loops read.\<close>

definition file_lines :: "string \<Rightarrow> string list" where
  "file_lines content = split CHR 0x0A (trim content)"

definition line_account :: "string \<Rightarrow> string option" where
  "line_account line = element (split CHR '','' line) 1"

definition line_amount :: "string \<Rightarrow> jsnum" where
  "line_amount line =
     row_amount (element (split CHR '','' line) 3) (element (split CHR '','' line) 4)"

text \<open>
  \<open>`${key},${balance.toFixed(2)}`\<close> for each pair; \<open>toFixed\<close> is a method of numbers only,
  and calling it on another value throws a \<open>TypeError\<close> with the given message.
\<close>

fun balance_rows ::
  "(real \<Rightarrow> string) \<Rightarrow> string \<Rightarrow> (string \<times> cell) list \<Rightarrow> string + string list" where
  "balance_rows ts msg [] = Inr []"
| "balance_rows ts msg ((key, balance) # es) =
     (case balance of
        NotNumber \<Rightarrow> Inl msg
      | Num x \<Rightarrow>
          (case balance_rows ts msg es of
             Inl e \<Rightarrow> Inl e
           | Inr rows \<Rightarrow> Inr ((key @ '','' @ toFixed2 ts x) # rows)))"

subsection \<open>The service object\<close>

record ReportTimeMetrics =
  accounts_time :: real
  yearly_time :: real
  fs_time :: real
  total_time :: real

record ReportMetrics =
  lastRunTime :: ReportTimeMetrics
  averageRunTime :: ReportTimeMetrics
  runs :: nat
  lastRun :: "nat option"

record ReportsService =
  TMP_DIR :: string
  OUTPUT_DIR :: string
  PARALLEL_PROCESSING :: bool
  states :: "string object"
  metrics :: ReportMetrics

text \<open>
  The configuration the constructor reads with \<open>configService.get(key, default)\<close>: a key
  may be unset.
\<close>

record ConfigService =
  reports_tmpDir :: "string option"
  reports_outputDir :: "string option"
  reports_parallelProcessing :: "bool option"

definition config_get :: "'a option \<Rightarrow> 'a \<Rightarrow> 'a" where
  "config_get configured defaultValue =
     (case configured of None \<Rightarrow> defaultValue | Some v \<Rightarrow> v)"

text \<open>The constructor, with the initial values of the fields \<open>states\<close> and \<open>metrics\<close>.\<close>

definition new_ReportsService :: "ConfigService \<Rightarrow> ReportsService" where
  "new_ReportsService configService =
     \<lparr>TMP_DIR = config_get (reports_tmpDir configService) ''tmp'',
      OUTPUT_DIR = config_get (reports_outputDir configService) ''out'',
      PARALLEL_PROCESSING = config_get (reports_parallelProcessing configService) True,
      states = [(''accounts'', ''idle''), (''yearly'', ''idle''), (''fs'', ''idle'')],
      metrics = \<lparr>
        lastRunTime = \<lparr>accounts_time = 0, yearly_time = 0, fs_time = 0, total_time = 0\<rparr>,
        averageRunTime = \<lparr>accounts_time = 0, yearly_time = 0, fs_time = 0, total_time = 0\<rparr>,
        runs = 0, lastRun = None\<rparr>\<rparr>"

text \<open>\<open>ensureDirectoriesExist\<close>: the directories the constructor creates when absent.\<close>

definition ensureDirectoriesExist :: "ReportsService \<Rightarrow> string list" where
  "ensureDirectoriesExist svc = [TMP_DIR svc, OUTPUT_DIR svc]"

text \<open>\<open>state(scope)\<close> is \<open>this.states[scope]\<close>.\<close>

definition state :: "ReportsService \<Rightarrow> string \<Rightarrow> string lookup" where
  "state svc scope = get (states svc) scope"

definition getMetrics :: "ReportsService \<Rightarrow> ReportMetrics" where
  "getMetrics svc = metrics svc"

record ReportsStatusResponse =
  accounts_csv :: "string lookup"
  yearly_csv :: "string lookup"
  fs_csv :: "string lookup"
  response_metrics :: ReportMetrics

definition getReportStatus :: "ReportsService \<Rightarrow> ReportsStatusResponse" where
  "getReportStatus svc =
     \<lparr>accounts_csv = state svc ''accounts'', yearly_csv = state svc ''yearly'',
      fs_csv = state svc ''fs'', response_metrics = getMetrics svc\<rparr>"

text \<open>\<open>this.states.accounts = status\<close> and its like.\<close>

definition set_state :: "string \<Rightarrow> string \<Rightarrow> ReportsService \<Rightarrow> ReportsService" where
  "set_state name status svc = svc\<lparr>states := put (states svc) name status\<rparr>"

text \<open>\<open>`finished in ${(processTime / 1000).toFixed(2)}`\<close>.\<close>

definition finished_in :: "io \<Rightarrow> real \<Rightarrow> string" where
  "finished_in w processTime =
     ''finished in '' @ toFixed2 (toStringLarge w) (binary64 (processTime / 1000))"

text \<open>
  The running average every duration metric is updated with:
  \<open>(average * this.metrics.runs + time) / (this.metrics.runs + 1)\<close>, each of the four
  operations rounded to binary64. Times and their averages are finite numbers far from
  the overflow of binary64, and are kept as reals.
\<close>

definition running_average :: "real \<Rightarrow> nat \<Rightarrow> real \<Rightarrow> real" where
  "running_average average n time =
     round64 (round64 (round64 (average * real n) + time) / round64 (real n + 1))"

subsection \<open>The accounts report\<close>

text \<open>The body of the loop over the lines of a file, and the loop.\<close>

definition accounts_line :: "string \<Rightarrow> cell object \<Rightarrow> cell object" where
  "accounts_line line accountBalances =
     add_to accountBalances (property_key (line_account line)) (line_amount line)"

definition accounts_file :: "string \<Rightarrow> cell object \<Rightarrow> cell object" where
  "accounts_file content accountBalances =
     fold accounts_line (file_lines content) accountBalances"

definition accounts_csvFiles :: "string list \<Rightarrow> string list" where
  "accounts_csvFiles files = filter (\<lambda>file. endsWith file ''.csv'') files"

text \<open>The lines of the report, from the balances.\<close>

definition accounts_output :: "(real \<Rightarrow> string) \<Rightarrow> cell object \<Rightarrow> string + string list" where
  "accounts_output ts accountBalances =
     (case balance_rows ts ''balance.toFixed is not a function'' (entries accountBalances) of
        Inl msg \<Rightarrow> Inl msg
      | Inr rows \<Rightarrow> Inr (''Account,Balance'' # rows))"

text \<open>
  The \<open>try\<close> block of \<open>accountsAsync\<close> up to the write: the error it throws, or the path
  and the text it has written. The directory and the path are the literals of the source.
\<close>

definition accountsAsync_try :: "io \<Rightarrow> string + string \<times> string" where
  "accountsAsync_try w =
     (let tmpDir = ''tmp''; outputFile = ''out/accounts.csv'' in
      case readdir w tmpDir of
        Inl msg \<Rightarrow> Inl msg
      | Inr files \<Rightarrow>
          (case read_each w tmpDir accounts_file (completion w (accounts_csvFiles files)) [] of
             Inl msg \<Rightarrow> Inl msg
           | Inr accountBalances \<Rightarrow>
               (case accounts_output (toStringLarge w) accountBalances of
                  Inl msg \<Rightarrow> Inl msg
                | Inr output \<Rightarrow>
                    (case writeFile w outputFile (join [CHR 0x0A] output) of
                       Some msg \<Rightarrow> Inl msg
                     | None \<Rightarrow> Inr (outputFile, join [CHR 0x0A] output)))))"

text \<open>
  \<open>accountsAsync\<close> in its two steps: up to its first \<open>await\<close> it sets the status, and when
  its work is done (or has thrown) it sets the status again and, on success, the
  metrics. It returns its boolean and what it wrote.
\<close>

definition accountsAsync_start :: "ReportsService \<Rightarrow> ReportsService" where
  "accountsAsync_start svc = set_state ''accounts'' ''starting'' svc"

definition accountsAsync_finish ::
  "io \<Rightarrow> real \<Rightarrow> ReportsService \<Rightarrow> (bool \<times> (string \<times> string) list) \<times> ReportsService" where
  "accountsAsync_finish w processTime svc =
     (case accountsAsync_try w of
        Inr written \<Rightarrow>
          ((True, [written]),
           (set_state ''accounts'' (finished_in w processTime @ '' seconds'') svc)
             \<lparr>metrics := (metrics svc)
               \<lparr>lastRunTime := (lastRunTime (metrics svc))\<lparr>accounts_time := processTime\<rparr>,
                averageRunTime := (averageRunTime (metrics svc))
                  \<lparr>accounts_time := running_average
                     (accounts_time (averageRunTime (metrics svc))) (runs (metrics svc))
                     processTime\<rparr>\<rparr>\<rparr>)
      | Inl msg \<Rightarrow> ((False, []), set_state ''accounts'' (''error: '' @ msg) svc))"

definition accountsAsync ::
  "io \<Rightarrow> real \<Rightarrow> ReportsService \<Rightarrow> (bool \<times> (string \<times> string) list) \<times> ReportsService" where
  "accountsAsync w processTime svc = accountsAsync_finish w processTime (accountsAsync_start svc)"

text \<open>
  The synchronous \<open>accounts()\<close>: the files in the order of the listing, no \<open>try\<close>, so an
  error is thrown to the caller (\<open>Inl\<close>) with the status left at \<open>starting\<close>; no metrics.
\<close>

definition accounts_sync_body :: "io \<Rightarrow> string + string \<times> string" where
  "accounts_sync_body w =
     (let tmpDir = ''tmp''; outputFile = ''out/accounts.csv'' in
      case readdir w tmpDir of
        Inl msg \<Rightarrow> Inl msg
      | Inr files \<Rightarrow>
          (case read_each w tmpDir accounts_file (accounts_csvFiles files) [] of
             Inl msg \<Rightarrow> Inl msg
           | Inr accountBalances \<Rightarrow>
               (case accounts_output (toStringLarge w) accountBalances of
                  Inl msg \<Rightarrow> Inl msg
                | Inr output \<Rightarrow>
                    (case writeFile w outputFile (join [CHR 0x0A] output) of
                       Some msg \<Rightarrow> Inl msg
                     | None \<Rightarrow> Inr (outputFile, join [CHR 0x0A] output)))))"

definition accounts ::
  "io \<Rightarrow> real \<Rightarrow> ReportsService \<Rightarrow> (string + string \<times> string) \<times> ReportsService" where
  "accounts w processTime svc =
     (case accounts_sync_body w of
        Inl msg \<Rightarrow> (Inl msg, set_state ''accounts'' ''starting'' svc)
      | Inr written \<Rightarrow>
          (Inr written,
           set_state ''accounts'' (finished_in w processTime)
             (set_state ''accounts'' ''starting'' svc)))"

subsection \<open>The yearly report\<close>

text \<open>\<open>String(year)\<close> for the number \<open>getFullYear()\<close> returns.\<close>

definition year_key :: "int option \<Rightarrow> string" where
  "year_key year =
     (case year of
        None \<Rightarrow> ''NaN''
      | Some y \<Rightarrow> if y < 0 then ''-'' @ digits (nat (- y)) else digits (nat y))"

definition yearly_line :: "io \<Rightarrow> string \<Rightarrow> cell object \<Rightarrow> cell object" where
  "yearly_line w line cashByYear =
     (if line_account line = Some ''Cash''
      then add_to cashByYear (year_key (getFullYear w (hd (split CHR '','' line))))
             (line_amount line)
      else cashByYear)"

definition yearly_file :: "io \<Rightarrow> string \<Rightarrow> cell object \<Rightarrow> cell object" where
  "yearly_file w content cashByYear = fold (yearly_line w) (file_lines content) cashByYear"

definition yearly_csvFiles :: "string list \<Rightarrow> string list" where
  "yearly_csvFiles files =
     filter (\<lambda>file. endsWith file ''.csv'' \<and> file \<noteq> ''yearly.csv'') files"

text \<open>The rows follow \<open>Object.keys(cashByYear).sort()\<close>: the keys as strings, ascending.\<close>

definition yearly_output :: "(real \<Rightarrow> string) \<Rightarrow> cell object \<Rightarrow> string + string list" where
  "yearly_output ts cashByYear =
     (case balance_rows ts ''cashByYear[year].toFixed is not a function''
             (sort_key fst (entries cashByYear)) of
        Inl msg \<Rightarrow> Inl msg
      | Inr rows \<Rightarrow> Inr (''Financial Year,Cash Balance'' # rows))"

definition yearly_body :: "io \<Rightarrow> string list \<Rightarrow> string + string \<times> string" where
  "yearly_body w csvFiles =
     (let tmpDir = ''tmp''; outputFile = ''out/yearly.csv'' in
      case read_each w tmpDir (yearly_file w) csvFiles [] of
        Inl msg \<Rightarrow> Inl msg
      | Inr cashByYear \<Rightarrow>
          (case yearly_output (toStringLarge w) cashByYear of
             Inl msg \<Rightarrow> Inl msg
           | Inr output \<Rightarrow>
               (case writeFile w outputFile (join [CHR 0x0A] output) of
                  Some msg \<Rightarrow> Inl msg
                | None \<Rightarrow> Inr (outputFile, join [CHR 0x0A] output))))"

definition yearlyAsync_try :: "io \<Rightarrow> string + string \<times> string" where
  "yearlyAsync_try w =
     (case readdir w ''tmp'' of
        Inl msg \<Rightarrow> Inl msg
      | Inr files \<Rightarrow> yearly_body w (completion w (yearly_csvFiles files)))"

definition yearlyAsync_start :: "ReportsService \<Rightarrow> ReportsService" where
  "yearlyAsync_start svc = set_state ''yearly'' ''starting'' svc"

definition yearlyAsync_finish ::
  "io \<Rightarrow> real \<Rightarrow> ReportsService \<Rightarrow> (bool \<times> (string \<times> string) list) \<times> ReportsService" where
  "yearlyAsync_finish w processTime svc =
     (case yearlyAsync_try w of
        Inr written \<Rightarrow>
          ((True, [written]),
           (set_state ''yearly'' (finished_in w processTime @ '' seconds'') svc)
             \<lparr>metrics := (metrics svc)
               \<lparr>lastRunTime := (lastRunTime (metrics svc))\<lparr>yearly_time := processTime\<rparr>,
                averageRunTime := (averageRunTime (metrics svc))
                  \<lparr>yearly_time := running_average
                     (yearly_time (averageRunTime (metrics svc))) (runs (metrics svc))
                     processTime\<rparr>\<rparr>\<rparr>)
      | Inl msg \<Rightarrow> ((False, []), set_state ''yearly'' (''error: '' @ msg) svc))"

definition yearlyAsync ::
  "io \<Rightarrow> real \<Rightarrow> ReportsService \<Rightarrow> (bool \<times> (string \<times> string) list) \<times> ReportsService" where
  "yearlyAsync w processTime svc = yearlyAsync_finish w processTime (yearlyAsync_start svc)"

definition yearly_sync_body :: "io \<Rightarrow> string + string \<times> string" where
  "yearly_sync_body w =
     (case readdir w ''tmp'' of
        Inl msg \<Rightarrow> Inl msg
      | Inr files \<Rightarrow> yearly_body w (yearly_csvFiles files))"

definition yearly ::
  "io \<Rightarrow> real \<Rightarrow> ReportsService \<Rightarrow> (string + string \<times> string) \<times> ReportsService" where
  "yearly w processTime svc =
     (case yearly_sync_body w of
        Inl msg \<Rightarrow> (Inl msg, set_state ''yearly'' ''starting'' svc)
      | Inr written \<Rightarrow>
          (Inr written,
           set_state ''yearly'' (finished_in w processTime)
             (set_state ''yearly'' ''starting'' svc)))"

subsection \<open>The financial statement\<close>

definition Revenues :: "string list" where
  "Revenues = [''Sales Revenue'']"

definition Expenses :: "string list" where
  "Expenses = [''Cost of Goods Sold'', ''Salaries Expense'', ''Rent Expense'',
     ''Utilities Expense'', ''Interest Expense'', ''Tax Expense'']"

definition Assets :: "string list" where
  "Assets = [''Cash'', ''Accounts Receivable'', ''Inventory'', ''Fixed Assets'',
     ''Prepaid Expenses'']"

definition Liabilities :: "string list" where
  "Liabilities = [''Accounts Payable'', ''Loan Payable'', ''Sales Tax Payable'',
     ''Accrued Liabilities'', ''Unearned Revenue'', ''Dividends Payable'']"

definition Equity :: "string list" where
  "Equity = [''Common Stock'', ''Retained Earnings'']"

text \<open>\<open>balances[account] = 0\<close> for every account of every group of every section.\<close>

definition fs_initial_balances :: "cell object" where
  "fs_initial_balances =
     fold (\<lambda>account balances. put balances account (Num (Fin 0)))
       (Revenues @ Expenses @ Assets @ Liabilities @ Equity) []"

definition fs_line :: "string \<Rightarrow> cell object \<Rightarrow> cell object" where
  "fs_line line balances =
     (let account = property_key (line_account line) in
      if hasOwnProperty balances account
      then put balances account (plus_amount (get balances account) (line_amount line))
      else balances)"

definition fs_file :: "string \<Rightarrow> cell object \<Rightarrow> cell object" where
  "fs_file content balances = fold fs_line (file_lines content) balances"

definition fs_csvFiles :: "string list \<Rightarrow> string list" where
  "fs_csvFiles files = filter (\<lambda>file. endsWith file ''.csv'' \<and> file \<noteq> ''fs.csv'') files"

text \<open>\<open>balances[account] || 0\<close>.\<close>

definition or_0 :: "cell lookup \<Rightarrow> cell" where
  "or_0 l =
     (if truthy l then (case l of Own c \<Rightarrow> c | Inherited \<Rightarrow> NotNumber | Undefined \<Rightarrow> Num (Fin 0))
      else Num (Fin 0))"

text \<open>
  One group of the report: for each account the line \<open>`${account},${value.toFixed(2)}`\<close>
  is pushed and the value added to the total of the group.
\<close>

fun fs_group ::
  "(real \<Rightarrow> string) \<Rightarrow> cell object \<Rightarrow> string list \<Rightarrow> string list \<times> jsnum
     \<Rightarrow> string + string list \<times> jsnum" where
  "fs_group ts balances [] acc = Inr acc"
| "fs_group ts balances (account # rest) (output, subtotal) =
     (case or_0 (get balances account) of
        NotNumber \<Rightarrow> Inl ''value.toFixed is not a function''
      | Num x \<Rightarrow> fs_group ts balances rest
          (output @ [account @ '','' @ toFixed2 ts x], js_add subtotal x))"

definition fs_output :: "(real \<Rightarrow> string) \<Rightarrow> cell object \<Rightarrow> string + string list" where
  "fs_output ts balances =
     (case fs_group ts balances Revenues
             ([''Basic Financial Statement'', '''', ''Income Statement''], Fin 0) of
        Inl msg \<Rightarrow> Inl msg
      | Inr (o1, totalRevenue) \<Rightarrow>
     (case fs_group ts balances Expenses (o1, Fin 0) of
        Inl msg \<Rightarrow> Inl msg
      | Inr (o2, totalExpenses) \<Rightarrow>
     (case fs_group ts balances Assets
             (o2 @ [''Net Income,'' @ toFixed2 ts (js_sub totalRevenue totalExpenses), '''',
                    ''Balance Sheet'', ''Assets''], Fin 0) of
        Inl msg \<Rightarrow> Inl msg
      | Inr (o3, totalAssets) \<Rightarrow>
     (case fs_group ts balances Liabilities
             (o3 @ [''Total Assets,'' @ toFixed2 ts totalAssets, '''', ''Liabilities''],
              Fin 0) of
        Inl msg \<Rightarrow> Inl msg
      | Inr (o4, totalLiabilities) \<Rightarrow>
     (case fs_group ts balances Equity
             (o4 @ [''Total Liabilities,'' @ toFixed2 ts totalLiabilities, '''', ''Equity''],
              Fin 0) of
        Inl msg \<Rightarrow> Inl msg
      | Inr (o5, equity) \<Rightarrow>
          (let totalEquity = js_add equity (js_sub totalRevenue totalExpenses) in
           Inr (o5 @
             [''Retained Earnings (Net Income),''
                @ toFixed2 ts (js_sub totalRevenue totalExpenses),
              ''Total Equity,'' @ toFixed2 ts totalEquity,
              '''',
              ''Assets = Liabilities + Equity, '' @ toFixed2 ts totalAssets @ '' = ''
                @ toFixed2 ts (js_add totalLiabilities totalEquity)])))))))"

definition fs_body :: "io \<Rightarrow> string list \<Rightarrow> string + string \<times> string" where
  "fs_body w csvFiles =
     (let tmpDir = ''tmp''; outputFile = ''out/fs.csv'' in
      case read_each w tmpDir fs_file csvFiles fs_initial_balances of
        Inl msg \<Rightarrow> Inl msg
      | Inr balances \<Rightarrow>
          (case fs_output (toStringLarge w) balances of
             Inl msg \<Rightarrow> Inl msg
           | Inr output \<Rightarrow>
               (case writeFile w outputFile (join [CHR 0x0A] output) of
                  Some msg \<Rightarrow> Inl msg
                | None \<Rightarrow> Inr (outputFile, join [CHR 0x0A] output))))"

definition fsAsync_try :: "io \<Rightarrow> string + string \<times> string" where
  "fsAsync_try w =
     (case readdir w ''tmp'' of
        Inl msg \<Rightarrow> Inl msg
      | Inr files \<Rightarrow> fs_body w (completion w (fs_csvFiles files)))"

definition fsAsync_start :: "ReportsService \<Rightarrow> ReportsService" where
  "fsAsync_start svc = set_state ''fs'' ''starting'' svc"

definition fsAsync_finish ::
  "io \<Rightarrow> real \<Rightarrow> ReportsService \<Rightarrow> (bool \<times> (string \<times> string) list) \<times> ReportsService" where
  "fsAsync_finish w processTime svc =
     (case fsAsync_try w of
        Inr written \<Rightarrow>
          ((True, [written]),
           (set_state ''fs'' (finished_in w processTime @ '' seconds'') svc)
             \<lparr>metrics := (metrics svc)
               \<lparr>lastRunTime := (lastRunTime (metrics svc))\<lparr>fs_time := processTime\<rparr>,
                averageRunTime := (averageRunTime (metrics svc))
                  \<lparr>fs_time := running_average
                     (fs_time (averageRunTime (metrics svc))) (runs (metrics svc))
                     processTime\<rparr>\<rparr>\<rparr>)
      | Inl msg \<Rightarrow> ((False, []), set_state ''fs'' (''error: '' @ msg) svc))"

definition fsAsync ::
  "io \<Rightarrow> real \<Rightarrow> ReportsService \<Rightarrow> (bool \<times> (string \<times> string) list) \<times> ReportsService" where
  "fsAsync w processTime svc = fsAsync_finish w processTime (fsAsync_start svc)"

definition fs_sync_body :: "io \<Rightarrow> string + string \<times> string" where
  "fs_sync_body w =
     (case readdir w ''tmp'' of
        Inl msg \<Rightarrow> Inl msg
      | Inr files \<Rightarrow> fs_body w (fs_csvFiles files))"

definition fs ::
  "io \<Rightarrow> real \<Rightarrow> ReportsService \<Rightarrow> (string + string \<times> string) \<times> ReportsService" where
  "fs w processTime svc =
     (case fs_sync_body w of
        Inl msg \<Rightarrow> (Inl msg, set_state ''fs'' ''starting'' svc)
      | Inr written \<Rightarrow>
          (Inr written,
           set_state ''fs'' (finished_in w processTime)
             (set_state ''fs'' ''starting'' svc)))"

subsection \<open>The pipeline\<close>

text \<open>
  What one run of \<open>processReportsAsync\<close> gets from outside: the world and the measured
  time of each generator, the total time measured, and the date at its end.
\<close>

record pipeline_run =
  accounts_io :: io
  accounts_ms :: real
  yearly_io :: io
  yearly_ms :: real
  fs_io :: io
  fs_ms :: real
  total_ms :: real
  completed_at :: nat

text \<open>The statements of \<open>processReportsAsync\<close> after the three generators.\<close>

definition pipeline_totals :: "real \<Rightarrow> nat \<Rightarrow> ReportsService \<Rightarrow> ReportsService" where
  "pipeline_totals totalTime now svc =
     svc\<lparr>metrics := (metrics svc)
       \<lparr>lastRunTime := (lastRunTime (metrics svc))\<lparr>total_time := totalTime\<rparr>,
        averageRunTime := (averageRunTime (metrics svc))
          \<lparr>total_time := running_average (total_time (averageRunTime (metrics svc)))
             (runs (metrics svc)) totalTime\<rparr>,
        runs := runs (metrics svc) + 1,
        lastRun := Some now\<rparr>\<rparr>"

text \<open>
  \<open>processReportsAsync\<close>. No generator throws (each returns its boolean), so the \<open>catch\<close>
  block that would return \<open>false\<close> is never entered, and the generators' booleans are
  dropped. Under \<open>Promise.all\<close> the three generators are started one after the other,
  each running to its first \<open>await\<close>, and finish in an order the runtime chooses; they
  are finished here in the order of the array (lemma \<open>finish_order_irrelevant\<close> shows
  that the order changes nothing).
\<close>

definition processReportsAsync ::
  "pipeline_run \<Rightarrow> ReportsService \<Rightarrow> (bool \<times> (string \<times> string) list) \<times> ReportsService" where
  "processReportsAsync r svc =
     (if PARALLEL_PROCESSING svc then
        (let s0 = fsAsync_start (yearlyAsync_start (accountsAsync_start svc));
             ((a, wa), s1) = accountsAsync_finish (accounts_io r) (accounts_ms r) s0;
             ((y, wy), s2) = yearlyAsync_finish (yearly_io r) (yearly_ms r) s1;
             ((f, wf), s3) = fsAsync_finish (fs_io r) (fs_ms r) s2
         in ((True, wa @ wy @ wf), pipeline_totals (total_ms r) (completed_at r) s3))
      else
        (let ((a, wa), s1) = accountsAsync (accounts_io r) (accounts_ms r) svc;
             ((y, wy), s2) = yearlyAsync (yearly_io r) (yearly_ms r) s1;
             ((f, wf), s3) = fsAsync (fs_io r) (fs_ms r) s2
         in ((True, wa @ wy @ wf), pipeline_totals (total_ms r) (completed_at r) s3)))"

subsection \<open>Histories of the service\<close>

text \<open>
  Everything that changes the service object, step by step: a status query may come
  between any two steps, and what it can see is the service after a list of steps.
\<close>

datatype operation =
    AccountsAsync_start
  | AccountsAsync_finish io real
  | YearlyAsync_start
  | YearlyAsync_finish io real
  | FsAsync_start
  | FsAsync_finish io real
  | Accounts io real
  | Yearly io real
  | Fs io real
  | Pipeline_totals real nat

fun perform :: "operation \<Rightarrow> ReportsService \<Rightarrow> ReportsService" where
  "perform AccountsAsync_start svc = accountsAsync_start svc"
| "perform (AccountsAsync_finish w t) svc = snd (accountsAsync_finish w t svc)"
| "perform YearlyAsync_start svc = yearlyAsync_start svc"
| "perform (YearlyAsync_finish w t) svc = snd (yearlyAsync_finish w t svc)"
| "perform FsAsync_start svc = fsAsync_start svc"
| "perform (FsAsync_finish w t) svc = snd (fsAsync_finish w t svc)"
| "perform (Accounts w t) svc = snd (accounts w t svc)"
| "perform (Yearly w t) svc = snd (yearly w t svc)"
| "perform (Fs w t) svc = snd (fs w t svc)"
| "perform (Pipeline_totals t now) svc = pipeline_totals t now svc"

definition history :: "operation list \<Rightarrow> ReportsService \<Rightarrow> ReportsService" where
  "history ops svc = fold perform ops svc"

section \<open>Notions of the specification, and worlds to run the service in\<close>

text \<open>
  The shapes the specification gives a status string: \<open>idle\<close>, \<open>starting\<close>,
  \<open>finished in <seconds, 2 decimals> seconds\<close>, \<open>error: <message>\<close>.
\<close>

definition finished_seconds :: "string \<Rightarrow> bool" where
  "finished_seconds s =
     (take 12 s = ''finished in '' \<and> 20 \<le> length s
      \<and> drop (length s - 8) s = '' seconds''
      \<and> two_decimals (take (length s - 20) (drop 12 s)))"

definition error_message :: "string \<Rightarrow> bool" where
  "error_message s = (take 7 s = ''error: '')"

definition status_shape :: "string \<Rightarrow> bool" where
  "status_shape s =
     (s = ''idle'' \<or> s = ''starting'' \<or> finished_seconds s \<or> error_message s)"

text \<open>A service as the constructor makes it with nothing configured.\<close>

definition default_config :: ConfigService where
  "default_config =
     \<lparr>reports_tmpDir = None, reports_outputDir = None, reports_parallelProcessing = None\<rparr>"

text \<open>
  A world whose staging directory is empty, and one that has no staging directory: there
  \<open>readdir\<close> fails as Node does.
\<close>

definition empty_dir :: io where
  "empty_dir =
     \<lparr>readdir = (\<lambda>dir. Inr []), readFile = (\<lambda>path. Inl ''ENOENT''),
      writeFile = (\<lambda>path text. None), completion = (\<lambda>files. files),
      getFullYear = (\<lambda>date. None), toStringLarge = (\<lambda>x. ''1e+21'')\<rparr>"

definition no_dir :: io where
  "no_dir =
     \<lparr>readdir = (\<lambda>dir. Inl (''ENOENT: no such file or directory, scandir '' @ dir)),
      readFile = (\<lambda>path. Inl ''ENOENT''),
      writeFile = (\<lambda>path text. None), completion = (\<lambda>files. files),
      getFullYear = (\<lambda>date. None), toStringLarge = (\<lambda>x. ''1e+21'')\<rparr>"

text \<open>
  The rule of the specification for a running average:
  \<open>newAverage = (oldAverage * runsBeforeThisUpdate + thisRunDuration) /
  (runsBeforeThisUpdate + 1)\<close>, evaluated in the arithmetic of the runtime: the product,
  the two sums and the quotient are each rounded to binary64.
\<close>

definition spec_newAverage :: "real \<Rightarrow> nat \<Rightarrow> real \<Rightarrow> real" where
  "spec_newAverage oldAverage runsBeforeThisUpdate thisRunDuration =
     round64
       (round64 (round64 (oldAverage * real runsBeforeThisUpdate) + thisRunDuration)
        / round64 (real runsBeforeThisUpdate + 1))"

text \<open>Whether a \<open>try\<close> block ran to its end.\<close>

fun succeeded :: "'e + 'a \<Rightarrow> bool" where
  "succeeded (Inr written) = True"
| "succeeded (Inl msg) = False"

text \<open>A run of the pipeline in which every generator finds the staging directory empty,
  and one in which the accounts generator finds no staging directory.\<close>

definition quiet_run :: pipeline_run where
  "quiet_run =
     \<lparr>accounts_io = empty_dir, accounts_ms = 1000, yearly_io = empty_dir, yearly_ms = 3000,
      fs_io = empty_dir, fs_ms = 5000, total_ms = 6000, completed_at = 1762164000000\<rparr>"

definition failing_run :: pipeline_run where
  "failing_run =
     \<lparr>accounts_io = no_dir, accounts_ms = 10, yearly_io = empty_dir, yearly_ms = 3000,
      fs_io = empty_dir, fs_ms = 5000, total_ms = 6000, completed_at = 1762164000000\<rparr>"

text \<open>
  A world whose staging directory holds a file named like the report of the accounts
  generator, with the text of an earlier report in it.
\<close>

definition earlier_report :: io where
  "earlier_report =
     \<lparr>readdir = (\<lambda>dir. if dir = ''tmp'' then Inr [''accounts.csv''] else Inl ''ENOENT''),
      readFile = (\<lambda>path. if path = ''tmp/accounts.csv''
         then Inr (join [CHR 0x0A] [''Account,Balance'', ''Cash,700.00'']) else Inl ''ENOENT''),
      writeFile = (\<lambda>path text. None), completion = (\<lambda>files. files),
      getFullYear = (\<lambda>date. None), toStringLarge = (\<lambda>x. ''1e+21'')\<rparr>"

text \<open>
  A service configured with the directories \<open>data\<close> and \<open>reports\<close>, and a world in which
  \<open>data\<close> holds a ledger while \<open>tmp\<close> is empty.
\<close>

definition configured :: ConfigService where
  "configured =
     \<lparr>reports_tmpDir = Some ''data'', reports_outputDir = Some ''reports'',
      reports_parallelProcessing = None\<rparr>"

definition data_world :: io where
  "data_world =
     \<lparr>readdir = (\<lambda>dir. if dir = ''data'' then Inr [''ledger.csv'']
                       else if dir = ''tmp'' then Inr [] else Inl ''ENOENT''),
      readFile = (\<lambda>path. if path = ''data/ledger.csv''
         then Inr ''2024-01-01,Cash,,1000,0'' else Inl ''ENOENT''),
      writeFile = (\<lambda>path text. None), completion = (\<lambda>files. files),
      getFullYear = (\<lambda>date. Some 2024), toStringLarge = (\<lambda>x. ''1e+21'')\<rparr>"

text \<open>
  The current status of a report after a list of operations: the status most recently
  assigned to it, \<open>idle\<close> when none was. An asynchronous generator assigns \<open>starting\<close>
  when it starts and, when it finishes, \<open>finished in ... seconds\<close> or \<open>error: ...\<close>; a
  synchronous generator assigns \<open>starting\<close> and then, unless it throws, \<open>finished in ...\<close>;
  the last statements of the pipeline assign none.
\<close>

fun status_assigned :: "operation \<Rightarrow> (string \<times> string) option" where
  "status_assigned AccountsAsync_start = Some (''accounts'', ''starting'')"
| "status_assigned (AccountsAsync_finish w t) =
     Some (''accounts'', case accountsAsync_try w of
        Inr written \<Rightarrow> finished_in w t @ '' seconds'' | Inl msg \<Rightarrow> ''error: '' @ msg)"
| "status_assigned YearlyAsync_start = Some (''yearly'', ''starting'')"
| "status_assigned (YearlyAsync_finish w t) =
     Some (''yearly'', case yearlyAsync_try w of
        Inr written \<Rightarrow> finished_in w t @ '' seconds'' | Inl msg \<Rightarrow> ''error: '' @ msg)"
| "status_assigned FsAsync_start = Some (''fs'', ''starting'')"
| "status_assigned (FsAsync_finish w t) =
     Some (''fs'', case fsAsync_try w of
        Inr written \<Rightarrow> finished_in w t @ '' seconds'' | Inl msg \<Rightarrow> ''error: '' @ msg)"
| "status_assigned (Accounts w t) =
     Some (''accounts'', case accounts_sync_body w of
        Inr written \<Rightarrow> finished_in w t | Inl msg \<Rightarrow> ''starting'')"
| "status_assigned (Yearly w t) =
     Some (''yearly'', case yearly_sync_body w of
        Inr written \<Rightarrow> finished_in w t | Inl msg \<Rightarrow> ''starting'')"
| "status_assigned (Fs w t) =
     Some (''fs'', case fs_sync_body w of
        Inr written \<Rightarrow> finished_in w t | Inl msg \<Rightarrow> ''starting'')"
| "status_assigned (Pipeline_totals t now) = None"

definition current_status :: "operation list \<Rightarrow> string \<Rightarrow> string" where
  "current_status ops name =
     foldl (\<lambda>status op. case status_assigned op of
                None \<Rightarrow> status
              | Some (report, s) \<Rightarrow> if report = name then s else status)
       ''idle'' ops"

text \<open>
  The value of a debit or credit field in the words of the specification, for a field
  that is missing or empty: it is treated as \<open>0\<close>; any other field is read by
  \<open>parseFloat\<close>. And the balance a row is added to: the one the dictionary holds under
  the key, or \<open>0\<close> when it holds none yet or one that is \<open>0\<close> or \<open>NaN\<close>; there is none
  when the key names a member of \<open>Object.prototype\<close> or a value that is not a number.
\<close>

fun field_value :: "string option \<Rightarrow> jsnum" where
  "field_value None = Fin 0"
| "field_value (Some s) = (if s = [] then Fin 0 else parseFloat s)"

definition debit_field :: "string \<Rightarrow> string option" where
  "debit_field line = element (split CHR '','' line) 3"

definition credit_field :: "string \<Rightarrow> string option" where
  "credit_field line = element (split CHR '','' line) 4"




text \<open>
  The accounts report in the words of the specification. A row carries numeric debit and
  credit fields when both fields are there, not empty, and read by \<open>parseFloat\<close> as
  finite numbers; its account is its second field. The balance of an account is the sum
  of debit minus credit over its rows (a field that is missing or empty counting as
  \<open>0\<close>), added up row by row as \<open>balance += amount\<close> does it: every difference and
  every sum rounded to binary64, and a balance that is \<open>0\<close> or \<open>NaN\<close> started again
  from \<open>0\<close>.
\<close>

fun is_finite :: "jsnum \<Rightarrow> bool" where
  "is_finite (Fin r) = True"
| "is_finite other = False"

definition carries_numbers :: "string \<Rightarrow> bool" where
  "carries_numbers line =
     (case (element (split CHR '','' line) 3, element (split CHR '','' line) 4) of
        (Some debit, Some credit) \<Rightarrow>
          debit \<noteq> [] \<and> credit \<noteq> [] \<and> is_finite (parseFloat debit)
          \<and> is_finite (parseFloat credit)
      | other \<Rightarrow> False)"

definition account_of :: "string \<Rightarrow> string" where
  "account_of line = property_key (line_account line)"

definition debit_minus_credit :: "string \<Rightarrow> jsnum" where
  "debit_minus_credit line =
     js_sub (field_value (debit_field line)) (field_value (credit_field line))"

definition amounts_of :: "string list \<Rightarrow> string \<Rightarrow> jsnum list" where
  "amounts_of rows account =
     map debit_minus_credit (filter (\<lambda>line. account_of line = account) rows)"

definition running_total :: "jsnum list \<Rightarrow> jsnum" where
  "running_total amounts =
     foldl (\<lambda>balance amount. js_add (if truthy_number balance then balance else Fin 0) amount)
       (Fin 0) amounts"

text \<open>A row of the given account with the given debit and credit fields.\<close>

definition row_with :: "string \<Rightarrow> string \<Rightarrow> string \<Rightarrow> string \<Rightarrow> bool" where
  "row_with account debit credit line =
     (line_account line = Some account
      \<and> element (split CHR '','' line) 3 = Some debit
      \<and> element (split CHR '','' line) 4 = Some credit)"

text \<open>The distinct elements of a list in the order in which each is first met.\<close>

definition first_seen :: "'a list \<Rightarrow> 'a list" where
  "first_seen xs = rev (remdups (rev xs))"

text \<open>
  The order of the rows of the report: the account names that are array indices first,
  ascending, then the other names as they come.
\<close>

definition key_order :: "string list \<Rightarrow> string list" where
  "key_order keys =
     sort_key digits_value (filter is_array_index keys)
     @ filter (\<lambda>key. \<not> is_array_index key) keys"

text \<open>
  A world with one ledger whose accounts are the codes \<open>2000\<close> and \<open>1000\<close>, in this
  order, one with a ledger of three \<open>Cash\<close> rows in tenths that add up to zero, and one
  with two ledgers of one \<open>Cash\<close> row each, the second read first.
\<close>

definition two_codes :: io where
  "two_codes =
     \<lparr>readdir = (\<lambda>dir. if dir = ''tmp'' then Inr [''ledger.csv''] else Inl ''ENOENT''),
      readFile = (\<lambda>path. if path = ''tmp/ledger.csv''
         then Inr ''2024-01-01,2000,,5,0\<newline>2024-01-02,1000,,7,0'' else Inl ''ENOENT''),
      writeFile = (\<lambda>path text. None), completion = (\<lambda>files. files),
      getFullYear = (\<lambda>date. Some 2024), toStringLarge = (\<lambda>x. ''1e+21'')\<rparr>"

definition tenths :: io where
  "tenths =
     \<lparr>readdir = (\<lambda>dir. if dir = ''tmp'' then Inr [''ledger.csv''] else Inl ''ENOENT''),
      readFile = (\<lambda>path. if path = ''tmp/ledger.csv''
         then Inr ''2024-01-01,Cash,,0,0.1\<newline>2024-01-02,Cash,,0,0.2\<newline>2024-01-03,Cash,,0.3,0''
         else Inl ''ENOENT''),
      writeFile = (\<lambda>path text. None), completion = (\<lambda>files. files),
      getFullYear = (\<lambda>date. Some 2024), toStringLarge = (\<lambda>x. ''1e+21'')\<rparr>"

definition two_ledgers :: io where
  "two_ledgers =
     \<lparr>readdir = (\<lambda>dir. if dir = ''tmp'' then Inr [''a.csv'', ''notes.txt'', ''b.csv'']
                       else Inl ''ENOENT''),
      readFile = (\<lambda>path. if path = ''tmp/a.csv'' then Inr ''2024-01-01,Cash,,1000,0''
                        else if path = ''tmp/b.csv'' then Inr ''2024-01-02,Cash,,0,300''
                        else Inl ''ENOENT''),
      writeFile = (\<lambda>path text. None), completion = rev,
      getFullYear = (\<lambda>date. Some 2024), toStringLarge = (\<lambda>x. ''1e+21'')\<rparr>"

definition two_ledgers_content :: "string \<Rightarrow> string" where
  "two_ledgers_content file =
     (if file = ''a.csv'' then ''2024-01-01,Cash,,1000,0'' else ''2024-01-02,Cash,,0,300'')"

section \<open>Rounding to binary64\<close>

text \<open>Integers below \<open>2^53\<close> in magnitude are binary64 numbers: rounding leaves them as
  they are.\<close>

lemma round_half_even_int: "round_half_even (of_int n) = n"
  by (simp add: round_half_even_def)

lemma exponent2_le:
  assumes "x \<noteq> 0"
  shows "2 powi exponent2 x \<le> \<bar>x\<bar>"
proof (cases "1 \<le> \<bar>x\<bar>")
  case True
  define n where "n = nat \<lfloor>\<bar>x\<bar>\<rfloor>"
  have n: "0 < n" using True by (simp add: n_def)
  have "(2::nat) ^ (floorlog 2 n - 1) \<le> n"
    using floorlog_bounds [where b = 2 and x = n] n by simp
  then have "real ((2::nat) ^ (floorlog 2 n - 1)) \<le> real n"
    by (rule iffD2 [OF of_nat_le_iff])
  then have a: "(2::real) ^ (floorlog 2 n - 1) \<le> real n" by simp
  have b: "real n \<le> \<bar>x\<bar>" using True by (simp add: n_def)
  have pos: "0 < floorlog 2 n" using n by (simp add: floorlog_def)
  have "exponent2 x = int (floorlog 2 n - 1)"
    using True pos by (simp add: exponent2_def n_def)
  then have "(2::real) powi exponent2 x = 2 ^ (floorlog 2 n - 1)"
    by (simp only: power_int_of_nat)
  with a b show ?thesis by linarith
next
  case False
  define m where "m = nat (\<lceil>1 / \<bar>x\<bar>\<rceil> - 1)"
  define k where "k = floorlog 2 m"
  have x: "0 < \<bar>x\<bar>" "\<bar>x\<bar> < 1" using assms False by auto
  then have "1 < 1 / \<bar>x\<bar>" by simp
  then have c: "2 \<le> \<lceil>1 / \<bar>x\<bar>\<rceil>" by linarith
  then have m: "0 < m" by (simp add: m_def)
  have "m < 2 ^ k"
    using floorlog_bounds [where b = 2 and x = m] m by (simp add: k_def)
  then have "int m < int (2 ^ k)" by (simp only: of_nat_less_iff)
  moreover have "int (2 ^ k) = 2 ^ k" by simp
  ultimately have "int m + 1 \<le> 2 ^ k" by linarith
  moreover have "int m + 1 = \<lceil>1 / \<bar>x\<bar>\<rceil>" using c assms by (simp add: m_def)
  ultimately have "\<lceil>1 / \<bar>x\<bar>\<rceil> \<le> 2 ^ k" by simp
  then have "1 / \<bar>x\<bar> \<le> of_int (2 ^ k)" by (simp only: ceiling_le_iff)
  then have "1 / \<bar>x\<bar> \<le> 2 ^ k" by simp
  then have "1 \<le> 2 ^ k * \<bar>x\<bar>" using x by (simp add: field_simps)
  then have "inverse (2 ^ k) \<le> \<bar>x\<bar>" by (simp add: field_simps)
  moreover have "exponent2 x = - int k"
    using False by (simp add: exponent2_def k_def m_def)
  then have "(2::real) powi exponent2 x = inverse (2 ^ k)"
    by (simp add: power_int_minus)
  ultimately show ?thesis by simp
qed

lemma exponent2_less:
  assumes "x \<noteq> 0" and "\<bar>x\<bar> < 2 powi k"
  shows "exponent2 x < k"
proof (rule ccontr)
  assume "\<not> exponent2 x < k"
  then have "k \<le> exponent2 x" by simp
  then have "(2::real) powi k \<le> 2 powi exponent2 x"
    by (intro power_int_increasing) simp_all
  with exponent2_le [OF assms(1)] assms(2) show False by linarith
qed

lemma round64_int:
  assumes "\<bar>n\<bar> < 2 ^ 53"
  shows "round64 (of_int n) = of_int n"
proof (cases "n = 0")
  case True
  then show ?thesis by (simp add: round64_def)
next
  case False
  define x :: real where "x = of_int n"
  have x0: "x \<noteq> 0" using False by (simp add: x_def)
  have "\<bar>x\<bar> = of_int \<bar>n\<bar>" by (simp add: x_def)
  also have "\<dots> < of_int (2 ^ 53)" using assms by (simp only: of_int_less_iff)
  finally have "\<bar>x\<bar> < 2 powi 53" by simp
  then have e: "exponent2 x < 53" by (rule exponent2_less [OF x0])
  define q where "q = max (exponent2 x) (- 1022) - 52"
  have q: "q \<le> 0" using e by (simp add: q_def)
  have "x / 2 powi q = x * 2 ^ nat (- q)"
    using q by (simp add: power_int_def field_simps)
  also have "\<dots> = of_int (n * 2 ^ nat (- q))" by (simp add: x_def)
  finally have i: "x / 2 powi q = of_int (n * 2 ^ nat (- q))" .
  have "round64 x = of_int (round_half_even (x / 2 powi q)) * 2 powi q"
    using x0 by (simp add: round64_def q_def Let_def)
  also have "\<dots> = (x / 2 powi q) * 2 powi q"
    by (simp only: i round_half_even_int)
  also have "\<dots> = x" by simp
  finally show ?thesis by (simp add: x_def)
qed

lemma binary64_int:
  assumes "\<bar>n\<bar> < 2 ^ 53"
  shows "binary64 (of_int n) = Fin (of_int n)"
proof -
  have "\<bar>real_of_int n\<bar> = of_int \<bar>n\<bar>" by simp
  also have "\<dots> < of_int (2 ^ 53)" using assms by (simp only: of_int_less_iff)
  finally have "\<bar>real_of_int n\<bar> < 2 ^ 53" by simp
  moreover have "(2::real) ^ 53 < 2 ^ 1024" by simp
  ultimately have "\<not> 2 ^ 1024 \<le> real_of_int n" "\<not> real_of_int n \<le> - (2 ^ 1024)"
    by linarith+
  then show ?thesis
    by (simp add: binary64_def round64_int [OF assms] Let_def)
qed

lemma binary64_0 [simp]: "binary64 0 = Fin 0"
  using binary64_int [of 0] by simp

lemma binary64_1 [simp]: "binary64 1 = Fin 1"
  using binary64_int [of 1] by simp

lemma binary64_numeral [simp]:
  "(numeral k :: int) < 2 ^ 53 \<Longrightarrow> binary64 (numeral k) = Fin (numeral k)"
  using binary64_int [of "numeral k"] by simp

lemma binary64_neg_numeral [simp]:
  "(numeral k :: int) < 2 ^ 53 \<Longrightarrow> binary64 (- numeral k) = Fin (- numeral k)"
  using binary64_int [of "- numeral k"] by simp


lemma round64_0 [simp]: "round64 0 = 0"
  by (simp add: round64_def)

lemma round64_1 [simp]: "round64 1 = 1"
  using round64_int [of 1] by simp

lemma round64_numeral [simp]:
  "(numeral k :: int) < 2 ^ 53 \<Longrightarrow> round64 (numeral k) = numeral k"
  using round64_int [of "numeral k"] by simp

lemma exponent2_upper:
  assumes "x \<noteq> 0"
  shows "\<bar>x\<bar> < 2 powi (exponent2 x + 1)"
proof (cases "1 \<le> \<bar>x\<bar>")
  case True
  define n where "n = nat \<lfloor>\<bar>x\<bar>\<rfloor>"
  have n: "0 < n" using True by (simp add: n_def)
  have "n < 2 ^ floorlog 2 n"
    using floorlog_bounds [where b = 2 and x = n] n by simp
  then have "int n < int (2 ^ floorlog 2 n)" by (simp only: of_nat_less_iff)
  moreover have "int (2 ^ floorlog 2 n) = 2 ^ floorlog 2 n" by simp
  moreover have "int n = \<lfloor>\<bar>x\<bar>\<rfloor>" using True by (simp add: n_def)
  ultimately have "\<lfloor>\<bar>x\<bar>\<rfloor> < 2 ^ floorlog 2 n" by linarith
  then have "\<bar>x\<bar> < of_int (2 ^ floorlog 2 n)" by (simp only: floor_less_iff)
  then have a: "\<bar>x\<bar> < 2 ^ floorlog 2 n" by simp
  have "exponent2 x + 1 = int (floorlog 2 n)"
    using True by (simp add: exponent2_def n_def)
  then have "(2::real) powi (exponent2 x + 1) = 2 ^ floorlog 2 n"
    by (simp only: power_int_of_nat)
  with a show ?thesis by simp
next
  case False
  define m where "m = nat (\<lceil>1 / \<bar>x\<bar>\<rceil> - 1)"
  define k where "k = floorlog 2 m"
  have x: "0 < \<bar>x\<bar>" "\<bar>x\<bar> < 1" using assms False by auto
  then have "1 < 1 / \<bar>x\<bar>" by simp
  then have c: "2 \<le> \<lceil>1 / \<bar>x\<bar>\<rceil>" by linarith
  then have m: "0 < m" by (simp add: m_def)
  then have k: "0 < k" by (simp add: k_def floorlog_def)
  have "2 ^ (k - 1) \<le> m"
    using floorlog_bounds [where b = 2 and x = m] m by (simp add: k_def)
  then have "int (2 ^ (k - 1)) \<le> int m" by (simp only: of_nat_le_iff)
  moreover have "int (2 ^ (k - 1)) = 2 ^ (k - 1)" by simp
  moreover have "int m = \<lceil>1 / \<bar>x\<bar>\<rceil> - 1" using c assms by (simp add: m_def)
  ultimately have "2 ^ (k - 1) < \<lceil>1 / \<bar>x\<bar>\<rceil>" by linarith
  then have "of_int (2 ^ (k - 1)) < 1 / \<bar>x\<bar>" by (simp only: less_ceiling_iff)
  then have "2 ^ (k - 1) < 1 / \<bar>x\<bar>" by simp
  then have "2 ^ (k - 1) * \<bar>x\<bar> < 1" using x by (simp add: field_simps)
  then have b: "\<bar>x\<bar> < inverse (2 ^ (k - 1))" by (simp add: field_simps)
  have "exponent2 x + 1 = - int (k - 1)"
    using False k by (simp add: exponent2_def k_def m_def)
  then have "(2::real) powi (exponent2 x + 1) = inverse (2 ^ (k - 1))"
    by (simp only: power_int_minus power_int_of_nat)
  with b show ?thesis by simp
qed

lemma exponent2_eq:
  assumes "2 powi e \<le> \<bar>x\<bar>" and "\<bar>x\<bar> < 2 powi (e + 1)"
  shows "exponent2 x = e"
proof -
  have pos: "(0::real) < 2 powi e" by simp
  have x: "x \<noteq> 0"
  proof
    assume "x = 0"
    with assms(1) have "2 powi e \<le> (0::real)" by simp
    with pos show False by linarith
  qed
  have "exponent2 x < e + 1" using x assms(2) by (rule exponent2_less)
  moreover have "e < exponent2 x + 1"
  proof (rule ccontr)
    assume "\<not> e < exponent2 x + 1"
    then have "exponent2 x + 1 \<le> e" by simp
    then have "(2::real) powi (exponent2 x + 1) \<le> 2 powi e"
      by (intro power_int_increasing) simp_all
    with exponent2_upper [OF x] assms(1) show False by linarith
  qed
  ultimately show ?thesis by simp
qed

lemma round_half_even_bounds:
  "\<lfloor>z\<rfloor> \<le> round_half_even z" "round_half_even z \<le> \<lceil>z\<rceil>"
proof -
  show "\<lfloor>z\<rfloor> \<le> round_half_even z"
    by (simp add: round_half_even_def Let_def)
  have "z \<noteq> of_int \<lfloor>z\<rfloor> \<Longrightarrow> \<lfloor>z\<rfloor> + 1 \<le> \<lceil>z\<rceil>"
    by (metis add.commute ceiling_altdef eq_iff)
  moreover have "z = of_int \<lfloor>z\<rfloor> \<Longrightarrow> z - of_int \<lfloor>z\<rfloor> < 1 / 2" by simp
  ultimately show "round_half_even z \<le> \<lceil>z\<rceil>"
    by (auto simp: round_half_even_def Let_def intro: floor_le_ceiling)
qed

lemma round_half_even_abs:
  assumes "\<bar>z\<bar> \<le> of_int m"
  shows "\<bar>round_half_even z\<bar> \<le> m"
proof -
  from assms have "z \<le> of_int m" "of_int (- m) \<le> z" by simp_all
  then have "\<lceil>z\<rceil> \<le> m" "- m \<le> \<lfloor>z\<rfloor>"
    by (simp_all only: ceiling_le_iff le_floor_iff)
  with round_half_even_bounds [of z] show ?thesis by linarith
qed

text \<open>
  The binary64 numbers are the integers of at most 53 bits scaled by a power of two that
  is not below \<open>2^-1074\<close>: rounding leaves them as they are, and gives no other number.
\<close>

lemma round64_scaled:
  assumes n: "\<bar>n\<bar> \<le> 2 ^ 53" and q: "- 1074 \<le> q"
  shows "round64 (of_int n * 2 powi q) = of_int n * 2 powi q"
proof (cases "n = 0")
  case True
  then show ?thesis by (simp add: round64_def)
next
  case False
  define x :: real where "x = of_int n * 2 powi q"
  have x0: "x \<noteq> 0" using False by (simp add: x_def)
  have ax: "\<bar>x\<bar> = of_int \<bar>n\<bar> * 2 powi q" by (simp add: x_def abs_mult)
  have "of_int \<bar>n\<bar> \<le> (of_int (2 ^ 53) :: real)" using n by (simp only: of_int_le_iff)
  then have "\<bar>x\<bar> \<le> 2 ^ 53 * 2 powi q" by (simp add: ax)
  also have "\<dots> = 2 powi (53 + q)" by (simp add: power_int_add)
  finally have up: "\<bar>x\<bar> \<le> 2 powi (53 + q)" .
  have e: "exponent2 x \<le> 53 + q"
  proof (rule ccontr)
    assume "\<not> exponent2 x \<le> 53 + q"
    then have "53 + q < exponent2 x" by simp
    then have "(2::real) powi (53 + q) < 2 powi exponent2 x"
      by (intro power_int_strict_increasing) simp_all
    with exponent2_le [OF x0] up show False by linarith
  qed
  define p where "p = max (exponent2 x) (- 1022) - 52"
  have p: "p \<le> q + 1" using e q by (simp add: p_def)
  have "\<exists>i. x / 2 powi p = of_int i"
  proof (cases "p \<le> q")
    case True
    have "x / 2 powi p = of_int n * 2 powi (q - p)"
      by (simp add: x_def power_int_diff)
    also have "\<dots> = of_int n * 2 ^ nat (q - p)"
      using True by (simp add: power_int_def)
    also have "\<dots> = of_int (n * 2 ^ nat (q - p))" by simp
    finally show ?thesis by blast
  next
    case False
    with p have pq: "p = q + 1" by simp
    then have "max (exponent2 x) (- 1022) = q + 53" by (simp add: p_def)
    with q have "exponent2 x = q + 53" by (simp add: max_def split: if_splits)
    with exponent2_le [OF x0] have "2 powi (q + 53) \<le> \<bar>x\<bar>" by simp
    then have "(2::real) ^ 53 * 2 powi q \<le> of_int \<bar>n\<bar> * 2 powi q"
      by (simp add: ax power_int_add mult.commute)
    moreover have "(0::real) < 2 powi q" by simp
    ultimately have "(2::real) ^ 53 \<le> of_int \<bar>n\<bar>"
      by (simp only: mult_le_cancel_right_pos)
    then have "(of_int (2 ^ 53) :: real) \<le> of_int \<bar>n\<bar>" by simp
    then have "2 ^ 53 \<le> \<bar>n\<bar>" by (simp only: of_int_le_iff)
    with n have "\<bar>n\<bar> = 2 ^ 53" by simp
    then have "n = 2 ^ 53 \<or> n = - (2 ^ 53)" by linarith
    then have "n = 2 * (n div 2)" by auto
    then have "real_of_int n = 2 * of_int (n div 2)"
      by (metis of_int_mult of_int_numeral)
    then have "x / 2 powi p = of_int (n div 2)"
      by (simp add: x_def pq power_int_add)
    then show ?thesis by blast
  qed
  then obtain i where i: "x / 2 powi p = of_int i" by blast
  have "round64 x = of_int (round_half_even (x / 2 powi p)) * 2 powi p"
    using x0 by (simp add: round64_def p_def Let_def)
  also have "\<dots> = (x / 2 powi p) * 2 powi p"
    by (simp only: i round_half_even_int)
  also have "\<dots> = x" by simp
  finally show ?thesis by (simp add: x_def)
qed

lemma round64_form:
  "\<exists>n q. round64 x = of_int n * 2 powi q \<and> \<bar>n\<bar> \<le> 2 ^ 53 \<and> - 1074 \<le> q"
proof (cases "x = 0")
  case True
  have "round64 x = of_int 0 * 2 powi 0 \<and> \<bar>0::int\<bar> \<le> 2 ^ 53 \<and> - 1074 \<le> (0::int)"
    using True by (simp add: round64_def)
  then show ?thesis by blast
next
  case False
  define q where "q = max (exponent2 x) (- 1022) - 52"
  define z where "z = x / 2 powi q"
  have q: "- 1074 \<le> q" "exponent2 x + 1 - q \<le> 53" by (simp_all add: q_def)
  have "\<bar>z\<bar> = \<bar>x\<bar> / 2 powi q" by (simp add: z_def abs_divide)
  also have "\<dots> < 2 powi (exponent2 x + 1) / 2 powi q"
    using exponent2_upper [OF False] by (simp add: divide_strict_right_mono)
  also have "\<dots> = 2 powi (exponent2 x + 1 - q)" by (simp add: power_int_diff)
  also have "\<dots> \<le> 2 powi 53" using q(2) by (intro power_int_increasing) simp_all
  finally have "\<bar>z\<bar> \<le> of_int (2 ^ 53)" by simp
  then have "\<bar>round_half_even z\<bar> \<le> 2 ^ 53" by (rule round_half_even_abs)
  moreover have "round64 x = of_int (round_half_even z) * 2 powi q"
    using False by (simp add: round64_def q_def z_def Let_def)
  ultimately show ?thesis using q(1) by blast
qed

lemma round64_idem: "round64 (round64 x) = round64 x" "round64 (- round64 x) = - round64 x"
proof -
  from round64_form [of x] obtain n q
    where f: "round64 x = of_int n * 2 powi q" "\<bar>n\<bar> \<le> 2 ^ 53" "- 1074 \<le> q"
    by blast
  from round64_scaled [OF f(2,3)] show "round64 (round64 x) = round64 x"
    by (simp only: f(1))
  have "\<bar>- n\<bar> \<le> 2 ^ 53" using f(2) by simp
  from round64_scaled [OF this f(3)] show "round64 (- round64 x) = - round64 x"
    by (simp add: f(1))
qed

lemma binary64_idem:
  assumes "binary64 x = Fin y"
  shows "binary64 y = Fin y" and "binary64 (- y) = Fin (- y)"
proof -
  from assms have y: "y = round64 x" and b: "\<not> 2 ^ 1024 \<le> y" "\<not> y \<le> - (2 ^ 1024)"
    by (auto simp: binary64_def Let_def split: if_splits)
  from b have c: "\<not> 2 ^ 1024 \<le> - y" "\<not> - y \<le> - (2 ^ 1024)" by linarith+
  have r: "round64 y = y" "round64 (- y) = - y" by (simp_all only: y round64_idem)
  from b show "binary64 y = Fin y"
    by (simp only: binary64_def r Let_def if_False)
  from c show "binary64 (- y) = Fin (- y)"
    by (simp only: binary64_def r Let_def if_False)
qed

text \<open>So every number the model computes is a number of the runtime, and adding or
  subtracting zero changes none.\<close>

lemma is_binary64_binary64 [simp]: "is_binary64 (binary64 x)"
  by (cases "binary64 x") (simp_all add: binary64_idem)

lemma is_binary64_js_add [simp]: "is_binary64 (js_add x y)"
  by (cases x; cases y) simp_all

lemma is_binary64_js_neg: "is_binary64 x \<Longrightarrow> is_binary64 (js_neg x)"
proof (cases x)
  case (Fin y)
  assume "is_binary64 x"
  with Fin have "binary64 y = Fin y" by simp
  from binary64_idem(2) [OF this] Fin show ?thesis by simp
qed simp_all

lemma is_binary64_parseFloat [simp]: "is_binary64 (parseFloat s)"
  by (simp add: parseFloat_def Let_def split: prod.splits list.splits)

lemma js_add_0:
  assumes "is_binary64 x"
  shows "js_add x (Fin 0) = x" and "js_add (Fin 0) x = x"
  using assms by (cases x; simp)+

lemma js_sub_0:
  assumes "is_binary64 x"
  shows "js_sub x (Fin 0) = x" and "js_sub (Fin 0) x = js_neg x"
proof -
  from assms show "js_sub x (Fin 0) = x" by (cases x) (simp_all add: js_sub_def)
  from is_binary64_js_neg [OF assms] show "js_sub (Fin 0) x = js_neg x"
    by (cases x) (simp_all add: js_sub_def)
qed

text \<open>Rounding a real whose exponent is known.\<close>

lemma round64_at:
  assumes "2 powi e \<le> \<bar>x\<bar>" and "\<bar>x\<bar> < 2 powi (e + 1)"
  shows "round64 x = of_int (round_half_even (x / 2 powi (max e (- 1022) - 52)))
           * 2 powi (max e (- 1022) - 52)"
proof -
  have pos: "(0::real) < 2 powi e" by simp
  have "x \<noteq> 0"
  proof
    assume "x = 0"
    with assms(1) have "2 powi e \<le> (0::real)" by simp
    with pos show False by linarith
  qed
  then show ?thesis
    by (simp add: round64_def exponent2_eq [OF assms] Let_def)
qed

section \<open>Theorems about the ticket router\<close>

subsection \<open>Identifiers the store assigns are new\<close>

lemma fold_max_ge: "(a::int) \<le> fold max xs a"
  by (induction xs arbitrary: a) (auto intro: order_trans [OF max.cobounded2])

lemma fold_max_mem: "x \<in> set xs \<Longrightarrow> (x::int) \<le> fold max xs a"
proof (induction xs arbitrary: a)
  case Nil
  then show ?case by simp
next
  case (Cons y ys)
  show ?case
  proof (cases "x = y")
    case True
    have "y \<le> max y a" by simp
    also have "\<dots> \<le> fold max ys (max y a)" by (rule fold_max_ge)
    finally show ?thesis using True by simp
  next
    case False
    with Cons.prems have "x \<in> set ys" by simp
    then show ?thesis using Cons.IH by simp
  qed
qed

lemma next_id_fresh: "t \<in> set ts \<Longrightarrow> ticket_id t < next_id ts"
  unfolding next_id_def using fold_max_mem [of "ticket_id t" "map ticket_id ts" 0] by auto

lemma User_findAll_length:
  "User_findAll f c r s = Inr ds \<Longrightarrow>
   length ds = length (filter (\<lambda>u. user_companyId u = c \<and> user_role u = r) (users s))"
  by (auto simp: User_findAll_def split: option.splits)

lemma User_findAll_single:
  "filter (\<lambda>u. user_companyId u = c \<and> user_role u = r) (users s) = [d] \<Longrightarrow>
   User_findAll no_faults c r s = Inr [d]"
  by (simp add: User_findAll_def no_faults_def)

lemma strikeOff_try_no_single:
  assumes "length (directors_of s c) \<noteq> 1"
  shows "\<exists>e. strikeOff_try f c s = (Inl e, s)"
proof (cases "User_findAll f c director s")
  case (Inl e)
  then show ?thesis by (simp add: strikeOff_try_def)
next
  case (Inr ds)
  from User_findAll_length [OF Inr] assms have "length ds \<noteq> 1"
    by (simp add: directors_of_def)
  then have "ds = [] \<or> length ds > 1" by (cases ds) auto
  with Inr show ?thesis by (auto simp: strikeOff_try_def)
qed

subsection \<open>The strike-off path\<close>

lemma strikeOff_try_single:
  assumes "directors_of s c = [d]"
  shows "strikeOff_try no_faults c s =
    (let t = \<lparr>ticket_id = next_id (tickets s), ticket_type = strikeOff,
                 ticket_companyId = c, ticket_assigneeId = user_id d,
                 ticket_status = status_open, ticket_category = management\<rparr>
     in (Inr (mapTicketToDto t),
         s\<lparr>tickets := map (\<lambda>u. if ticket_companyId u = c then u\<lparr>ticket_status := resolved\<rparr> else u)
               (tickets s) @ [t]\<rparr>))"
proof -
  have ds: "User_findAll no_faults c director s = Inr [d]"
    using assms by (simp add: User_findAll_single directors_of_def)
  have fresh: "\<forall>u \<in> set (tickets s). ticket_id u \<noteq> next_id (tickets s)"
    using next_id_fresh by fastforce
  have m: "map (\<lambda>t. if ticket_companyId t = c \<and> ticket_status t = status_open
             \<and> ticket_id t \<noteq> next_id (tickets s)
          then t\<lparr>ticket_status := resolved\<rparr> else t) (tickets s)
       = map (\<lambda>u. if ticket_companyId u = c then u\<lparr>ticket_status := resolved\<rparr> else u) (tickets s)"
  proof (rule map_cong [OF refl])
    fix u assume "u \<in> set (tickets s)"
    with fresh have "ticket_id u \<noteq> next_id (tickets s)" by blast
    moreover have "ticket_status u \<noteq> status_open \<Longrightarrow> u\<lparr>ticket_status := resolved\<rparr> = u"
      by (cases "ticket_status u") auto
    ultimately show "(if ticket_companyId u = c \<and> ticket_status u = status_open
             \<and> ticket_id u \<noteq> next_id (tickets s)
          then u\<lparr>ticket_status := resolved\<rparr> else u) = (if ticket_companyId u = c then u\<lparr>ticket_status := resolved\<rparr> else u)"
      by auto
  qed
  have cr: "\<And>a cat ty st s0. Ticket_create no_faults c a cat ty st s0 =
      Inr (\<lparr>ticket_id = next_id (tickets s0), ticket_type = ty,
                 ticket_companyId = c, ticket_assigneeId = a,
                 ticket_status = st, ticket_category = cat\<rparr>,
           s0\<lparr>tickets := tickets s0 @ [\<lparr>ticket_id = next_id (tickets s0), ticket_type = ty,
                 ticket_companyId = c, ticket_assigneeId = a,
                 ticket_status = st, ticket_category = cat\<rparr>]\<rparr>)"
    by (simp add: Ticket_create_def no_faults_def Let_def)
  have up: "\<And>x s0. Ticket_update_resolved no_faults c x s0 =
      Inr (s0\<lparr>tickets := map (\<lambda>t.
          if ticket_companyId t = c \<and> ticket_status t = status_open \<and> ticket_id t \<noteq> x
          then t\<lparr>ticket_status := resolved\<rparr> else t) (tickets s0)\<rparr>)"
    by (simp add: Ticket_update_resolved_def no_faults_def)
  show ?thesis
    by (simp add: strikeOff_try_def ds cr up m Let_def)
qed

lemma tickets_of_resolved_all:
  "filter (\<lambda>u. ticket_companyId u = c)
     (map (\<lambda>u. if ticket_companyId u = c then u\<lparr>ticket_status := resolved\<rparr> else u) ts)
   = map (\<lambda>u. u\<lparr>ticket_status := resolved\<rparr>) (filter (\<lambda>u. ticket_companyId u = c) ts)"
  by (induction ts) auto

lemma strikeOff_failure_rolls_back:
  assumes "createStrikeOffTicket f c s = (Inl e, s')"
  shows "s' = s \<and> (\<exists>msg. e = ConflictException msg)"
proof -
  obtain r s1 where t: "strikeOff_try f c s = (r, s1)" by (cases "strikeOff_try f c s")
  show ?thesis
  proof (cases r)
    case (Inl e0)
    obtain msg where m: "strikeOff_catch e0 = ConflictException msg" by (cases e0) auto
    have "createStrikeOffTicket f c s = (Inl (strikeOff_catch e0), s)"
      using t Inl by (simp add: createStrikeOffTicket_def transaction_def)
    with assms have "e = strikeOff_catch e0" and "s' = s" by simp_all
    with m show ?thesis by simp
  next
    case (Inr v)
    with assms t show ?thesis
      by (simp add: createStrikeOffTicket_def transaction_def)
  qed
qed

text \<open>
  Claim C2. For every store, every company that has no director or more than one, and
  whatever calls into the store fail, \<open>createTicket\<close> with type \<open>strikeOff\<close> throws a
  \<open>ConflictException\<close> and the store afterwards is the store before: no ticket row is
  inserted and no ticket's status is changed. And whenever \<open>createTicket\<close> with type
  \<open>strikeOff\<close> fails, for whatever reason and at whatever point of the sequence, the
  error is a \<open>ConflictException\<close> and the store is unchanged: the transaction rolls
  back what the sequence wrote.
\<close>

theorem strikeOff_conflict:
  "(length (directors_of s c) \<noteq> 1 \<longrightarrow>
      (\<exists>msg. createTicket f \<lparr>dto_type = strikeOff, dto_companyId = c\<rparr> s
           = (Inl (ConflictException msg), s)))
   \<and> (createTicket f \<lparr>dto_type = strikeOff, dto_companyId = c\<rparr> s = (Inl e, s') \<longrightarrow>
      s' = s \<and> (\<exists>msg. e = ConflictException msg))"
proof -
  have none: "length (directors_of s c) \<noteq> 1 \<longrightarrow>
      (\<exists>msg. createTicket f \<lparr>dto_type = strikeOff, dto_companyId = c\<rparr> s
           = (Inl (ConflictException msg), s))"
  proof
    assume "length (directors_of s c) \<noteq> 1"
    from strikeOff_try_no_single [OF this]
    obtain e0 where e0: "strikeOff_try f c s = (Inl e0, s)" by blast
    obtain msg where "strikeOff_catch e0 = ConflictException msg"
      by (cases e0) auto
    with e0 show "\<exists>msg. createTicket f \<lparr>dto_type = strikeOff, dto_companyId = c\<rparr> s
           = (Inl (ConflictException msg), s)"
      by (simp add: createTicket_def createStrikeOffTicket_def transaction_def)
  qed
  have any: "createTicket f \<lparr>dto_type = strikeOff, dto_companyId = c\<rparr> s = (Inl e, s') \<longrightarrow>
      s' = s \<and> (\<exists>msg. e = ConflictException msg)"
  proof
    assume "createTicket f \<lparr>dto_type = strikeOff, dto_companyId = c\<rparr> s = (Inl e, s')"
    then have "createStrikeOffTicket f c s = (Inl e, s')"
      by (simp add: createTicket_def)
    then show "s' = s \<and> (\<exists>msg. e = ConflictException msg)"
      by (rule strikeOff_failure_rolls_back)
  qed
  from none any show ?thesis ..
qed

text \<open>
  Company 2 has two directors. Company 1 has one, and when the bulk update fails the new
  ticket has already been inserted inside the transaction; the store is unchanged all
  the same.
\<close>

theorem strikeOff_conflict_witness:
  "length (directors_of acme 2) \<noteq> 1
   \<and> (\<exists>msg. createTicket no_faults \<lparr>dto_type = strikeOff, dto_companyId = 2\<rparr> acme
           = (Inl (ConflictException msg), acme))
   \<and> (\<exists>t s1. strikeOff_try update_fails 1 acme = (Inl (OtherError ''deadlock detected''), s1)
           \<and> tickets s1 = tickets acme @ [t])
   \<and> createTicket update_fails \<lparr>dto_type = strikeOff, dto_companyId = 1\<rparr> acme
       = (Inl (ConflictException ''Failed to process strike off ticket. Please try again.''),
          acme)"
proof -
  have two: "length (directors_of acme 2) \<noteq> 1"
    by (simp add: directors_of_def acme_def)
  have body: "\<exists>t s1. strikeOff_try update_fails 1 acme
        = (Inl (OtherError ''deadlock detected''), s1) \<and> tickets s1 = tickets acme @ [t]"
    by (simp add: strikeOff_try_def User_findAll_def Ticket_create_def
        Ticket_update_resolved_def update_fails_def no_faults_def acme_def Let_def)
  then obtain s1 where s1: "strikeOff_try update_fails 1 acme
        = (Inl (OtherError ''deadlock detected''), s1)" by blast
  have run: "createTicket update_fails \<lparr>dto_type = strikeOff, dto_companyId = 1\<rparr> acme
       = (Inl (ConflictException ''Failed to process strike off ticket. Please try again.''),
          acme)"
    by (simp add: createTicket_def createStrikeOffTicket_def transaction_def s1)
  from strikeOff_conflict [of acme 2 no_faults] two body run
  show ?thesis by (simp only: simp_thms)
qed

text \<open>
  Claim C3. For every store and every company with exactly one director \<open>d\<close>, when no
  call into the store fails, \<open>createTicket\<close> with type \<open>strikeOff\<close> returns a new ticket
  \<open>t\<close>: open, of category \<open>management\<close>, assigned to \<open>d\<close>, with an identifier no earlier
  ticket has. Afterwards the ticket table is the old one with every ticket of the
  company resolved (the tickets of other companies untouched), followed by \<open>t\<close>; so the
  company has exactly one ticket more, and \<open>t\<close> is its only open ticket: all the tickets
  that were open before, however many, are resolved.
\<close>

theorem strikeOff_single_director:
  assumes "directors_of s c = [d]"
  shows "\<exists>t s'. createTicket no_faults \<lparr>dto_type = strikeOff, dto_companyId = c\<rparr> s
             = (Inr (mapTicketToDto t), s')
    \<and> ticket_type t = strikeOff \<and> ticket_companyId t = c \<and> ticket_status t = status_open
    \<and> ticket_category t = management \<and> ticket_assigneeId t = user_id d
    \<and> ticket_id t \<notin> ticket_id ` set (tickets s)
    \<and> users s' = users s
    \<and> tickets s' = map (\<lambda>u. if ticket_companyId u = c then u\<lparr>ticket_status := resolved\<rparr> else u)
                       (tickets s) @ [t]
    \<and> length (tickets_of s' c) = length (tickets_of s c) + 1
    \<and> filter (\<lambda>u. ticket_status u = status_open) (tickets_of s' c) = [t]"
proof -
  define t where "t = \<lparr>ticket_id = next_id (tickets s), ticket_type = strikeOff,
                 ticket_companyId = c, ticket_assigneeId = user_id d,
                 ticket_status = status_open, ticket_category = management\<rparr>"
  define s' where "s' = s\<lparr>tickets := map (\<lambda>u. if ticket_companyId u = c
                 then u\<lparr>ticket_status := resolved\<rparr> else u) (tickets s) @ [t]\<rparr>"
  have run: "createTicket no_faults \<lparr>dto_type = strikeOff, dto_companyId = c\<rparr> s
             = (Inr (mapTicketToDto t), s')"
    using strikeOff_try_single [OF assms]
    by (simp add: createTicket_def createStrikeOffTicket_def transaction_def Let_def t_def s'_def)
  have fresh: "ticket_id t \<notin> ticket_id ` set (tickets s)"
  proof
    assume "ticket_id t \<in> ticket_id ` set (tickets s)"
    then obtain u where u: "u \<in> set (tickets s)" "ticket_id u = ticket_id t" by auto
    from next_id_fresh [OF u(1)] u(2) show False by (simp add: t_def)
  qed
  have of: "tickets_of s' c = map (\<lambda>u. u\<lparr>ticket_status := resolved\<rparr>) (tickets_of s c) @ [t]"
    by (simp add: tickets_of_def s'_def tickets_of_resolved_all) (simp add: t_def)
  have cnt: "length (tickets_of s' c) = length (tickets_of s c) + 1"
    by (simp add: of)
  have opn: "filter (\<lambda>u. ticket_status u = status_open) (tickets_of s' c) = [t]"
    by (simp add: of filter_map comp_def) (simp add: t_def)
  have flds: "ticket_type t = strikeOff \<and> ticket_companyId t = c \<and> ticket_status t = status_open
    \<and> ticket_category t = management \<and> ticket_assigneeId t = user_id d"
    by (simp add: t_def)
  have "users s' = users s" and "tickets s' = map (\<lambda>u. if ticket_companyId u = c
       then u\<lparr>ticket_status := resolved\<rparr> else u) (tickets s) @ [t]"
    by (simp_all add: s'_def)
  with run fresh cnt opn flds show ?thesis by blast
qed

theorem strikeOff_single_director_witness:
  "directors_of acme 1 = [\<lparr>user_id = 1, user_role = director, user_companyId = 1, user_createdAt = 0\<rparr>]
   \<and> (\<exists>t s'. createTicket no_faults \<lparr>dto_type = strikeOff, dto_companyId = 1\<rparr> acme
             = (Inr (mapTicketToDto t), s')
    \<and> ticket_type t = strikeOff \<and> ticket_companyId t = 1 \<and> ticket_status t = status_open
    \<and> ticket_category t = management \<and> ticket_assigneeId t = 1
    \<and> ticket_id t \<notin> ticket_id ` set (tickets acme)
    \<and> users s' = users acme
    \<and> tickets s' = map (\<lambda>u. if ticket_companyId u = 1 then u\<lparr>ticket_status := resolved\<rparr> else u)
                       (tickets acme) @ [t]
    \<and> length (tickets_of s' 1) = length (tickets_of acme 1) + 1
    \<and> filter (\<lambda>u. ticket_status u = status_open) (tickets_of s' 1) = [t])"
proof -
  have d: "directors_of acme 1 = [\<lparr>user_id = 1, user_role = director, user_companyId = 1, user_createdAt = 0\<rparr>]"
    by (simp add: directors_of_def acme_def)
  from strikeOff_single_director [OF d] d show ?thesis by simp
qed

section \<open>Theorems about the report pipeline\<close>

subsection \<open>Reading and writing properties\<close>

lemma map_of_replace:
  "map_of (map (\<lambda>(k, w). if k = key then (k, v) else (k, w)) obj) k =
     (if k = key then (if key \<in> fst ` set obj then Some v else None) else map_of obj k)"
proof (induction obj)
  case Nil
  then show ?case by simp
next
  case (Cons p obj)
  obtain k' w where p: "p = (k', w)" by (cases p)
  with Cons show ?case by (cases "k' = key") (force simp: image_iff)+
qed

lemma map_of_put_same:
  assumes "key \<noteq> ''__proto__''"
  shows "map_of (put obj key v) key = Some v"
proof (cases "key \<in> fst ` set obj")
  case True
  with assms show ?thesis by (simp add: put_def map_of_replace)
next
  case False
  then have "map_of obj key = None" by (simp add: map_of_eq_None_iff)
  with False assms show ?thesis by (simp add: put_def map_add_def)
qed

lemma map_of_put_other:
  assumes "k \<noteq> key"
  shows "map_of (put obj key v) k = map_of obj k"
proof (cases "key = ''__proto__'' \<or> key \<in> fst ` set obj")
  case True
  with assms show ?thesis by (auto simp: put_def map_of_replace)
next
  case False
  with assms show ?thesis by (simp add: put_def map_add_def split: option.splits)
qed

lemma get_put_same: "key \<noteq> ''__proto__'' \<Longrightarrow> get (put obj key v) key = Own v"
  by (simp add: get_def map_of_put_same)

lemma get_put_other: "k \<noteq> key \<Longrightarrow> get (put obj key v) k = get obj k"
  by (simp add: get_def map_of_put_other)

lemma keys_put:
  "map fst (put obj key v) =
     (if key = ''__proto__'' \<or> key \<in> set (map fst obj) then map fst obj
      else map fst obj @ [key])"
  by (auto simp: put_def case_prod_unfold intro!: map_idI)

lemma state_set_state_same:
  "name \<noteq> ''__proto__'' \<Longrightarrow> state (set_state name status svc) name = Own status"
  by (simp add: state_def set_state_def get_put_same)

lemma state_set_state_other:
  "scope \<noteq> name \<Longrightarrow> state (set_state name status svc) scope = state svc scope"
  by (simp add: state_def set_state_def get_put_other)

lemma metrics_set_state [simp]: "metrics (set_state name status svc) = metrics svc"
  by (simp add: set_state_def)

lemma state_metrics_update [simp]: "state (svc\<lparr>metrics := m\<rparr>) scope = state svc scope"
  by (simp add: state_def)

subsection \<open>The keys of the status map\<close>

lemma keys_set_state:
  "name \<in> set (map fst (states svc)) \<Longrightarrow>
   map fst (states (set_state name status svc)) = map fst (states svc)"
  by (simp add: set_state_def keys_put)

lemma keys_perform:
  assumes "map fst (states svc) = [''accounts'', ''yearly'', ''fs'']"
  shows "map fst (states (perform op svc)) = [''accounts'', ''yearly'', ''fs'']"
proof -
  have k: "\<And>name status s. name \<in> {''accounts'', ''yearly'', ''fs''} \<Longrightarrow>
      map fst (states s) = [''accounts'', ''yearly'', ''fs''] \<Longrightarrow>
      map fst (states (set_state name status s)) = [''accounts'', ''yearly'', ''fs'']"
    using keys_set_state by auto
  show ?thesis
  proof (cases op)
    case AccountsAsync_start
    with assms show ?thesis by (simp add: accountsAsync_start_def k)
  next
    case (AccountsAsync_finish w t)
    with assms show ?thesis
      by (simp add: accountsAsync_finish_def k split: sum.splits)
  next
    case YearlyAsync_start
    with assms show ?thesis by (simp add: yearlyAsync_start_def k)
  next
    case (YearlyAsync_finish w t)
    with assms show ?thesis
      by (simp add: yearlyAsync_finish_def k split: sum.splits)
  next
    case FsAsync_start
    with assms show ?thesis by (simp add: fsAsync_start_def k)
  next
    case (FsAsync_finish w t)
    with assms show ?thesis
      by (simp add: fsAsync_finish_def k split: sum.splits)
  next
    case (Accounts w t)
    with assms show ?thesis by (simp add: accounts_def k split: sum.splits)
  next
    case (Yearly w t)
    with assms show ?thesis by (simp add: yearly_def k split: sum.splits)
  next
    case (Fs w t)
    with assms show ?thesis by (simp add: fs_def k split: sum.splits)
  next
    case (Pipeline_totals t now)
    with assms show ?thesis by (simp add: pipeline_totals_def)
  qed
qed

lemma keys_history:
  "map fst (states svc) = [''accounts'', ''yearly'', ''fs''] \<Longrightarrow>
   map fst (states (history ops svc)) = [''accounts'', ''yearly'', ''fs'']"
  unfolding history_def
  by (induction ops arbitrary: svc) (simp_all add: keys_perform)

lemma keys_new: "map fst (states (new_ReportsService cfg)) = [''accounts'', ''yearly'', ''fs'']"
  by (simp add: new_ReportsService_def)

lemma get_by_keys:
  "get obj key =
     (if key \<in> set (map fst obj) then Own (the (map_of obj key))
      else if key \<in> set Object_prototype_names then Inherited else Undefined)"
proof (cases "map_of obj key")
  case None
  then have "key \<notin> set (map fst obj)" by (simp add: map_of_eq_None_iff)
  with None show ?thesis by (simp add: get_def)
next
  case (Some v)
  then have "key \<in> set (map fst obj)" by (metis map_of_eq_None_iff option.distinct(1) set_map)
  with Some show ?thesis by (simp add: get_def)
qed

subsection \<open>The status a query reads\<close>

lemma perform_state:
  "state (perform op svc) name =
     (case status_assigned op of
        None \<Rightarrow> state svc name
      | Some (report, s) \<Rightarrow> if report = name then Own s else state svc name)"
proof -
  have same: "\<And>s svc. state (set_state ''accounts'' s svc) ''accounts'' = Own s"
    "\<And>s svc. state (set_state ''yearly'' s svc) ''yearly'' = Own s"
    "\<And>s svc. state (set_state ''fs'' s svc) ''fs'' = Own s"
    by (simp_all add: state_set_state_same)
  have other: "\<And>report s svc. report \<noteq> name \<Longrightarrow>
      state (set_state report s svc) name = state svc name"
    by (simp add: state_set_state_other)
  show ?thesis
  proof (cases op)
    case AccountsAsync_start
    then show ?thesis by (auto simp: accountsAsync_start_def same other)
  next
    case (AccountsAsync_finish w t)
    then show ?thesis
      by (cases "accountsAsync_try w") (auto simp: accountsAsync_finish_def same other)
  next
    case YearlyAsync_start
    then show ?thesis by (auto simp: yearlyAsync_start_def same other)
  next
    case (YearlyAsync_finish w t)
    then show ?thesis
      by (cases "yearlyAsync_try w") (auto simp: yearlyAsync_finish_def same other)
  next
    case FsAsync_start
    then show ?thesis by (auto simp: fsAsync_start_def same other)
  next
    case (FsAsync_finish w t)
    then show ?thesis
      by (cases "fsAsync_try w") (auto simp: fsAsync_finish_def same other)
  next
    case (Accounts w t)
    then show ?thesis
      by (cases "accounts_sync_body w") (auto simp: accounts_def same other)
  next
    case (Yearly w t)
    then show ?thesis
      by (cases "yearly_sync_body w") (auto simp: yearly_def same other)
  next
    case (Fs w t)
    then show ?thesis
      by (cases "fs_sync_body w") (auto simp: fs_def same other)
  next
    case (Pipeline_totals t now)
    then show ?thesis by (simp add: pipeline_totals_def)
  qed
qed

lemma history_state:
  "state svc name = Own s0 \<Longrightarrow>
   state (history ops svc) name =
     Own (foldl (\<lambda>status op. case status_assigned op of
                   None \<Rightarrow> status
                 | Some (report, s) \<Rightarrow> if report = name then s else status) s0 ops)"
proof (induction ops arbitrary: svc s0)
  case Nil
  then show ?case by (simp add: history_def)
next
  case (Cons op ops)
  have "state (perform op svc) name =
      Own (case status_assigned op of
             None \<Rightarrow> s0
           | Some (report, s) \<Rightarrow> if report = name then s else s0)"
    by (simp add: perform_state Cons.prems split: option.splits)
  from Cons.IH [OF this] show ?case by (simp add: history_def)
qed

lemma state_new:
  "state (new_ReportsService cfg) ''accounts'' = Own ''idle''"
  "state (new_ReportsService cfg) ''yearly'' = Own ''idle''"
  "state (new_ReportsService cfg) ''fs'' = Own ''idle''"
  by (simp_all add: state_def get_def new_ReportsService_def)

text \<open>
  Claim C10, as amended. On every service the constructor made and any history of
  operations changed, \<open>state\<close> returns for each of the three report names the current
  status of that report: the status most recently assigned to it, \<open>idle\<close> when none
  was; and a status just assigned to a report is what \<open>state\<close> returns for it. For every
  other scope \<open>state\<close> returns without an error: \<open>undefined\<close>, unless the scope is the
  name of a member of \<open>Object.prototype\<close>, and then that inherited member.
\<close>

theorem state_total:
  "(name \<in> {''accounts'', ''yearly'', ''fs''} \<longrightarrow>
      state (history ops (new_ReportsService cfg)) name = Own (current_status ops name)
      \<and> state (set_state name status svc) name = Own status)
   \<and> (scope \<notin> {''accounts'', ''yearly'', ''fs''} \<longrightarrow>
        state (history ops (new_ReportsService cfg)) scope =
          (if scope \<in> set Object_prototype_names then Inherited else Undefined))"
proof -
  have k: "map fst (states (history ops (new_ReportsService cfg))) = [''accounts'', ''yearly'', ''fs'']"
    by (rule keys_history [OF keys_new])
  have other: "scope \<notin> {''accounts'', ''yearly'', ''fs''} \<longrightarrow>
        state (history ops (new_ReportsService cfg)) scope =
          (if scope \<in> set Object_prototype_names then Inherited else Undefined)"
    unfolding state_def get_by_keys k by simp
  have known: "name \<in> {''accounts'', ''yearly'', ''fs''} \<longrightarrow>
      state (history ops (new_ReportsService cfg)) name = Own (current_status ops name)
      \<and> state (set_state name status svc) name = Own status"
  proof
    assume n: "name \<in> {''accounts'', ''yearly'', ''fs''}"
    then have "state (new_ReportsService cfg) name = Own ''idle''"
      using state_new [of cfg] by auto
    then have "state (history ops (new_ReportsService cfg)) name = Own (current_status ops name)"
      unfolding current_status_def by (rule history_state)
    moreover have "name \<noteq> ''__proto__''" using n by auto
    then have "state (set_state name status svc) name = Own status"
      by (rule state_set_state_same)
    ultimately show "state (history ops (new_ReportsService cfg)) name
        = Own (current_status ops name)
      \<and> state (set_state name status svc) name = Own status" ..
  qed
  from known other show ?thesis ..
qed

text \<open>The claim as it stands fails on the scope \<open>constructor\<close>: it is none of the three report
  names, and what \<open>state\<close> returns for it is not \<open>undefined\<close>.\<close>

theorem state_constructor_counterexample:
  "''constructor'' \<notin> {''accounts'', ''yearly'', ''fs''}
   \<and> state (new_ReportsService default_config) ''constructor'' = Inherited
   \<and> state (new_ReportsService default_config) ''constructor'' \<noteq> Undefined"
  by (simp add: state_def get_def new_ReportsService_def Object_prototype_names_def)

text \<open>
  After the accounts and the yearly generator have started and the accounts generator has
  failed for want of a staging directory.
\<close>

theorem state_total_witness:
  "state (history [AccountsAsync_start, YearlyAsync_start, AccountsAsync_finish no_dir 10]
       (new_ReportsService default_config)) ''accounts''
     = Own ''error: ENOENT: no such file or directory, scandir tmp''
   \<and> state (history [AccountsAsync_start, YearlyAsync_start, AccountsAsync_finish no_dir 10]
       (new_ReportsService default_config)) ''yearly'' = Own ''starting''
   \<and> state (history [AccountsAsync_start, YearlyAsync_start, AccountsAsync_finish no_dir 10]
       (new_ReportsService default_config)) ''fs'' = Own ''idle''
   \<and> state (set_state ''fs'' ''starting'' (new_ReportsService default_config)) ''fs''
     = Own ''starting''
   \<and> state (history [AccountsAsync_start, YearlyAsync_start, AccountsAsync_finish no_dir 10]
       (new_ReportsService default_config)) ''nonsense'' = Undefined"
proof -
  let ?ops = "[AccountsAsync_start, YearlyAsync_start, AccountsAsync_finish no_dir 10]"
  have t: "accountsAsync_try no_dir = Inl ''ENOENT: no such file or directory, scandir tmp''"
    by (simp add: accountsAsync_try_def no_dir_def)
  have c: "current_status ?ops ''accounts''
        = ''error: ENOENT: no such file or directory, scandir tmp''"
    "current_status ?ops ''yearly'' = ''starting''"
    "current_status ?ops ''fs'' = ''idle''"
    by (simp_all add: current_status_def t)
  from state_total [where name = "''accounts''" and ops = ?ops and cfg = default_config
      and scope = "''nonsense''"]
    state_total [where name = "''yearly''" and ops = ?ops and cfg = default_config
      and scope = "''nonsense''"]
    state_total [where name = "''fs''" and ops = ?ops and cfg = default_config
      and scope = "''nonsense''" and status = "''starting''"
      and svc = "new_ReportsService default_config"]
  show ?thesis
    by (simp add: c Object_prototype_names_def)
qed

subsection \<open>What each operation does to the metrics\<close>

lemma metrics_accountsAsync:
  "metrics (snd (accountsAsync w t svc)) =
     (if succeeded (accountsAsync_try w)
      then (metrics svc)
        \<lparr>lastRunTime := (lastRunTime (metrics svc))\<lparr>accounts_time := t\<rparr>,
         averageRunTime := (averageRunTime (metrics svc))
           \<lparr>accounts_time := spec_newAverage (accounts_time (averageRunTime (metrics svc)))
              (runs (metrics svc)) t\<rparr>\<rparr>
      else metrics svc)"
  by (cases "accountsAsync_try w")
    (simp_all add: accountsAsync_def accountsAsync_finish_def accountsAsync_start_def
      running_average_def spec_newAverage_def)

lemma metrics_yearlyAsync:
  "metrics (snd (yearlyAsync w t svc)) =
     (if succeeded (yearlyAsync_try w)
      then (metrics svc)
        \<lparr>lastRunTime := (lastRunTime (metrics svc))\<lparr>yearly_time := t\<rparr>,
         averageRunTime := (averageRunTime (metrics svc))
           \<lparr>yearly_time := spec_newAverage (yearly_time (averageRunTime (metrics svc)))
              (runs (metrics svc)) t\<rparr>\<rparr>
      else metrics svc)"
  by (cases "yearlyAsync_try w")
    (simp_all add: yearlyAsync_def yearlyAsync_finish_def yearlyAsync_start_def
      running_average_def spec_newAverage_def)

lemma metrics_fsAsync:
  "metrics (snd (fsAsync w t svc)) =
     (if succeeded (fsAsync_try w)
      then (metrics svc)
        \<lparr>lastRunTime := (lastRunTime (metrics svc))\<lparr>fs_time := t\<rparr>,
         averageRunTime := (averageRunTime (metrics svc))
           \<lparr>fs_time := spec_newAverage (fs_time (averageRunTime (metrics svc)))
              (runs (metrics svc)) t\<rparr>\<rparr>
      else metrics svc)"
  by (cases "fsAsync_try w")
    (simp_all add: fsAsync_def fsAsync_finish_def fsAsync_start_def
      running_average_def spec_newAverage_def)

lemma metrics_sync:
  "metrics (snd (accounts w t svc)) = metrics svc"
  "metrics (snd (yearly w t svc)) = metrics svc"
  "metrics (snd (fs w t svc)) = metrics svc"
  by (simp_all add: accounts_def yearly_def fs_def split: sum.splits)

text \<open>The boolean a generator returns depends on the world and not on the service: it
  tells whether the \<open>try\<close> block ran to its end.\<close>

lemma ok_accountsAsync: "fst (fst (accountsAsync w t svc)) = succeeded (accountsAsync_try w)"
  by (cases "accountsAsync_try w") (simp_all add: accountsAsync_def accountsAsync_finish_def)

lemma ok_yearlyAsync: "fst (fst (yearlyAsync w t svc)) = succeeded (yearlyAsync_try w)"
  by (cases "yearlyAsync_try w") (simp_all add: yearlyAsync_def yearlyAsync_finish_def)

lemma ok_fsAsync: "fst (fst (fsAsync w t svc)) = succeeded (fsAsync_try w)"
  by (cases "fsAsync_try w") (simp_all add: fsAsync_def fsAsync_finish_def)

subsection \<open>Steps on different reports commute\<close>

lemma keys_replace:
  "map fst (map (\<lambda>(k, w). if k = key then (k, v) else (k, w)) obj) = map fst obj"
  by (induction obj) auto

lemma put_present:
  "key \<noteq> ''__proto__'' \<Longrightarrow> key \<in> set (map fst obj) \<Longrightarrow>
   put obj key v = map (\<lambda>(k, w). if k = key then (k, v) else (k, w)) obj"
  by (simp add: put_def)

lemma put_absent:
  "key \<noteq> ''__proto__'' \<Longrightarrow> key \<notin> set (map fst obj) \<Longrightarrow> put obj key v = obj @ [(key, v)]"
  by (simp add: put_def)

lemma put_proto: "put obj ''__proto__'' v = obj"
  by (simp add: put_def)

lemma replace_commute:
  "a \<noteq> b \<Longrightarrow>
   map (\<lambda>(k, x). if k = a then (k, w) else (k, x))
     (map (\<lambda>(k, x). if k = b then (k, v) else (k, x)) obj)
   = map (\<lambda>(k, x). if k = b then (k, v) else (k, x))
     (map (\<lambda>(k, x). if k = a then (k, w) else (k, x)) obj)"
  by (induction obj) auto

lemma put_commute:
  assumes ab: "a \<noteq> b" and a: "a \<in> set (map fst obj)"
  shows "put (put obj b v) a w = put (put obj a w) b v"
proof (cases "a = ''__proto__'' \<or> b = ''__proto__''")
  case True
  then show ?thesis by (auto simp: put_proto)
next
  case False
  then have na: "a \<noteq> ''__proto__''" and nb: "b \<noteq> ''__proto__''" by simp_all
  have ka: "map fst (put obj a w) = map fst obj"
    using a by (simp add: keys_put)
  show ?thesis
  proof (cases "b \<in> set (map fst obj)")
    case True
    have kb: "map fst (put obj b v) = map fst obj" using True by (simp add: keys_put)
    have "put (put obj b v) a w
        = map (\<lambda>(k, x). if k = a then (k, w) else (k, x))
            (map (\<lambda>(k, x). if k = b then (k, v) else (k, x)) obj)"
    proof -
      from a kb have "a \<in> set (map fst (put obj b v))" by simp
      from put_present [OF na this] show ?thesis by (simp add: put_present [OF nb True])
    qed
    also have "\<dots> = map (\<lambda>(k, x). if k = b then (k, v) else (k, x))
            (map (\<lambda>(k, x). if k = a then (k, w) else (k, x)) obj)"
      by (rule replace_commute [OF ab])
    also have "\<dots> = put (put obj a w) b v"
    proof -
      from True ka have "b \<in> set (map fst (put obj a w))" by simp
      from put_present [OF nb this] show ?thesis by (simp add: put_present [OF na a])
    qed
    finally show ?thesis .
  next
    case False
    have l: "put obj b v = obj @ [(b, v)]" by (rule put_absent [OF nb False])
    have "a \<in> set (map fst (obj @ [(b, v)]))" using a by simp
    then have "put (obj @ [(b, v)]) a w
        = map (\<lambda>(k, x). if k = a then (k, w) else (k, x)) (obj @ [(b, v)])"
      by (rule put_present [OF na])
    also have "\<dots> = map (\<lambda>(k, x). if k = a then (k, w) else (k, x)) obj @ [(b, v)]"
      using ab by simp
    also have "\<dots> = put obj a w @ [(b, v)]"
      by (simp only: put_present [OF na a])
    also have "\<dots> = put (put obj a w) b v"
    proof -
      from False ka have "b \<notin> set (map fst (put obj a w))" by simp
      from put_absent [OF nb this] show ?thesis by simp
    qed
    finally show ?thesis using l by simp
  qed
qed

lemma key_set_state:
  "name \<noteq> ''__proto__'' \<Longrightarrow> name \<in> set (map fst (states (set_state name status svc)))"
  by (simp add: set_state_def keys_put)

lemma key_kept_set_state:
  "k \<in> set (map fst (states svc)) \<Longrightarrow> k \<in> set (map fst (states (set_state name status svc)))"
  by (simp add: set_state_def keys_put)

lemma set_state_commute:
  "a \<noteq> b \<Longrightarrow> a \<in> set (map fst (states svc)) \<Longrightarrow>
   set_state a w (set_state b v svc) = set_state b v (set_state a w svc)"
  by (simp add: set_state_def put_commute)

lemma set_state_metrics:
  "set_state name status (svc\<lparr>metrics := m\<rparr>) = (set_state name status svc)\<lparr>metrics := m\<rparr>"
  by (simp add: set_state_def)

lemma set_state_past:
  assumes "a \<in> set (map fst (states svc))" and "a \<noteq> b" and "a \<noteq> c"
  shows "set_state a w (set_state c v2 (set_state b v1 svc))
       = set_state c v2 (set_state b v1 (set_state a w svc))"
proof -
  have "a \<in> set (map fst (states (set_state b v1 svc)))"
    using assms(1) by (rule key_kept_set_state)
  then have "set_state a w (set_state c v2 (set_state b v1 svc))
      = set_state c v2 (set_state a w (set_state b v1 svc))"
    using assms(3) by (rule set_state_commute [rotated])
  also have "set_state a w (set_state b v1 svc) = set_state b v1 (set_state a w svc)"
    using assms(2) assms(1) by (rule set_state_commute)
  finally show ?thesis .
qed

text \<open>
  Finishing a generator after its siblings have started gives what finishing it before
  they start gives: a generator writes only its own status and its own metrics.
\<close>

lemma accountsAsync_finish_late:
  "accountsAsync_finish w t (fsAsync_start (yearlyAsync_start (accountsAsync_start svc)))
   = (fst (accountsAsync w t svc),
      fsAsync_start (yearlyAsync_start (snd (accountsAsync w t svc))))"
proof -
  let ?s1 = "set_state ''accounts'' ''starting'' svc"
  have k: "''accounts'' \<in> set (map fst (states ?s1))"
    by (rule key_set_state) simp
  have c: "\<And>status. set_state ''accounts'' status
             (set_state ''fs'' ''starting'' (set_state ''yearly'' ''starting'' ?s1))
           = set_state ''fs'' ''starting'' (set_state ''yearly'' ''starting''
               (set_state ''accounts'' status ?s1))"
    by (rule set_state_past [OF k]) simp_all
  show ?thesis
    by (cases "accountsAsync_try w")
      (simp_all add: accountsAsync_def accountsAsync_finish_def accountsAsync_start_def
        yearlyAsync_start_def fsAsync_start_def c set_state_metrics)
qed

lemma yearlyAsync_finish_late:
  "yearlyAsync_finish w t (fsAsync_start (yearlyAsync_start svc))
   = (fst (yearlyAsync w t svc), fsAsync_start (snd (yearlyAsync w t svc)))"
proof -
  let ?s1 = "set_state ''yearly'' ''starting'' svc"
  have k: "''yearly'' \<in> set (map fst (states ?s1))"
    by (rule key_set_state) simp
  have c: "\<And>status. set_state ''yearly'' status (set_state ''fs'' ''starting'' ?s1)
           = set_state ''fs'' ''starting'' (set_state ''yearly'' status ?s1)"
    by (rule set_state_commute [OF _ k]) simp
  show ?thesis
    by (cases "yearlyAsync_try w")
      (simp_all add: yearlyAsync_def yearlyAsync_finish_def
        yearlyAsync_start_def fsAsync_start_def c set_state_metrics)
qed

text \<open>
  So the pipeline, whichever way it is configured, is the three generators one after the
  other and then the totals.
\<close>

lemma processReportsAsync_sequence:
  "processReportsAsync r svc =
     ((True,
       snd (fst (accountsAsync (accounts_io r) (accounts_ms r) svc))
       @ snd (fst (yearlyAsync (yearly_io r) (yearly_ms r)
           (snd (accountsAsync (accounts_io r) (accounts_ms r) svc))))
       @ snd (fst (fsAsync (fs_io r) (fs_ms r)
           (snd (yearlyAsync (yearly_io r) (yearly_ms r)
             (snd (accountsAsync (accounts_io r) (accounts_ms r) svc))))))),
      pipeline_totals (total_ms r) (completed_at r)
       (snd (fsAsync (fs_io r) (fs_ms r)
         (snd (yearlyAsync (yearly_io r) (yearly_ms r)
           (snd (accountsAsync (accounts_io r) (accounts_ms r) svc)))))))"
proof (cases "PARALLEL_PROCESSING svc")
  case True
  have fsa: "\<And>s. fsAsync_finish (fs_io r) (fs_ms r) (fsAsync_start s) = fsAsync (fs_io r) (fs_ms r) s"
    by (simp add: fsAsync_def)
  show ?thesis
    using True
    by (simp add: processReportsAsync_def accountsAsync_finish_late yearlyAsync_finish_late
        fsa case_prod_unfold Let_def)
next
  case False
  then show ?thesis
    by (simp add: processReportsAsync_def case_prod_unfold Let_def)
qed

lemma runs_pipeline_totals [simp]:
  "runs (metrics (pipeline_totals t now svc)) = runs (metrics svc) + 1"
  by (simp add: pipeline_totals_def)

lemma runs_generators:
  "runs (metrics (snd (accountsAsync w t svc))) = runs (metrics svc)"
  "runs (metrics (snd (yearlyAsync w t svc))) = runs (metrics svc)"
  "runs (metrics (snd (fsAsync w t svc))) = runs (metrics svc)"
  by (simp_all add: metrics_accountsAsync metrics_yearlyAsync metrics_fsAsync)

lemma ok_independent:
  "fst (fst (accountsAsync w t svc)) = fst (fst (accountsAsync w t svc'))"
  "fst (fst (yearlyAsync w t svc)) = fst (fst (yearlyAsync w t svc'))"
  "fst (fst (fsAsync w t svc)) = fst (fst (fsAsync w t svc'))"
  by (simp_all add: ok_accountsAsync ok_yearlyAsync ok_fsAsync)

text \<open>The metrics after a run of the pipeline, field by field.\<close>

lemma pipeline_metrics:
  "metrics (snd (processReportsAsync r svc)) =
     \<lparr>lastRunTime =
        \<lparr>accounts_time = (if succeeded (accountsAsync_try (accounts_io r)) then accounts_ms r
                            else accounts_time (lastRunTime (metrics svc))),
         yearly_time = (if succeeded (yearlyAsync_try (yearly_io r)) then yearly_ms r
                          else yearly_time (lastRunTime (metrics svc))),
         fs_time = (if succeeded (fsAsync_try (fs_io r)) then fs_ms r
                      else fs_time (lastRunTime (metrics svc))),
         total_time = total_ms r\<rparr>,
      averageRunTime =
        \<lparr>accounts_time = (if succeeded (accountsAsync_try (accounts_io r))
                            then spec_newAverage (accounts_time (averageRunTime (metrics svc)))
                                   (runs (metrics svc)) (accounts_ms r)
                            else accounts_time (averageRunTime (metrics svc))),
         yearly_time = (if succeeded (yearlyAsync_try (yearly_io r))
                          then spec_newAverage (yearly_time (averageRunTime (metrics svc)))
                                 (runs (metrics svc)) (yearly_ms r)
                          else yearly_time (averageRunTime (metrics svc))),
         fs_time = (if succeeded (fsAsync_try (fs_io r))
                      then spec_newAverage (fs_time (averageRunTime (metrics svc)))
                             (runs (metrics svc)) (fs_ms r)
                      else fs_time (averageRunTime (metrics svc))),
         total_time = spec_newAverage (total_time (averageRunTime (metrics svc)))
                        (runs (metrics svc)) (total_ms r)\<rparr>,
      runs = runs (metrics svc) + 1,
      lastRun = Some (completed_at r)\<rparr>"
  by (simp add: processReportsAsync_sequence pipeline_totals_def metrics_accountsAsync
      metrics_yearlyAsync metrics_fsAsync running_average_def spec_newAverage_def)

lemma pipeline_totals_metrics:
  "runs (metrics (snd (processReportsAsync r svc))) = runs (metrics svc) + 1"
  "total_time (averageRunTime (metrics (snd (processReportsAsync r svc))))
     = spec_newAverage (total_time (averageRunTime (metrics svc))) (runs (metrics svc))
         (total_ms r)"
  "total_time (lastRunTime (metrics (snd (processReportsAsync r svc)))) = total_ms r"
  "lastRun (metrics (snd (processReportsAsync r svc))) = Some (completed_at r)"
  by (simp_all add: pipeline_metrics)

subsection \<open>The generators in an empty staging directory\<close>

lemma accountsAsync_try_empty_dir:
  "accountsAsync_try empty_dir = Inr (''out/accounts.csv'', ''Account,Balance'')"
  by (simp add: accountsAsync_try_def empty_dir_def accounts_csvFiles_def accounts_output_def
      entries_def)

lemma yearlyAsync_try_empty_dir:
  "yearlyAsync_try empty_dir = Inr (''out/yearly.csv'', ''Financial Year,Cash Balance'')"
  by (simp add: yearlyAsync_try_def yearly_body_def empty_dir_def yearly_csvFiles_def
      yearly_output_def entries_def)

lemma digits_small: "n < 10 \<Longrightarrow> digits n = [digit_char n]"
  by (simp add: digits.simps)

lemma digits_large: "10 \<le> n \<Longrightarrow> digits n = digits (n div 10) @ [digit_char n]"
  by (subst digits.simps) simp

lemma toFixed2_0: "toFixed2 ts (Fin 0) = ''0.00''"
  by (simp add: toFixed2_def digits_small digit_char_def)

lemma fs_initial_balances_eq:
  "fs_initial_balances =
     map (\<lambda>account. (account, Num (Fin 0))) (Revenues @ Expenses @ Assets @ Liabilities @ Equity)"
  by (simp add: fs_initial_balances_def Revenues_def Expenses_def Assets_def Liabilities_def
      Equity_def put_def)

lemma fsAsync_try_empty_dir: "\<exists>text. fsAsync_try empty_dir = Inr (''out/fs.csv'', text)"
  by (simp add: fsAsync_try_def fs_body_def empty_dir_def fs_csvFiles_def fs_output_def
      fs_initial_balances_eq Revenues_def Expenses_def Assets_def Liabilities_def Equity_def
      or_0_def get_def truthy_def truthy_number_def toFixed2_0 js_sub_def)

lemma succeeded_empty_dir:
  "succeeded (accountsAsync_try empty_dir)"
  "succeeded (yearlyAsync_try empty_dir)"
  "succeeded (fsAsync_try empty_dir)"
  using fsAsync_try_empty_dir
  by (auto simp: accountsAsync_try_empty_dir yearlyAsync_try_empty_dir)

lemma accountsAsync_try_no_dir:
  "accountsAsync_try no_dir = Inl ''ENOENT: no such file or directory, scandir tmp''"
  by (simp add: accountsAsync_try_def no_dir_def)

subsection \<open>What each generator does to the status map\<close>

lemma status_accountsAsync:
  "state (snd (accountsAsync w t svc)) ''accounts'' =
     Own (case accountsAsync_try w of
            Inr written \<Rightarrow> finished_in w t @ '' seconds''
          | Inl msg \<Rightarrow> ''error: '' @ msg)"
  by (simp add: accountsAsync_def accountsAsync_finish_def state_set_state_same
      split: sum.splits)

lemma status_yearlyAsync:
  "state (snd (yearlyAsync w t svc)) ''yearly'' =
     Own (case yearlyAsync_try w of
            Inr written \<Rightarrow> finished_in w t @ '' seconds''
          | Inl msg \<Rightarrow> ''error: '' @ msg)"
  by (simp add: yearlyAsync_def yearlyAsync_finish_def state_set_state_same
      split: sum.splits)

lemma status_fsAsync:
  "state (snd (fsAsync w t svc)) ''fs'' =
     Own (case fsAsync_try w of
            Inr written \<Rightarrow> finished_in w t @ '' seconds''
          | Inl msg \<Rightarrow> ''error: '' @ msg)"
  by (simp add: fsAsync_def fsAsync_finish_def state_set_state_same
      split: sum.splits)

lemma others_accountsAsync:
  "scope \<noteq> ''accounts'' \<Longrightarrow> state (snd (accountsAsync w t svc)) scope = state svc scope"
  by (simp add: accountsAsync_def accountsAsync_finish_def accountsAsync_start_def
      state_set_state_other split: sum.splits)

lemma others_yearlyAsync:
  "scope \<noteq> ''yearly'' \<Longrightarrow> state (snd (yearlyAsync w t svc)) scope = state svc scope"
  by (simp add: yearlyAsync_def yearlyAsync_finish_def yearlyAsync_start_def
      state_set_state_other split: sum.splits)

lemma others_fsAsync:
  "scope \<noteq> ''fs'' \<Longrightarrow> state (snd (fsAsync w t svc)) scope = state svc scope"
  by (simp add: fsAsync_def fsAsync_finish_def fsAsync_start_def
      state_set_state_other split: sum.splits)

lemma state_pipeline_totals [simp]:
  "state (pipeline_totals t now svc) scope = state svc scope"
  by (simp add: pipeline_totals_def)

lemma status_after_pipeline:
  "state (snd (processReportsAsync r svc)) ''accounts''
     = state (snd (accountsAsync (accounts_io r) (accounts_ms r) svc)) ''accounts''"
  "state (snd (processReportsAsync r svc)) ''yearly''
     = state (snd (yearlyAsync (yearly_io r) (yearly_ms r) svc)) ''yearly''"
  "state (snd (processReportsAsync r svc)) ''fs''
     = state (snd (fsAsync (fs_io r) (fs_ms r) svc)) ''fs''"
  by (simp_all add: processReportsAsync_sequence others_accountsAsync others_yearlyAsync
      others_fsAsync status_yearlyAsync status_fsAsync)

lemma written_independent:
  "snd (fst (accountsAsync w t svc)) = snd (fst (accountsAsync w t svc'))"
  "snd (fst (yearlyAsync w t svc)) = snd (fst (yearlyAsync w t svc'))"
  "snd (fst (fsAsync w t svc)) = snd (fst (fsAsync w t svc'))"
  by (simp_all add: accountsAsync_def accountsAsync_finish_def yearlyAsync_def
      yearlyAsync_finish_def fsAsync_def fsAsync_finish_def split: sum.splits)

lemma failed_generator:
  "accountsAsync_try w = Inl msg \<Longrightarrow> fst (accountsAsync w t svc) = (False, [])"
  "yearlyAsync_try w = Inl msg \<Longrightarrow> fst (yearlyAsync w t svc) = (False, [])"
  "fsAsync_try w = Inl msg \<Longrightarrow> fst (fsAsync w t svc) = (False, [])"
  by (simp_all add: accountsAsync_def accountsAsync_finish_def yearlyAsync_def
      yearlyAsync_finish_def fsAsync_def fsAsync_finish_def)

text \<open>
  Claim C1, as amended. A generator \<open>accountsAsync\<close>, \<open>yearlyAsync\<close> or \<open>fsAsync\<close> that
  is called directly and whose work succeeds returns \<open>true\<close> and changes exactly two
  metrics: the last duration of its report becomes the time of this call, and the
  average duration of its report becomes the value the rule of the specification gives
  from the old average, the run counter as it stands, and the time of this call, in the
  arithmetic of the runtime. One
  whose work fails returns \<open>false\<close> and leaves every metric as it was. A run of the
  pipeline does the same for each of the three reports, with the counter as it was before
  the run; it sets the last total duration, updates the average total by the same rule,
  adds exactly one to the counter and stamps the date. No generator called directly,
  asynchronous or synchronous, changes the counter.
\<close>

theorem running_average_rule:
  "(succeeded (accountsAsync_try w) \<longrightarrow>
      fst (fst (accountsAsync w t svc))
      \<and> metrics (snd (accountsAsync w t svc)) = (metrics svc)
          \<lparr>lastRunTime := (lastRunTime (metrics svc))\<lparr>accounts_time := t\<rparr>,
           averageRunTime := (averageRunTime (metrics svc))
             \<lparr>accounts_time := spec_newAverage (accounts_time (averageRunTime (metrics svc)))
                (runs (metrics svc)) t\<rparr>\<rparr>)
   \<and> (\<not> succeeded (accountsAsync_try w) \<longrightarrow>
      \<not> fst (fst (accountsAsync w t svc))
      \<and> metrics (snd (accountsAsync w t svc)) = metrics svc)
   \<and> (succeeded (yearlyAsync_try w) \<longrightarrow>
      fst (fst (yearlyAsync w t svc))
      \<and> metrics (snd (yearlyAsync w t svc)) = (metrics svc)
          \<lparr>lastRunTime := (lastRunTime (metrics svc))\<lparr>yearly_time := t\<rparr>,
           averageRunTime := (averageRunTime (metrics svc))
             \<lparr>yearly_time := spec_newAverage (yearly_time (averageRunTime (metrics svc)))
                (runs (metrics svc)) t\<rparr>\<rparr>)
   \<and> (\<not> succeeded (yearlyAsync_try w) \<longrightarrow>
      \<not> fst (fst (yearlyAsync w t svc))
      \<and> metrics (snd (yearlyAsync w t svc)) = metrics svc)
   \<and> (succeeded (fsAsync_try w) \<longrightarrow>
      fst (fst (fsAsync w t svc))
      \<and> metrics (snd (fsAsync w t svc)) = (metrics svc)
          \<lparr>lastRunTime := (lastRunTime (metrics svc))\<lparr>fs_time := t\<rparr>,
           averageRunTime := (averageRunTime (metrics svc))
             \<lparr>fs_time := spec_newAverage (fs_time (averageRunTime (metrics svc)))
                (runs (metrics svc)) t\<rparr>\<rparr>)
   \<and> (\<not> succeeded (fsAsync_try w) \<longrightarrow>
      \<not> fst (fst (fsAsync w t svc))
      \<and> metrics (snd (fsAsync w t svc)) = metrics svc)
   \<and> metrics (snd (processReportsAsync r svc)) =
     \<lparr>lastRunTime =
        \<lparr>accounts_time = (if succeeded (accountsAsync_try (accounts_io r)) then accounts_ms r
                            else accounts_time (lastRunTime (metrics svc))),
         yearly_time = (if succeeded (yearlyAsync_try (yearly_io r)) then yearly_ms r
                          else yearly_time (lastRunTime (metrics svc))),
         fs_time = (if succeeded (fsAsync_try (fs_io r)) then fs_ms r
                      else fs_time (lastRunTime (metrics svc))),
         total_time = total_ms r\<rparr>,
      averageRunTime =
        \<lparr>accounts_time = (if succeeded (accountsAsync_try (accounts_io r))
                            then spec_newAverage (accounts_time (averageRunTime (metrics svc)))
                                   (runs (metrics svc)) (accounts_ms r)
                            else accounts_time (averageRunTime (metrics svc))),
         yearly_time = (if succeeded (yearlyAsync_try (yearly_io r))
                          then spec_newAverage (yearly_time (averageRunTime (metrics svc)))
                                 (runs (metrics svc)) (yearly_ms r)
                          else yearly_time (averageRunTime (metrics svc))),
         fs_time = (if succeeded (fsAsync_try (fs_io r))
                      then spec_newAverage (fs_time (averageRunTime (metrics svc)))
                             (runs (metrics svc)) (fs_ms r)
                      else fs_time (averageRunTime (metrics svc))),
         total_time = spec_newAverage (total_time (averageRunTime (metrics svc)))
                        (runs (metrics svc)) (total_ms r)\<rparr>,
      runs = runs (metrics svc) + 1,
      lastRun = Some (completed_at r)\<rparr>
   \<and> runs (metrics (snd (accounts w t svc))) = runs (metrics svc)
   \<and> runs (metrics (snd (yearly w t svc))) = runs (metrics svc)
   \<and> runs (metrics (snd (fs w t svc))) = runs (metrics svc)"
proof -
  have a: "(succeeded (accountsAsync_try w) \<longrightarrow>
      fst (fst (accountsAsync w t svc))
      \<and> metrics (snd (accountsAsync w t svc)) = (metrics svc)
          \<lparr>lastRunTime := (lastRunTime (metrics svc))\<lparr>accounts_time := t\<rparr>,
           averageRunTime := (averageRunTime (metrics svc))
             \<lparr>accounts_time := spec_newAverage (accounts_time (averageRunTime (metrics svc)))
                (runs (metrics svc)) t\<rparr>\<rparr>)
   \<and> (\<not> succeeded (accountsAsync_try w) \<longrightarrow>
      \<not> fst (fst (accountsAsync w t svc))
      \<and> metrics (snd (accountsAsync w t svc)) = metrics svc)"
    by (simp add: ok_accountsAsync metrics_accountsAsync)
  have y: "(succeeded (yearlyAsync_try w) \<longrightarrow>
      fst (fst (yearlyAsync w t svc))
      \<and> metrics (snd (yearlyAsync w t svc)) = (metrics svc)
          \<lparr>lastRunTime := (lastRunTime (metrics svc))\<lparr>yearly_time := t\<rparr>,
           averageRunTime := (averageRunTime (metrics svc))
             \<lparr>yearly_time := spec_newAverage (yearly_time (averageRunTime (metrics svc)))
                (runs (metrics svc)) t\<rparr>\<rparr>)
   \<and> (\<not> succeeded (yearlyAsync_try w) \<longrightarrow>
      \<not> fst (fst (yearlyAsync w t svc))
      \<and> metrics (snd (yearlyAsync w t svc)) = metrics svc)"
    by (simp add: ok_yearlyAsync metrics_yearlyAsync)
  have f: "(succeeded (fsAsync_try w) \<longrightarrow>
      fst (fst (fsAsync w t svc))
      \<and> metrics (snd (fsAsync w t svc)) = (metrics svc)
          \<lparr>lastRunTime := (lastRunTime (metrics svc))\<lparr>fs_time := t\<rparr>,
           averageRunTime := (averageRunTime (metrics svc))
             \<lparr>fs_time := spec_newAverage (fs_time (averageRunTime (metrics svc)))
                (runs (metrics svc)) t\<rparr>\<rparr>)
   \<and> (\<not> succeeded (fsAsync_try w) \<longrightarrow>
      \<not> fst (fst (fsAsync w t svc))
      \<and> metrics (snd (fsAsync w t svc)) = metrics svc)"
    by (simp add: ok_fsAsync metrics_fsAsync)
  have s: "runs (metrics (snd (accounts w t svc))) = runs (metrics svc)"
    "runs (metrics (snd (yearly w t svc))) = runs (metrics svc)"
    "runs (metrics (snd (fs w t svc))) = runs (metrics svc)"
    by (simp_all only: metrics_sync)
  from a y f pipeline_metrics [of r svc] s show ?thesis by (intro conjI) (elim conjE, assumption)+
qed

text \<open>
  After one quiet run of the pipeline (accounts took 1000 ms, yearly 3000 ms, the
  financial statement 5000 ms), direct calls that take 2000 ms make the averages
  \<open>(1000 * 1 + 2000) / 2\<close>, \<open>(3000 * 1 + 2000) / 2\<close> and \<open>(5000 * 1 + 2000) / 2\<close> and
  the last durations 2000, with the counter left at 1; a call of the accounts generator
  that finds no staging directory leaves the metrics as they were.
\<close>

lemma spec_newAverage_values:
  "spec_newAverage 0 0 1000 = 1000" "spec_newAverage 0 0 3000 = 3000"
  "spec_newAverage 0 0 5000 = 5000" "spec_newAverage 0 0 6000 = 6000"
  "spec_newAverage 1000 (Suc 0) 2000 = 1500" "spec_newAverage 3000 (Suc 0) 2000 = 2500"
  "spec_newAverage 5000 (Suc 0) 2000 = 3500" "spec_newAverage 1000 (Suc 0) 10 = 505"
  by (simp_all add: spec_newAverage_def)

lemma quiet_run_metrics:
  "metrics (snd (processReportsAsync quiet_run (new_ReportsService default_config))) =
     \<lparr>lastRunTime =
        \<lparr>accounts_time = 1000, yearly_time = 3000, fs_time = 5000, total_time = 6000\<rparr>,
      averageRunTime =
        \<lparr>accounts_time = 1000, yearly_time = 3000, fs_time = 5000, total_time = 6000\<rparr>,
      runs = 1, lastRun = Some 1762164000000\<rparr>"
  by (simp add: pipeline_metrics quiet_run_def succeeded_empty_dir new_ReportsService_def
      spec_newAverage_values)

theorem running_average_rule_witness:
  "succeeded (accountsAsync_try empty_dir)
   \<and> succeeded (yearlyAsync_try empty_dir)
   \<and> succeeded (fsAsync_try empty_dir)
   \<and> \<not> succeeded (accountsAsync_try no_dir)
   \<and> metrics (snd (accountsAsync empty_dir 2000
       (snd (processReportsAsync quiet_run (new_ReportsService default_config))))) =
     \<lparr>lastRunTime =
        \<lparr>accounts_time = 2000, yearly_time = 3000, fs_time = 5000, total_time = 6000\<rparr>,
      averageRunTime =
        \<lparr>accounts_time = 1500, yearly_time = 3000, fs_time = 5000, total_time = 6000\<rparr>,
      runs = 1, lastRun = Some 1762164000000\<rparr>
   \<and> metrics (snd (yearlyAsync empty_dir 2000
       (snd (processReportsAsync quiet_run (new_ReportsService default_config))))) =
     \<lparr>lastRunTime =
        \<lparr>accounts_time = 1000, yearly_time = 2000, fs_time = 5000, total_time = 6000\<rparr>,
      averageRunTime =
        \<lparr>accounts_time = 1000, yearly_time = 2500, fs_time = 5000, total_time = 6000\<rparr>,
      runs = 1, lastRun = Some 1762164000000\<rparr>
   \<and> metrics (snd (fsAsync empty_dir 2000
       (snd (processReportsAsync quiet_run (new_ReportsService default_config))))) =
     \<lparr>lastRunTime =
        \<lparr>accounts_time = 1000, yearly_time = 3000, fs_time = 2000, total_time = 6000\<rparr>,
      averageRunTime =
        \<lparr>accounts_time = 1000, yearly_time = 3000, fs_time = 3500, total_time = 6000\<rparr>,
      runs = 1, lastRun = Some 1762164000000\<rparr>
   \<and> metrics (snd (accountsAsync no_dir 2000
       (snd (processReportsAsync quiet_run (new_ReportsService default_config))))) =
     \<lparr>lastRunTime =
        \<lparr>accounts_time = 1000, yearly_time = 3000, fs_time = 5000, total_time = 6000\<rparr>,
      averageRunTime =
        \<lparr>accounts_time = 1000, yearly_time = 3000, fs_time = 5000, total_time = 6000\<rparr>,
      runs = 1, lastRun = Some 1762164000000\<rparr>
   \<and> fst (fst (accountsAsync empty_dir 2000
       (snd (processReportsAsync quiet_run (new_ReportsService default_config)))))"
proof -
  let ?svc1 = "snd (processReportsAsync quiet_run (new_ReportsService default_config))"
  have n: "\<not> succeeded (accountsAsync_try no_dir)"
    by (simp add: accountsAsync_try_no_dir)
  from running_average_rule [of empty_dir 2000 ?svc1 quiet_run]
  have e: "fst (fst (accountsAsync empty_dir 2000 ?svc1))"
    "metrics (snd (accountsAsync empty_dir 2000 ?svc1)) =
     \<lparr>lastRunTime =
        \<lparr>accounts_time = 2000, yearly_time = 3000, fs_time = 5000, total_time = 6000\<rparr>,
      averageRunTime =
        \<lparr>accounts_time = 1500, yearly_time = 3000, fs_time = 5000, total_time = 6000\<rparr>,
      runs = 1, lastRun = Some 1762164000000\<rparr>"
    "metrics (snd (yearlyAsync empty_dir 2000 ?svc1)) =
     \<lparr>lastRunTime =
        \<lparr>accounts_time = 1000, yearly_time = 2000, fs_time = 5000, total_time = 6000\<rparr>,
      averageRunTime =
        \<lparr>accounts_time = 1000, yearly_time = 2500, fs_time = 5000, total_time = 6000\<rparr>,
      runs = 1, lastRun = Some 1762164000000\<rparr>"
    "metrics (snd (fsAsync empty_dir 2000 ?svc1)) =
     \<lparr>lastRunTime =
        \<lparr>accounts_time = 1000, yearly_time = 3000, fs_time = 2000, total_time = 6000\<rparr>,
      averageRunTime =
        \<lparr>accounts_time = 1000, yearly_time = 3000, fs_time = 3500, total_time = 6000\<rparr>,
      runs = 1, lastRun = Some 1762164000000\<rparr>"
    by (simp_all add: succeeded_empty_dir quiet_run_metrics spec_newAverage_values)
  from running_average_rule [of no_dir 2000 ?svc1 quiet_run] n
  have f: "metrics (snd (accountsAsync no_dir 2000 ?svc1)) =
     \<lparr>lastRunTime =
        \<lparr>accounts_time = 1000, yearly_time = 3000, fs_time = 5000, total_time = 6000\<rparr>,
      averageRunTime =
        \<lparr>accounts_time = 1000, yearly_time = 3000, fs_time = 5000, total_time = 6000\<rparr>,
      runs = 1, lastRun = Some 1762164000000\<rparr>"
    by (simp add: quiet_run_metrics)
  from succeeded_empty_dir n e f show ?thesis by (simp only: simp_thms)
qed

text \<open>
  The claim as it stands fails on a direct call that fails: after the quiet run, a call
  of the accounts generator that finds no staging directory and gives up after 10 ms
  updates neither the last duration nor the average of the accounts report; the rule
  would make the average \<open>(1000 * 1 + 10) / 2\<close>. And the synchronous \<open>accounts()\<close>
  updates neither even when it succeeds.
\<close>

theorem failed_call_counterexample:
  "accountsAsync_try no_dir = Inl ''ENOENT: no such file or directory, scandir tmp''
   \<and> fst (fst (accountsAsync no_dir 10
       (snd (processReportsAsync quiet_run (new_ReportsService default_config))))) = False
   \<and> accounts_time (lastRunTime (metrics (snd (accountsAsync no_dir 10
       (snd (processReportsAsync quiet_run (new_ReportsService default_config))))))) = 1000
   \<and> accounts_time (averageRunTime (metrics (snd (accountsAsync no_dir 10
       (snd (processReportsAsync quiet_run (new_ReportsService default_config))))))) = 1000
   \<and> spec_newAverage 1000 1 10 = 505
   \<and> fst (accounts empty_dir 2000
       (snd (processReportsAsync quiet_run (new_ReportsService default_config))))
     = Inr (''out/accounts.csv'', ''Account,Balance'')
   \<and> accounts_time (lastRunTime (metrics (snd (accounts empty_dir 2000
       (snd (processReportsAsync quiet_run (new_ReportsService default_config))))))) = 1000
   \<and> accounts_time (averageRunTime (metrics (snd (accounts empty_dir 2000
       (snd (processReportsAsync quiet_run (new_ReportsService default_config))))))) = 1000"
proof -
  have s: "accounts_sync_body empty_dir = Inr (''out/accounts.csv'', ''Account,Balance'')"
    by (simp add: accounts_sync_body_def empty_dir_def accounts_csvFiles_def accounts_output_def
        entries_def)
  show ?thesis
    by (simp add: accountsAsync_try_no_dir ok_accountsAsync metrics_accountsAsync
        quiet_run_metrics spec_newAverage_values metrics_sync accounts_def s)
qed

lemma finish_order_irrelevant:
  assumes "set (map fst (states svc)) = {''accounts'', ''yearly'', ''fs''}"
  shows "snd (yearlyAsync_finish wy ty (snd (accountsAsync_finish wa ta svc)))
         = snd (accountsAsync_finish wa ta (snd (yearlyAsync_finish wy ty svc)))"
    and "snd (fsAsync_finish wz tz (snd (accountsAsync_finish wa ta svc)))
         = snd (accountsAsync_finish wa ta (snd (fsAsync_finish wz tz svc)))"
    and "snd (fsAsync_finish wz tz (snd (yearlyAsync_finish wy ty svc)))
         = snd (yearlyAsync_finish wy ty (snd (fsAsync_finish wz tz svc)))"
proof -
  have ay: "\<And>u v. set_state ''yearly'' u (set_state ''accounts'' v svc)
      = set_state ''accounts'' v (set_state ''yearly'' u svc)"
    using assms by (intro set_state_commute) simp_all
  have af: "\<And>u v. set_state ''fs'' u (set_state ''accounts'' v svc)
      = set_state ''accounts'' v (set_state ''fs'' u svc)"
    using assms by (intro set_state_commute) simp_all
  have yf: "\<And>u v. set_state ''fs'' u (set_state ''yearly'' v svc)
      = set_state ''yearly'' v (set_state ''fs'' u svc)"
    using assms by (intro set_state_commute) simp_all
  show "snd (yearlyAsync_finish wy ty (snd (accountsAsync_finish wa ta svc)))
         = snd (accountsAsync_finish wa ta (snd (yearlyAsync_finish wy ty svc)))"
    by (cases "accountsAsync_try wa"; cases "yearlyAsync_try wy")
      (simp_all add: accountsAsync_finish_def yearlyAsync_finish_def set_state_metrics ay)
  show "snd (fsAsync_finish wz tz (snd (accountsAsync_finish wa ta svc)))
         = snd (accountsAsync_finish wa ta (snd (fsAsync_finish wz tz svc)))"
    by (cases "accountsAsync_try wa"; cases "fsAsync_try wz")
      (simp_all add: accountsAsync_finish_def fsAsync_finish_def set_state_metrics af)
  show "snd (fsAsync_finish wz tz (snd (yearlyAsync_finish wy ty svc)))
         = snd (yearlyAsync_finish wy ty (snd (fsAsync_finish wz tz svc)))"
    by (cases "yearlyAsync_try wy"; cases "fsAsync_try wz")
      (simp_all add: yearlyAsync_finish_def fsAsync_finish_def set_state_metrics yf)
qed

lemma finished_in_3000: "finished_in empty_dir 3000 = ''finished in 3.00''"
  by (simp add: finished_in_def toFixed2_def digits_small digits_large digit_char_def)

text \<open>
  Claim C4. A generator whose work throws (an error of the file system, or a
  \<open>TypeError\<close> while the report is formatted) returns \<open>false\<close>, writes nothing and
  leaves \<open>error: <message>\<close> in its own status. Whatever the three generators meet, a
  run of the pipeline returns \<open>true\<close>, records the total time, adds one to the run
  counter and stamps the date; each report's status after the run, and the files
  written in it, are those of the generator run alone: a failure among the siblings
  changes neither.
\<close>

theorem report_failures_contained:
  "(accountsAsync_try w = Inl msg \<longrightarrow>
      fst (accountsAsync w t svc) = (False, [])
      \<and> state (snd (accountsAsync w t svc)) ''accounts'' = Own (''error: '' @ msg))
   \<and> (yearlyAsync_try w = Inl msg \<longrightarrow>
      fst (yearlyAsync w t svc) = (False, [])
      \<and> state (snd (yearlyAsync w t svc)) ''yearly'' = Own (''error: '' @ msg))
   \<and> (fsAsync_try w = Inl msg \<longrightarrow>
      fst (fsAsync w t svc) = (False, [])
      \<and> state (snd (fsAsync w t svc)) ''fs'' = Own (''error: '' @ msg))
   \<and> fst (fst (processReportsAsync r svc)) = True
   \<and> total_time (lastRunTime (metrics (snd (processReportsAsync r svc)))) = total_ms r
   \<and> runs (metrics (snd (processReportsAsync r svc))) = runs (metrics svc) + 1
   \<and> lastRun (metrics (snd (processReportsAsync r svc))) = Some (completed_at r)
   \<and> state (snd (processReportsAsync r svc)) ''accounts''
       = state (snd (accountsAsync (accounts_io r) (accounts_ms r) svc)) ''accounts''
   \<and> state (snd (processReportsAsync r svc)) ''yearly''
       = state (snd (yearlyAsync (yearly_io r) (yearly_ms r) svc)) ''yearly''
   \<and> state (snd (processReportsAsync r svc)) ''fs''
       = state (snd (fsAsync (fs_io r) (fs_ms r) svc)) ''fs''
   \<and> snd (fst (processReportsAsync r svc))
       = snd (fst (accountsAsync (accounts_io r) (accounts_ms r) svc))
         @ snd (fst (yearlyAsync (yearly_io r) (yearly_ms r) svc))
         @ snd (fst (fsAsync (fs_io r) (fs_ms r) svc))"
proof -
  have gen: "accountsAsync_try w = Inl msg \<longrightarrow>
      fst (accountsAsync w t svc) = (False, [])
      \<and> state (snd (accountsAsync w t svc)) ''accounts'' = Own (''error: '' @ msg)"
    "yearlyAsync_try w = Inl msg \<longrightarrow>
      fst (yearlyAsync w t svc) = (False, [])
      \<and> state (snd (yearlyAsync w t svc)) ''yearly'' = Own (''error: '' @ msg)"
    "fsAsync_try w = Inl msg \<longrightarrow>
      fst (fsAsync w t svc) = (False, [])
      \<and> state (snd (fsAsync w t svc)) ''fs'' = Own (''error: '' @ msg)"
    by (simp_all add: failed_generator status_accountsAsync status_yearlyAsync status_fsAsync)
  have ret: "fst (fst (processReportsAsync r svc)) = True"
    by (simp add: processReportsAsync_sequence)
  have wr: "snd (fst (processReportsAsync r svc))
       = snd (fst (accountsAsync (accounts_io r) (accounts_ms r) svc))
         @ snd (fst (yearlyAsync (yearly_io r) (yearly_ms r) svc))
         @ snd (fst (fsAsync (fs_io r) (fs_ms r) svc))"
    using written_independent(2) [of "yearly_io r" "yearly_ms r"
        "snd (accountsAsync (accounts_io r) (accounts_ms r) svc)" svc]
      written_independent(3) [of "fs_io r" "fs_ms r"
        "snd (yearlyAsync (yearly_io r) (yearly_ms r)
           (snd (accountsAsync (accounts_io r) (accounts_ms r) svc)))" svc]
    by (simp add: processReportsAsync_sequence)
  from gen ret wr pipeline_totals_metrics(1,3,4) [of r svc] status_after_pipeline [of r svc]
  show ?thesis by blast
qed

text \<open>
  A run in which the accounts generator finds no staging directory while its siblings
  find an empty one.
\<close>

theorem report_failures_contained_witness:
  "accountsAsync_try no_dir = Inl ''ENOENT: no such file or directory, scandir tmp''
   \<and> fst (accountsAsync no_dir 10 (new_ReportsService default_config)) = (False, [])
   \<and> state (snd (processReportsAsync failing_run (new_ReportsService default_config)))
        ''accounts'' = Own ''error: ENOENT: no such file or directory, scandir tmp''
   \<and> state (snd (processReportsAsync failing_run (new_ReportsService default_config)))
        ''yearly'' = Own ''finished in 3.00 seconds''
   \<and> fst (fst (processReportsAsync failing_run (new_ReportsService default_config))) = True
   \<and> runs (metrics (snd (processReportsAsync failing_run
         (new_ReportsService default_config)))) = 1
   \<and> snd (fst (processReportsAsync failing_run (new_ReportsService default_config)))
       = snd (fst (yearlyAsync empty_dir 3000 (new_ReportsService default_config)))
         @ snd (fst (fsAsync empty_dir 5000 (new_ReportsService default_config)))"
proof -
  let ?svc0 = "new_ReportsService default_config"
  have f: "accounts_io failing_run = no_dir" "accounts_ms failing_run = 10"
    "yearly_io failing_run = empty_dir" "yearly_ms failing_run = 3000"
    "fs_io failing_run = empty_dir" "fs_ms failing_run = 5000"
    by (simp_all add: failing_run_def)
  have r0: "runs (metrics ?svc0) = 0" by (simp add: new_ReportsService_def)
  from report_failures_contained [of no_dir
      "''ENOENT: no such file or directory, scandir tmp''" 10 ?svc0 failing_run]
  show ?thesis
    by (simp add: f r0 accountsAsync_try_no_dir status_yearlyAsync yearlyAsync_try_empty_dir
        finished_in_3000)
qed


subsection \<open>Digits\<close>

lemma is_digit_digit_char: "is_digit (digit_char d)"
proof -
  have "d mod 10 < length ''0123456789''" by simp
  then have "''0123456789'' ! (d mod 10) \<in> set ''0123456789''" by (rule nth_mem)
  then show ?thesis by (simp only: is_digit_def digit_char_def)
qed

lemma digits_are_digits: "list_all is_digit (digits n) \<and> digits n \<noteq> []"
proof (induction n rule: digits.induct)
  case (1 n)
  show ?case
  proof (cases "n < 10")
    case True
    then show ?thesis by (simp add: digits_small is_digit_digit_char)
  next
    case False
    with 1 show ?thesis by (simp add: digits_large is_digit_digit_char)
  qed
qed

lemma minus_is_no_digit: "is_digit c \<Longrightarrow> c \<noteq> CHR ''-''"
  by (auto simp: is_digit_def)


subsection \<open>Reading the amount of a row\<close>

lemma parseFloat_0: "parseFloat ''0'' = Fin 0"
  by (simp add: parseFloat_def StrWhiteSpaceChar_def is_digit_def digits_value_def
      digit_value_def exponent_part_def)





text \<open>The guard \<open>field || 0\<close> before \<open>parseFloat\<close> is the rule of the specification for a
  field that is missing or empty.\<close>

lemma parseFloat_or_0_field_value: "parseFloat_or_0 field = field_value field"
  by (cases field) (simp_all add: parseFloat_or_0_def parseFloat_0)

lemma line_amount_field_values:
  "line_amount line = js_sub (field_value (debit_field line)) (field_value (credit_field line))"
  by (simp add: line_amount_def row_amount_def parseFloat_or_0_field_value debit_field_def
      credit_field_def)

lemma line_amount_debit_minus_credit: "line_amount line = debit_minus_credit line"
  by (simp add: line_amount_field_values debit_minus_credit_def)

subsection \<open>What a row does to a balance\<close>




lemma is_binary64_field_value [simp]: "is_binary64 (field_value field)"
  by (cases field) simp_all









subsection \<open>Which files a generator reads, and where it writes\<close>

lemma own_report_excluded:
  "''yearly.csv'' \<notin> set (yearly_csvFiles files)"
  "''fs.csv'' \<notin> set (fs_csvFiles files)"
  by (simp_all add: yearly_csvFiles_def fs_csvFiles_def)

lemma accounts_csvFiles_iff:
  "file \<in> set (accounts_csvFiles files) \<longleftrightarrow> file \<in> set files \<and> endsWith file ''.csv''"
  by (auto simp: accounts_csvFiles_def)

lemma split_earlier_report:
  "split CHR 0x0A ''Account,Balance\<newline>Cash,700.00''
     = [''Account,Balance'', ''Cash,700.00'']"
  "split CHR '','' ''Account,Balance'' = [''Account'', ''Balance'']"
  "split CHR '','' ''Cash,700.00'' = [''Cash'', ''700.00'']"
  by simp_all

text \<open>
  Claim C8 holds of the yearly and the financial-statement generators (lemma
  \<open>own_report_excluded\<close>) and fails of the accounts generator, whose filter is
  \<open>endsWith('.csv')\<close> alone: with a file \<open>accounts.csv\<close> in the staging directory it reads
  that file, and the rows of the new report are made of the lines of the old one.
\<close>

theorem accounts_reads_accounts_csv:
  "accounts_csvFiles [''accounts.csv''] = [''accounts.csv'']
   \<and> accountsAsync_try earlier_report
       = Inr (''out/accounts.csv'',
              join [CHR 0x0A] [''Account,Balance'', ''Balance,0.00'', ''700.00,0.00''])"
proof -
  have c: "accounts_csvFiles [''accounts.csv''] = [''accounts.csv'']"
    by (simp add: accounts_csvFiles_def endsWith_def)
  have t: "trim ''Account,Balance\<newline>Cash,700.00''
      = ''Account,Balance\<newline>Cash,700.00''"
    by (simp add: trim_def StrWhiteSpaceChar_def)
  have l: "line_amount ''Account,Balance'' = Fin 0" "line_amount ''Cash,700.00'' = Fin 0"
    "line_account ''Account,Balance'' = Some ''Balance''"
    "line_account ''Cash,700.00'' = Some ''700.00''"
    by (simp_all only: line_amount_def line_account_def split_earlier_report)
      (simp_all add: element_def row_amount_def parseFloat_or_0_def parseFloat_0 js_sub_def)
  have f: "accounts_file ''Account,Balance\<newline>Cash,700.00'' []
      = [(''Balance'', Num (Fin 0)), (''700.00'', Num (Fin 0))]"
    unfolding accounts_file_def accounts_line_def file_lines_def t split_earlier_report
    by (simp add: l property_key_def add_to_def get_def put_def truthy_def truthy_number_def
        plus_amount_def Object_prototype_names_def)
  have o: "accounts_output (toStringLarge earlier_report)
        [(''Balance'', Num (Fin 0)), (''700.00'', Num (Fin 0))]
      = Inr [''Account,Balance'', ''Balance,0.00'', ''700.00,0.00'']"
    by (simp add: accounts_output_def entries_def is_array_index_def is_digit_def toFixed2_0)
  have r: "readdir earlier_report ''tmp'' = Inr [''accounts.csv'']"
    "completion earlier_report [''accounts.csv''] = [''accounts.csv'']"
    "readFile earlier_report (path_join ''tmp'' ''accounts.csv'')
       = Inr (join [CHR 0x0A] [''Account,Balance'', ''Cash,700.00''])"
    "\<And>text. writeFile earlier_report ''out/accounts.csv'' text = None"
    by (simp_all add: earlier_report_def path_join_def)
  have "accountsAsync_try earlier_report
       = Inr (''out/accounts.csv'',
              join [CHR 0x0A] [''Account,Balance'', ''Balance,0.00'', ''700.00,0.00''])"
    by (simp add: accountsAsync_try_def r c f o Let_def)
  with c show ?thesis by simp
qed

text \<open>
  Claim C9 fails of the code: the constructor reads the two directories from the
  configuration, and no generator uses them. A service configured with \<open>data\<close> and
  \<open>reports\<close> scans \<open>tmp\<close> (here empty, so the ledger in \<open>data\<close> is not in the report) and
  writes \<open>out/accounts.csv\<close>.
\<close>

theorem configured_directories_unused:
  "TMP_DIR (new_ReportsService configured) = ''data''
   \<and> OUTPUT_DIR (new_ReportsService configured) = ''reports''
   \<and> fst (accountsAsync data_world 5 (new_ReportsService configured))
       = (True, [(''out/accounts.csv'', ''Account,Balance'')])"
proof -
  have t: "accountsAsync_try data_world = Inr (''out/accounts.csv'', ''Account,Balance'')"
    by (simp add: accountsAsync_try_def data_world_def accounts_csvFiles_def
        accounts_output_def entries_def)
  show ?thesis
    by (simp add: new_ReportsService_def configured_def config_get_def accountsAsync_def
        accountsAsync_finish_def t)
qed

lemma directories_are_literals:
  "accountsAsync_try w = Inr (path, text) \<Longrightarrow> path = ''out/accounts.csv''"
  "yearlyAsync_try w = Inr (path, text) \<Longrightarrow> path = ''out/yearly.csv''"
  "fsAsync_try w = Inr (path, text) \<Longrightarrow> path = ''out/fs.csv''"
  by (auto simp: accountsAsync_try_def yearlyAsync_try_def yearly_body_def fsAsync_try_def
      fs_body_def Let_def split: sum.splits option.splits)

subsection \<open>The text of \<open>toFixed(2)\<close>\<close>

lemma two_decimals_point:
  assumes a: "list_all is_digit a" "a \<noteq> []" and b: "list_all is_digit b" "length b = 2"
  shows "two_decimals (a @ ''.'' @ b)" and "two_decimals (''-'' @ a @ ''.'' @ b)"
proof -
  let ?u = "a @ ''.'' @ b"
  have len: "length ?u = length a + 3" using b by simp
  have hd: "hd ?u \<noteq> CHR ''-''"
    using a by (cases a) (auto dest: minus_is_no_digit)
  have t: "take (length ?u - 3) ?u = a" using b by simp
  have p: "?u ! (length ?u - 3) = CHR ''.''"
    using b by (simp add: nth_append)
  have d: "drop (length ?u - 2) ?u = b" using b by simp
  have u: "4 \<le> length ?u \<and> list_all is_digit (take (length ?u - 3) ?u)
      \<and> ?u ! (length ?u - 3) = CHR ''.'' \<and> list_all is_digit (drop (length ?u - 2) ?u)"
    using a b len by (simp only: t p d) (cases a, simp_all)
  show "two_decimals ?u"
    unfolding two_decimals_def Let_def using hd u by simp
  have "(if ''-'' @ ?u \<noteq> [] \<and> hd (''-'' @ ?u) = CHR ''-'' then tl (''-'' @ ?u) else ''-'' @ ?u) = ?u"
    by simp
  then show "two_decimals (''-'' @ ?u)"
    unfolding two_decimals_def Let_def using u by (simp only:) 
qed

lemma two_decimals_toFixed2:
  assumes "\<bar>r\<bar> < 10 ^ 21"
  shows "two_decimals (toFixed2 ts (Fin r))"
proof -
  define m0 where "m0 = digits (nat \<lfloor>\<bar>r\<bar> * 100 + 1 / 2\<rfloor>)"
  define m where "m = (if length m0 \<le> 2 then replicate (3 - length m0) CHR ''0'' @ m0 else m0)"
  have z: "is_digit CHR ''0''" by (simp add: is_digit_def)
  have m0: "list_all is_digit m0" using digits_are_digits by (simp add: m0_def)
  have dm: "list_all is_digit m"
    using m0 z by (simp add: m_def list_all_iff)
  have lm: "3 \<le> length m" by (simp add: m_def)
  have a: "list_all is_digit (take (length m - 2) m)" "take (length m - 2) m \<noteq> []"
    using dm lm by (auto simp: list_all_iff dest: in_set_takeD)
  have b: "list_all is_digit (drop (length m - 2) m)" "length (drop (length m - 2) m) = 2"
    using dm lm by (auto simp: list_all_iff dest: in_set_dropD)
  have "toFixed2 ts (Fin r) = (if r < 0 then ''-'' else '''')
      @ take (length m - 2) m @ ''.'' @ drop (length m - 2) m"
    using assms by (simp add: toFixed2_def Let_def m_def m0_def)
  with two_decimals_point [OF a b] show ?thesis by (cases "r < 0") simp_all
qed

subsection \<open>The status a generator leaves when it has finished\<close>

text \<open>
  An asynchronous generator that has done its work leaves \<open>finished in ... seconds\<close>, its
  synchronous twin leaves the same text without the word \<open>seconds\<close>.
\<close>

lemma status_finished:
  "accountsAsync_try w = Inr written \<Longrightarrow>
   state (snd (accountsAsync w t svc)) ''accounts'' = Own (finished_in w t @ '' seconds'')"
  "yearlyAsync_try w = Inr written \<Longrightarrow>
   state (snd (yearlyAsync w t svc)) ''yearly'' = Own (finished_in w t @ '' seconds'')"
  "fsAsync_try w = Inr written \<Longrightarrow>
   state (snd (fsAsync w t svc)) ''fs'' = Own (finished_in w t @ '' seconds'')"
  "accounts_sync_body w = Inr written \<Longrightarrow>
   state (snd (accounts w t svc)) ''accounts'' = Own (finished_in w t)"
  "yearly_sync_body w = Inr written \<Longrightarrow>
   state (snd (yearly w t svc)) ''yearly'' = Own (finished_in w t)"
  "fs_sync_body w = Inr written \<Longrightarrow>
   state (snd (fs w t svc)) ''fs'' = Own (finished_in w t)"
  by (simp_all add: status_accountsAsync status_yearlyAsync status_fsAsync accounts_def
      yearly_def fs_def state_set_state_same)

lemma sync_body_empty_dir:
  "accounts_sync_body empty_dir = Inr (''out/accounts.csv'', ''Account,Balance'')"
  "yearly_sync_body empty_dir = Inr (''out/yearly.csv'', ''Financial Year,Cash Balance'')"
  by (simp_all add: accounts_sync_body_def yearly_sync_body_def yearly_body_def empty_dir_def
      accounts_csvFiles_def yearly_csvFiles_def accounts_output_def yearly_output_def
      entries_def)

lemma finished_shapes:
  "status_shape ''finished in 3.00 seconds''" "\<not> status_shape ''finished in 3.00''"
  by (simp_all add: status_shape_def finished_seconds_def error_message_def two_decimals_def
      is_digit_def)

text \<open>
  Claim C7 holds at the start, where each status is \<open>idle\<close>, and of the asynchronous
  generators; it fails of the synchronous ones. In an empty staging directory, with
  3000 ms measured, \<open>accountsAsync\<close> leaves \<open>finished in 3.00 seconds\<close>, one of the four
  shapes, while \<open>accounts()\<close> and \<open>yearly()\<close> leave \<open>finished in 3.00\<close>, which is none of
  them.
\<close>

theorem synchronous_status_no_seconds:
  "state (new_ReportsService default_config) ''accounts'' = Own ''idle''
   \<and> state (new_ReportsService default_config) ''yearly'' = Own ''idle''
   \<and> state (new_ReportsService default_config) ''fs'' = Own ''idle''
   \<and> state (history [AccountsAsync_start, AccountsAsync_finish empty_dir 3000]
        (new_ReportsService default_config)) ''accounts'' = Own ''finished in 3.00 seconds''
   \<and> status_shape ''finished in 3.00 seconds''
   \<and> state (history [Accounts empty_dir 3000] (new_ReportsService default_config))
        ''accounts'' = Own ''finished in 3.00''
   \<and> state (history [Yearly empty_dir 3000] (new_ReportsService default_config))
        ''yearly'' = Own ''finished in 3.00''
   \<and> \<not> status_shape ''finished in 3.00''"
proof -
  let ?svc0 = "new_ReportsService default_config"
  have a: "state (history [AccountsAsync_start, AccountsAsync_finish empty_dir 3000] ?svc0)
      ''accounts'' = Own ''finished in 3.00 seconds''"
    using status_finished(1) [OF accountsAsync_try_empty_dir, of 3000 ?svc0]
    by (simp add: history_def accountsAsync_def finished_in_3000)
  have s: "state (history [Accounts empty_dir 3000] ?svc0) ''accounts''
      = Own ''finished in 3.00''"
    using status_finished(4) [OF sync_body_empty_dir(1), of 3000 ?svc0]
    by (simp add: history_def finished_in_3000)
  have y: "state (history [Yearly empty_dir 3000] ?svc0) ''yearly'' = Own ''finished in 3.00''"
    using status_finished(5) [OF sync_body_empty_dir(2), of 3000 ?svc0]
    by (simp add: history_def finished_in_3000)
  from state_new [of default_config] a s y finished_shapes show ?thesis
    by (simp only: simp_thms)
qed


subsection \<open>The balances of the accounts report\<close>

text \<open>Balances that are all numbers: the keys in their order, and the number under each.\<close>

lemma map_of_keys:
  "map_of (map (\<lambda>k. (k, f k)) keys) a = (if a \<in> set keys then Some (f a) else None)"
  by (induction keys) auto

lemma get_balances:
  "get (map (\<lambda>k. (k, Num (bal k))) keys) a =
     (if a \<in> set keys then Own (Num (bal a))
      else if a \<in> set Object_prototype_names then Inherited else Undefined)"
  by (simp add: get_def map_of_keys)

lemma put_balances_present:
  assumes "a \<noteq> ''__proto__''" and "a \<in> set keys"
  shows "put (map (\<lambda>k. (k, Num (bal k))) keys) a (Num v)
       = map (\<lambda>k. (k, Num ((bal(a := v)) k))) keys"
proof -
  have "a \<in> set (map fst (map (\<lambda>k. (k, Num (bal k))) keys))"
    using assms(2) by (simp add: comp_def)
  from put_present [OF assms(1) this] show ?thesis by (simp add: comp_def)
qed

lemma put_balances_absent:
  assumes "a \<noteq> ''__proto__''" and "a \<notin> set keys"
  shows "put (map (\<lambda>k. (k, Num (bal k))) keys) a (Num v)
       = map (\<lambda>k. (k, Num ((bal(a := v)) k))) (keys @ [a])"
proof -
  have "a \<notin> set (map fst (map (\<lambda>k. (k, Num (bal k))) keys))"
    using assms(2) by (simp add: comp_def)
  from put_absent [OF assms(1) this] assms(2) show ?thesis by auto
qed

lemma add_to_balances:
  assumes p: "a \<notin> set Object_prototype_names"
    and z: "a \<notin> set keys \<Longrightarrow> bal a = Fin 0"
  shows "add_to (map (\<lambda>k. (k, Num (bal k))) keys) a x
       = map (\<lambda>k. (k, Num ((bal(a := js_add (if truthy_number (bal a) then bal a else Fin 0) x))
                              k)))
           (if a \<in> set keys then keys else keys @ [a])"
proof -
  from p have np: "a \<noteq> ''__proto__''" by (auto simp: Object_prototype_names_def)
  let ?obj = "map (\<lambda>k. (k, Num (bal k))) keys"
  let ?start = "if truthy_number (bal a) then bal a else Fin 0"
  show ?thesis
  proof (cases "a \<in> set keys")
    case True
    have g: "get ?obj a = Own (Num (bal a))"
      using True by (simp add: get_balances)
    let ?b = "map (\<lambda>k. (k, Num ((bal(a := ?start)) k))) keys"
    have first: "(if \<not> truthy (get ?obj a) then put ?obj a (Num (Fin 0)) else ?obj) = ?b"
    proof (cases "truthy_number (bal a)")
      case True
      then have "bal(a := ?start) = bal" by auto
      with True show ?thesis by (simp add: g truthy_def)
    next
      case False
      have "put ?obj a (Num (Fin 0)) = map (\<lambda>k. (k, Num ((bal(a := Fin 0)) k))) keys"
        using \<open>a \<in> set keys\<close> by (rule put_balances_present [OF np])
      with False show ?thesis by (simp add: g truthy_def)
    qed
    have g2: "get ?b a = Own (Num ?start)"
      using True by (simp only: get_balances) simp
    have "add_to ?obj a x = put ?b a (plus_amount (get ?b a) x)"
      unfolding add_to_def Let_def first ..
    also have "\<dots> = put ?b a (Num (js_add ?start x))"
      by (simp only: g2 plus_amount_def lookup.case cell.case)
    also have "\<dots> = map (\<lambda>k. (k, Num (((bal(a := ?start))(a := js_add ?start x)) k))) keys"
      using True by (rule put_balances_present [OF np])
    finally show ?thesis using True by simp
  next
    case False
    have g: "get ?obj a = Undefined"
      using False p by (simp add: get_balances)
    let ?b = "map (\<lambda>k. (k, Num ((bal(a := Fin 0)) k))) (keys @ [a])"
    have first: "(if \<not> truthy (get ?obj a) then put ?obj a (Num (Fin 0)) else ?obj) = ?b"
      using put_balances_absent [OF np False, of bal "Fin 0"]
      by (simp add: g truthy_def)
    have g2: "get ?b a = Own (Num (Fin 0))"
      by (simp only: get_balances) simp
    have s: "?start = Fin 0"
      using z [OF False] by (simp add: truthy_number_def)
    have "add_to ?obj a x = put ?b a (plus_amount (get ?b a) x)"
      unfolding add_to_def Let_def first ..
    also have "\<dots> = put ?b a (Num (js_add (Fin 0) x))"
      by (simp only: g2 plus_amount_def lookup.case cell.case)
    also have "\<dots> = map (\<lambda>k. (k, Num (((bal(a := Fin 0))(a := js_add (Fin 0) x)) k)))
          (keys @ [a])"
      by (rule put_balances_present [OF np]) simp
    finally show ?thesis using False by (simp add: s)
  qed
qed

lemma first_seen_snoc:
  "first_seen (xs @ [x]) = (if x \<in> set xs then first_seen xs else first_seen xs @ [x])"
  by (simp add: first_seen_def)

lemma set_first_seen [simp]: "set (first_seen xs) = set xs"
  by (simp add: first_seen_def)

lemma distinct_first_seen [simp]: "distinct (first_seen xs)"
  by (simp add: first_seen_def)

lemma running_total_snoc:
  "running_total (amounts @ [x])
     = js_add (if truthy_number (running_total amounts) then running_total amounts else Fin 0) x"
  by (simp add: running_total_def)

lemma total_snoc:
  "(\<lambda>k. running_total (amounts_of (rows @ [line]) k)) =
     (\<lambda>k. running_total (amounts_of rows k))
       (account_of line :=
          js_add (if truthy_number (running_total (amounts_of rows (account_of line)))
                  then running_total (amounts_of rows (account_of line)) else Fin 0)
            (debit_minus_credit line))"
  by (rule ext) (simp add: amounts_of_def running_total_snoc)

lemma total_absent:
  "a \<notin> set (map account_of rows) \<Longrightarrow> running_total (amounts_of rows a) = Fin 0"
proof -
  assume "a \<notin> set (map account_of rows)"
  then have "filter (\<lambda>line. account_of line = a) rows = []"
    by (auto simp: filter_empty_conv)
  then show ?thesis by (simp add: amounts_of_def running_total_def)
qed

text \<open>
  The loop over the rows, from the balances of the rows read so far: the keys are the
  accounts in the order first seen, each with the running total of its rows.
\<close>

lemma accounts_rows_fold:
  assumes "list_all (\<lambda>line. account_of line \<notin> set Object_prototype_names) later"
  shows "fold accounts_line later
           (map (\<lambda>k. (k, Num (running_total (amounts_of rows k))))
              (first_seen (map account_of rows)))
         = map (\<lambda>k. (k, Num (running_total (amounts_of (rows @ later) k))))
             (first_seen (map account_of (rows @ later)))"
  using assms
proof (induction later arbitrary: rows)
  case Nil
  then show ?case by simp
next
  case (Cons line later)
  from Cons.prems have p: "account_of line \<notin> set Object_prototype_names"
    and rest: "list_all (\<lambda>line. account_of line \<notin> set Object_prototype_names) later"
    by simp_all
  let ?a = "account_of line"
  let ?keys = "first_seen (map account_of rows)"
  let ?bal = "\<lambda>k. running_total (amounts_of rows k)"
  have z: "?a \<notin> set ?keys \<Longrightarrow> ?bal ?a = Fin 0"
    using total_absent [of ?a rows] by simp
  have step: "accounts_line line (map (\<lambda>k. (k, Num (?bal k))) ?keys)
      = map (\<lambda>k. (k, Num (running_total (amounts_of (rows @ [line]) k))))
          (first_seen (map account_of (rows @ [line])))"
  proof -
    have "accounts_line line (map (\<lambda>k. (k, Num (?bal k))) ?keys)
        = add_to (map (\<lambda>k. (k, Num (?bal k))) ?keys) ?a (debit_minus_credit line)"
      by (simp only: accounts_line_def account_of_def line_amount_debit_minus_credit)
    also have "\<dots> = map (\<lambda>k. (k, Num ((?bal(?a := js_add
              (if truthy_number (?bal ?a) then ?bal ?a else Fin 0) (debit_minus_credit line))) k)))
            (if ?a \<in> set ?keys then ?keys else ?keys @ [?a])"
      using p z by (rule add_to_balances)
    also have "?bal(?a := js_add (if truthy_number (?bal ?a) then ?bal ?a else Fin 0)
              (debit_minus_credit line))
        = (\<lambda>k. running_total (amounts_of (rows @ [line]) k))"
      by (simp only: total_snoc)
    also have "(if ?a \<in> set ?keys then ?keys else ?keys @ [?a])
        = first_seen (map account_of (rows @ [line]))"
      by (simp add: first_seen_snoc)
    finally show ?thesis .
  qed
  have "fold accounts_line (line # later) (map (\<lambda>k. (k, Num (?bal k))) ?keys)
      = fold accounts_line later
          (map (\<lambda>k. (k, Num (running_total (amounts_of (rows @ [line]) k))))
            (first_seen (map account_of (rows @ [line]))))"
    by (simp only: fold_simps step)
  also have "\<dots> = map (\<lambda>k. (k, Num (running_total (amounts_of ((rows @ [line]) @ later) k))))
             (first_seen (map account_of ((rows @ [line]) @ later)))"
    using rest by (rule Cons.IH)
  finally show ?case by simp
qed

lemma fold_over_files:
  "fold (\<lambda>content b. fold f (lines_of content) b) contents b
     = fold f (concat (map lines_of contents)) b"
  by (induction contents arbitrary: b) simp_all

lemma read_each_all_read:
  assumes "list_all (\<lambda>file. readFile w (path_join dir file) = Inr (content file)) order"
  shows "read_each w dir per_file order acc
       = Inr (fold per_file (map content order) acc)"
  using assms by (induction order arbitrary: acc) simp_all

lemma accounts_balances:
  assumes "list_all (\<lambda>file. readFile w (path_join ''tmp'' file) = Inr (content file)) order"
    and "rows = concat (map (\<lambda>file. file_lines (content file)) order)"
    and "list_all (\<lambda>line. account_of line \<notin> set Object_prototype_names) rows"
  shows "read_each w ''tmp'' accounts_file order []
       = Inr (map (\<lambda>k. (k, Num (running_total (amounts_of rows k))))
                (first_seen (map account_of rows)))"
proof -
  have af: "accounts_file = (\<lambda>content b. fold accounts_line (file_lines content) b)"
    by (intro ext) (simp add: accounts_file_def)
  have "read_each w ''tmp'' accounts_file order []
      = Inr (fold accounts_file (map content order) [])"
    using assms(1) by (rule read_each_all_read)
  also have "fold accounts_file (map content order) []
      = fold accounts_line (concat (map file_lines (map content order))) []"
    unfolding af by (rule fold_over_files)
  also have "concat (map file_lines (map content order)) = rows"
    by (simp add: assms(2) comp_def)
  also have "fold accounts_line rows []
      = map (\<lambda>k. (k, Num (running_total (amounts_of ([] @ rows) k))))
             (first_seen (map account_of ([] @ rows)))"
    using accounts_rows_fold [OF assms(3), of "[]"] by (simp add: first_seen_def)
  finally show ?thesis by simp
qed

subsection \<open>The rows of the accounts report\<close>

lemma insort_key_map:
  "insort_key g (f x) (map f xs) = map f (insort_key (\<lambda>y. g (f y)) x xs)"
  by (induction xs) simp_all

lemma sort_key_map: "sort_key g (map f xs) = map f (sort_key (\<lambda>y. g (f y)) xs)"
  by (induction xs) (simp_all add: insort_key_map)

lemma entries_balances:
  "entries (map (\<lambda>k. (k, Num (bal k))) keys)
     = map (\<lambda>k. (k, Num (bal k))) (key_order keys)"
  by (simp add: entries_def key_order_def filter_map comp_def sort_key_map)

lemma balance_rows_numbers:
  "balance_rows ts msg (map (\<lambda>k. (k, Num (bal k))) keys)
     = Inr (map (\<lambda>k. k @ '','' @ toFixed2 ts (bal k)) keys)"
  by (induction keys) simp_all

lemma set_key_order [simp]: "set (key_order keys) = set keys"
  by (auto simp: key_order_def)

lemma distinct_key_order: "distinct keys \<Longrightarrow> distinct (key_order keys)"
  by (auto simp: key_order_def)

lemma key_order_no_index:
  "list_all (\<lambda>key. \<not> is_array_index key) keys \<Longrightarrow> key_order keys = keys"
  by (simp add: key_order_def list_all_iff)

lemma toFixed2_700: "toFixed2 ts (Fin 700) = ''700.00''"
  by (simp add: toFixed2_def digits_small digits_large digit_char_def)

subsection \<open>Running totals that are exact\<close>

text \<open>
  Amounts that are integers, with absolute values that add up to less than \<open>2^53\<close>: no
  sum is rounded, and the running total is the sum.
\<close>

lemma abs_sum_list: "\<bar>sum_list ks\<bar> \<le> sum_list (map abs ks)" for ks :: "int list"
  by (induction ks) auto

lemma running_total_integers:
  assumes "sum_list (map abs ks) < 2 ^ 53"
  shows "running_total (map (\<lambda>k. Fin (of_int k)) ks) = Fin (of_int (sum_list ks))"
  using assms
proof (induction ks rule: rev_induct)
  case Nil
  then show ?case by (simp add: running_total_def)
next
  case (snoc k ks)
  have "sum_list (map abs ks) \<le> sum_list (map abs (ks @ [k]))" by simp
  with snoc.prems have "sum_list (map abs ks) < 2 ^ 53" by linarith
  then have ih: "running_total (map (\<lambda>k. Fin (of_int k)) ks) = Fin (of_int (sum_list ks))"
    by (rule snoc.IH)
  have "\<bar>sum_list (ks @ [k])\<bar> < 2 ^ 53"
    using abs_sum_list [of "ks @ [k]"] snoc.prems by linarith
  then have "binary64 (of_int (sum_list ks + k)) = Fin (of_int (sum_list ks + k))"
    by (intro binary64_int) simp
  then have b: "binary64 (of_int (sum_list ks) + of_int k)
      = Fin (of_int (sum_list ks) + of_int k)"
    by simp
  have "running_total (map (\<lambda>k. Fin (of_int k)) (ks @ [k]))
      = js_add (if truthy_number (Fin (of_int (sum_list ks))) then Fin (of_int (sum_list ks))
                else Fin 0) (Fin (of_int k))"
    by (simp add: running_total_snoc ih)
  also have "\<dots> = binary64 (of_int (sum_list ks) + of_int k)"
    by (simp add: truthy_number_def)
  also note b
  finally show ?case by simp
qed

lemma cash_amounts:
  assumes "row_with ''Cash'' ''1000'' ''0'' ra" and "row_with ''Cash'' ''0'' ''300'' rb"
  shows "debit_minus_credit ra = Fin 1000" and "debit_minus_credit rb = Fin (- 300)"
proof -
  have n: "parseFloat ''1000'' = Fin 1000" "parseFloat ''300'' = Fin 300"
    "parseFloat ''0'' = Fin 0"
    by (simp_all add: parseFloat_def StrWhiteSpaceChar_def is_digit_def digits_value_def
        digit_value_def exponent_part_def)
  from assms(1) show "debit_minus_credit ra = Fin 1000"
    by (simp add: row_with_def debit_minus_credit_def debit_field_def credit_field_def n
        js_sub_def)
  from assms(2) show "debit_minus_credit rb = Fin (- 300)"
    by (simp add: row_with_def debit_minus_credit_def debit_field_def credit_field_def n
        js_sub_def)
qed

lemma running_total_700:
  "running_total [Fin 1000, Fin (- 300)] = Fin 700"
  "running_total [Fin (- 300), Fin 1000] = Fin 700"
  by (simp_all add: running_total_def truthy_number_def)

text \<open>
  Claim C5, as amended. Let the rows be those of the \<open>.csv\<close> files of the staging
  directory, in the order in which the reads complete, and let no account be named like
  a member of \<open>Object.prototype\<close>. If the report can be written, its text is the header
  \<open>Account,Balance\<close> and one row per distinct account name, with the balance the running
  total of debit minus credit over the rows of the account in the order read, every
  difference and every sum rounded to binary64, formatted by \<open>toFixed(2)\<close>. The rows come
  in the order of \<open>Object.entries\<close>: account names that are array indices (numerals such
  as \<open>1000\<close>) first, ascending, then the others in the order first encountered; the
  latter is the order of all rows when no account name is an array index. The running
  total is the exact sum when the amounts are integers whose absolute values add up to
  less than \<open>2^53\<close>; a finite balance below \<open>10^21\<close> is printed with two decimals; and
  when the rows of \<open>Cash\<close> are a row with debit 1000 and credit 0 and a row with debit 0
  and credit 300, in either order and wherever they lie in the files, the balance
  printed for \<open>Cash\<close> is \<open>700.00\<close>.
\<close>

theorem accounts_report:
  assumes "readdir w ''tmp'' = Inr files"
    and "list_all (\<lambda>file. readFile w (path_join ''tmp'' file) = Inr (content file))
           (completion w (accounts_csvFiles files))"
    and "rows = concat (map (\<lambda>file. file_lines (content file))
           (completion w (accounts_csvFiles files)))"
    and "list_all (\<lambda>line. account_of line \<notin> set Object_prototype_names) rows"
    and "\<And>text. writeFile w ''out/accounts.csv'' text = None"
  shows "accountsAsync_try w =
           Inr (''out/accounts.csv'',
                join [CHR 0x0A] (''Account,Balance'' #
                  map (\<lambda>account. account @ '','' @
                         toFixed2 (toStringLarge w) (running_total (amounts_of rows account)))
                    (key_order (first_seen (map account_of rows)))))
     \<and> distinct (key_order (first_seen (map account_of rows)))
     \<and> set (key_order (first_seen (map account_of rows))) = set (map account_of rows)
     \<and> (list_all (\<lambda>account. \<not> is_array_index account) (map account_of rows) \<longrightarrow>
          key_order (first_seen (map account_of rows)) = first_seen (map account_of rows))
     \<and> (amounts_of rows account = map (\<lambda>k. Fin (of_int k)) ks
          \<and> sum_list (map abs ks) < 2 ^ 53 \<longrightarrow>
          running_total (amounts_of rows account) = Fin (of_int (sum_list ks)))
     \<and> (running_total (amounts_of rows account) = Fin r \<and> \<bar>r\<bar> < 10 ^ 21 \<longrightarrow>
          two_decimals (toFixed2 (toStringLarge w) (running_total (amounts_of rows account))))
     \<and> ((filter (\<lambda>line. account_of line = ''Cash'') rows = [ra, rb]
           \<or> filter (\<lambda>line. account_of line = ''Cash'') rows = [rb, ra])
          \<and> row_with ''Cash'' ''1000'' ''0'' ra \<and> row_with ''Cash'' ''0'' ''300'' rb \<longrightarrow>
          toFixed2 (toStringLarge w) (running_total (amounts_of rows ''Cash'')) = ''700.00'')"
proof -
  let ?keys = "first_seen (map account_of rows)"
  let ?bal = "\<lambda>account. running_total (amounts_of rows account)"
  let ?row = "\<lambda>account. account @ '','' @ toFixed2 (toStringLarge w) (?bal account)"
  have balances: "read_each w ''tmp'' accounts_file (completion w (accounts_csvFiles files)) []
      = Inr (map (\<lambda>k. (k, Num (?bal k))) ?keys)"
    using assms(2,3,4) by (rule accounts_balances)
  have lines: "accounts_output (toStringLarge w) (map (\<lambda>k. (k, Num (?bal k))) ?keys)
      = Inr (''Account,Balance'' # map ?row (key_order ?keys))"
    by (simp add: accounts_output_def entries_balances balance_rows_numbers)
  have run: "accountsAsync_try w =
      Inr (''out/accounts.csv'', join [CHR 0x0A] (''Account,Balance'' # map ?row (key_order ?keys)))"
    by (simp add: accountsAsync_try_def assms(1) balances lines assms(5))
  have d: "distinct (key_order ?keys)"
    by (rule distinct_key_order) simp
  have s: "set (key_order ?keys) = set (map account_of rows)"
    by simp
  have o: "list_all (\<lambda>account. \<not> is_array_index account) (map account_of rows) \<longrightarrow>
      key_order ?keys = ?keys"
  proof
    assume "list_all (\<lambda>account. \<not> is_array_index account) (map account_of rows)"
    then have "list_all (\<lambda>account. \<not> is_array_index account) ?keys"
      by (simp add: list_all_iff)
    then show "key_order ?keys = ?keys" by (rule key_order_no_index)
  qed
  have e: "amounts_of rows account = map (\<lambda>k. Fin (of_int k)) ks
          \<and> sum_list (map abs ks) < 2 ^ 53 \<longrightarrow>
          ?bal account = Fin (of_int (sum_list ks))"
    by (simp add: running_total_integers)
  have t: "?bal account = Fin r \<and> \<bar>r\<bar> < 10 ^ 21 \<longrightarrow>
      two_decimals (toFixed2 (toStringLarge w) (?bal account))"
    by (simp add: two_decimals_toFixed2)
  have c: "(filter (\<lambda>line. account_of line = ''Cash'') rows = [ra, rb]
           \<or> filter (\<lambda>line. account_of line = ''Cash'') rows = [rb, ra])
          \<and> row_with ''Cash'' ''1000'' ''0'' ra \<and> row_with ''Cash'' ''0'' ''300'' rb \<longrightarrow>
          toFixed2 (toStringLarge w) (?bal ''Cash'') = ''700.00''"
  proof
    assume h: "(filter (\<lambda>line. account_of line = ''Cash'') rows = [ra, rb]
           \<or> filter (\<lambda>line. account_of line = ''Cash'') rows = [rb, ra])
          \<and> row_with ''Cash'' ''1000'' ''0'' ra \<and> row_with ''Cash'' ''0'' ''300'' rb"
    then have a: "debit_minus_credit ra = Fin 1000" "debit_minus_credit rb = Fin (- 300)"
      using cash_amounts by blast+
    from h have "amounts_of rows ''Cash'' = [Fin 1000, Fin (- 300)]
        \<or> amounts_of rows ''Cash'' = [Fin (- 300), Fin 1000]"
      by (auto simp: amounts_of_def a)
    then have "?bal ''Cash'' = Fin 700"
      using running_total_700 by auto
    then show "toFixed2 (toStringLarge w) (?bal ''Cash'') = ''700.00''"
      by (simp add: toFixed2_700)
  qed
  from run d s o e t c show ?thesis by (intro conjI)
qed

subsection \<open>The accounts report on two worlds\<close>

lemma parse_numbers:
  "parseFloat ''1000'' = Fin 1000" "parseFloat ''300'' = Fin 300" "parseFloat ''0'' = Fin 0"
  "parseFloat ''5'' = Fin 5" "parseFloat ''7'' = Fin 7"
  by (simp_all add: parseFloat_def StrWhiteSpaceChar_def is_digit_def digits_value_def
      digit_value_def exponent_part_def)

lemma cash_rows:
  "split CHR '','' ''2024-01-01,Cash,,1000,0'' = [''2024-01-01'', ''Cash'', [], ''1000'', ''0'']"
  "split CHR '','' ''2024-01-02,Cash,,0,300'' = [''2024-01-02'', ''Cash'', [], ''0'', ''300'']"
  "file_lines ''2024-01-01,Cash,,1000,0'' = [''2024-01-01,Cash,,1000,0'']"
  "file_lines ''2024-01-02,Cash,,0,300'' = [''2024-01-02,Cash,,0,300'']"
  by (simp_all add: file_lines_def trim_def StrWhiteSpaceChar_def)

lemma cash_rows_read:
  "carries_numbers ''2024-01-01,Cash,,1000,0''" "carries_numbers ''2024-01-02,Cash,,0,300''"
  "account_of ''2024-01-01,Cash,,1000,0'' = ''Cash''"
  "account_of ''2024-01-02,Cash,,0,300'' = ''Cash''"
  "row_with ''Cash'' ''1000'' ''0'' ''2024-01-01,Cash,,1000,0''"
  "row_with ''Cash'' ''0'' ''300'' ''2024-01-02,Cash,,0,300''"
  by (simp_all only: carries_numbers_def account_of_def line_account_def row_with_def cash_rows)
    (simp_all add: element_def parse_numbers property_key_def)

text \<open>
  Two ledgers of one \<open>Cash\<close> row each, and a file that is no ledger; the read of the
  second ledger completes first.
\<close>

theorem accounts_report_witness:
  "readdir two_ledgers ''tmp'' = Inr [''a.csv'', ''notes.txt'', ''b.csv'']
   \<and> completion two_ledgers (accounts_csvFiles [''a.csv'', ''notes.txt'', ''b.csv''])
       = [''b.csv'', ''a.csv'']
   \<and> list_all (\<lambda>line. carries_numbers line \<and> account_of line \<notin> set Object_prototype_names)
        [''2024-01-02,Cash,,0,300'', ''2024-01-01,Cash,,1000,0'']
   \<and> row_with ''Cash'' ''1000'' ''0'' ''2024-01-01,Cash,,1000,0''
   \<and> row_with ''Cash'' ''0'' ''300'' ''2024-01-02,Cash,,0,300''
   \<and> toFixed2 (toStringLarge two_ledgers)
        (running_total (amounts_of [''2024-01-02,Cash,,0,300'', ''2024-01-01,Cash,,1000,0'']
           ''Cash'')) = ''700.00''
   \<and> accountsAsync_try two_ledgers
       = Inr (''out/accounts.csv'', ''Account,Balance\<newline>Cash,700.00'')"
proof -
  let ?files = "[''a.csv'', ''notes.txt'', ''b.csv'']"
  let ?rows = "[''2024-01-02,Cash,,0,300'', ''2024-01-01,Cash,,1000,0'']"
  have dir: "readdir two_ledgers ''tmp'' = Inr ?files"
    by (simp add: two_ledgers_def)
  have order: "completion two_ledgers (accounts_csvFiles ?files) = [''b.csv'', ''a.csv'']"
    by (simp add: two_ledgers_def accounts_csvFiles_def endsWith_def)
  have reads: "list_all (\<lambda>file. readFile two_ledgers (path_join ''tmp'' file)
        = Inr (two_ledgers_content file)) (completion two_ledgers (accounts_csvFiles ?files))"
    unfolding order by (simp add: two_ledgers_def two_ledgers_content_def path_join_def)
  have rows: "?rows = concat (map (\<lambda>file. file_lines (two_ledgers_content file))
        (completion two_ledgers (accounts_csvFiles ?files)))"
    unfolding order by (simp add: two_ledgers_content_def cash_rows)
  have names: "list_all (\<lambda>line. account_of line \<notin> set Object_prototype_names) ?rows"
    by (simp add: cash_rows_read Object_prototype_names_def)
  have numbers: "list_all (\<lambda>line. carries_numbers line
        \<and> account_of line \<notin> set Object_prototype_names) ?rows"
    by (simp add: cash_rows_read Object_prototype_names_def)
  have written: "\<And>text. writeFile two_ledgers ''out/accounts.csv'' text = None"
    by (simp add: two_ledgers_def)
  have cash: "filter (\<lambda>line. account_of line = ''Cash'') ?rows
      = [''2024-01-02,Cash,,0,300'', ''2024-01-01,Cash,,1000,0'']"
    by (simp add: cash_rows_read)
  have keys: "key_order (first_seen (map account_of ?rows)) = [''Cash'']"
    by (simp add: cash_rows_read first_seen_def key_order_def is_array_index_def is_digit_def)
  note inst = accounts_report [OF dir reads rows names written,
      where ra = "''2024-01-01,Cash,,1000,0''" and rb = "''2024-01-02,Cash,,0,300''"]
  from inst cash cash_rows_read(5,6)
  have balance: "toFixed2 (toStringLarge two_ledgers) (running_total (amounts_of ?rows ''Cash''))
      = ''700.00''"
    by blast
  from inst
  have "accountsAsync_try two_ledgers =
           Inr (''out/accounts.csv'',
                join [CHR 0x0A] (''Account,Balance'' #
                  map (\<lambda>account. account @ '','' @
                         toFixed2 (toStringLarge two_ledgers)
                           (running_total (amounts_of ?rows account)))
                    (key_order (first_seen (map account_of ?rows)))))"
    by (rule conjunct1)
  then have "accountsAsync_try two_ledgers =
           Inr (''out/accounts.csv'',
                join [CHR 0x0A] (''Account,Balance'' #
                  map (\<lambda>account. account @ '','' @
                         toFixed2 (toStringLarge two_ledgers)
                           (running_total (amounts_of ?rows account)))
                    [''Cash'']))"
    by (simp only: keys)
  then have run: "accountsAsync_try two_ledgers
       = Inr (''out/accounts.csv'', ''Account,Balance\<newline>Cash,700.00'')"
    by (simp add: balance)
  from dir order numbers cash_rows_read(5,6) balance run show ?thesis by (simp only: simp_thms)
qed

subsection \<open>Sums that are rounded\<close>

lemma parse_tenths:
  "parseFloat ''0.1'' = Fin (3602879701896397 / 36028797018963968)"
  "parseFloat ''0.2'' = Fin (3602879701896397 / 18014398509481984)"
  "parseFloat ''0.3'' = Fin (5404319552844595 / 18014398509481984)"
proof -
  have r: "round64 (1 / 10) = 3602879701896397 / 36028797018963968"
    "round64 (1 / 5) = 3602879701896397 / 18014398509481984"
    "round64 (3 / 10) = 5404319552844595 / 18014398509481984"
    by (subst round64_at [where e = "- 4"],
        simp_all add: round_half_even_def Let_def power_int_minus,
        subst round64_at [where e = "- 3"],
        simp_all add: round_half_even_def Let_def power_int_minus,
        subst round64_at [where e = "- 2"],
        simp_all add: round_half_even_def Let_def power_int_minus)
  show "parseFloat ''0.1'' = Fin (3602879701896397 / 36028797018963968)"
    "parseFloat ''0.2'' = Fin (3602879701896397 / 18014398509481984)"
    "parseFloat ''0.3'' = Fin (5404319552844595 / 18014398509481984)"
    by (simp_all add: parseFloat_def StrWhiteSpaceChar_def is_digit_def digits_value_def
        digit_value_def exponent_part_def binary64_def r Let_def)
qed

lemma tenths_rows:
  "file_lines ''2024-01-01,Cash,,0,0.1\<newline>2024-01-02,Cash,,0,0.2\<newline>2024-01-03,Cash,,0.3,0''
     = [''2024-01-01,Cash,,0,0.1'', ''2024-01-02,Cash,,0,0.2'', ''2024-01-03,Cash,,0.3,0'']"
  "split CHR '','' ''2024-01-01,Cash,,0,0.1'' = [''2024-01-01'', ''Cash'', [], ''0'', ''0.1'']"
  "split CHR '','' ''2024-01-02,Cash,,0,0.2'' = [''2024-01-02'', ''Cash'', [], ''0'', ''0.2'']"
  "split CHR '','' ''2024-01-03,Cash,,0.3,0'' = [''2024-01-03'', ''Cash'', [], ''0.3'', ''0'']"
  by (simp_all add: file_lines_def trim_def StrWhiteSpaceChar_def)

lemma tenths_rows_read:
  "carries_numbers ''2024-01-01,Cash,,0,0.1''" "carries_numbers ''2024-01-02,Cash,,0,0.2''"
  "carries_numbers ''2024-01-03,Cash,,0.3,0''"
  "line_account ''2024-01-01,Cash,,0,0.1'' = Some ''Cash''"
  "line_account ''2024-01-02,Cash,,0,0.2'' = Some ''Cash''"
  "line_account ''2024-01-03,Cash,,0.3,0'' = Some ''Cash''"
  by (simp_all only: carries_numbers_def line_account_def tenths_rows)
    (simp_all add: element_def parseFloat_0 parse_tenths)

lemma tenths_amounts:
  "line_amount ''2024-01-01,Cash,,0,0.1'' = js_neg (parseFloat ''0.1'')"
  "line_amount ''2024-01-02,Cash,,0,0.2'' = js_neg (parseFloat ''0.2'')"
  "line_amount ''2024-01-03,Cash,,0.3,0'' = parseFloat ''0.3''"
  by (simp_all only: line_amount_def tenths_rows)
    (simp_all add: element_def parseFloat_0 parseFloat_or_0_def row_amount_def js_sub_0)

lemma tenths_sums:
  "js_add (Fin 0) (js_neg (parseFloat ''0.1'')) = Fin (- (3602879701896397 / 36028797018963968))"
  "js_add (Fin (- (3602879701896397 / 36028797018963968))) (js_neg (parseFloat ''0.2''))
     = Fin (- (1351079888211149 / 4503599627370496))"
  "js_add (Fin (- (1351079888211149 / 4503599627370496))) (parseFloat ''0.3'')
     = Fin (- (1 / 18014398509481984))"
proof -
  have "is_binary64 (js_neg (parseFloat ''0.1''))"
    by (rule is_binary64_js_neg) simp
  from js_add_0(2) [OF this]
  show "js_add (Fin 0) (js_neg (parseFloat ''0.1''))
      = Fin (- (3602879701896397 / 36028797018963968))"
    by (simp add: parse_tenths)
  have r: "round64 (- (10808639105689191 / 36028797018963968))
      = - (1351079888211149 / 4503599627370496)"
    "round64 (- (1 / 18014398509481984)) = - (1 / 18014398509481984)"
    by (subst round64_at [where e = "- 2"],
        simp_all add: round_half_even_def Let_def power_int_minus,
        subst round64_at [where e = "- 54"],
        simp_all add: round_half_even_def Let_def power_int_minus)
  show "js_add (Fin (- (3602879701896397 / 36028797018963968))) (js_neg (parseFloat ''0.2''))
     = Fin (- (1351079888211149 / 4503599627370496))"
    by (simp add: parse_tenths binary64_def r Let_def)
  show "js_add (Fin (- (1351079888211149 / 4503599627370496))) (parseFloat ''0.3'')
     = Fin (- (1 / 18014398509481984))"
    by (simp add: parse_tenths binary64_def r Let_def)
qed

lemma tenths_report:
  "accountsAsync_try tenths = Inr (''out/accounts.csv'', ''Account,Balance\<newline>Cash,-0.00'')"
proof -
  have b: "accounts_file
        ''2024-01-01,Cash,,0,0.1\<newline>2024-01-02,Cash,,0,0.2\<newline>2024-01-03,Cash,,0.3,0'' []
      = [(''Cash'', Num (Fin (- (1 / 18014398509481984))))]"
    unfolding accounts_file_def accounts_line_def tenths_rows
    by (simp add: tenths_rows_read tenths_amounts property_key_def add_to_def get_def put_def
        truthy_def truthy_number_def plus_amount_def Object_prototype_names_def tenths_sums
        del: js_add.simps js_neg.simps)
  have t: "toFixed2 ts (Fin (- (1 / 18014398509481984))) = ''-0.00''" for ts
    by (simp add: toFixed2_def digits_small digit_char_def)
  have o: "accounts_output (toStringLarge tenths) [(''Cash'', Num (Fin (- (1 / 18014398509481984))))]
      = Inr [''Account,Balance'', ''Cash,-0.00'']"
    by (simp add: accounts_output_def entries_def is_array_index_def is_digit_def t)
  have r: "readdir tenths ''tmp'' = Inr [''ledger.csv'']"
    "completion tenths [''ledger.csv''] = [''ledger.csv'']"
    "readFile tenths (path_join ''tmp'' ''ledger.csv'')
       = Inr ''2024-01-01,Cash,,0,0.1\<newline>2024-01-02,Cash,,0,0.2\<newline>2024-01-03,Cash,,0.3,0''"
    "\<And>text. writeFile tenths ''out/accounts.csv'' text = None"
    by (simp_all add: tenths_def path_join_def)
  have c: "accounts_csvFiles [''ledger.csv''] = [''ledger.csv'']"
    by (simp add: accounts_csvFiles_def endsWith_def)
  show ?thesis
    by (simp add: accountsAsync_try_def r c b o Let_def)
qed

text \<open>Numerals that binary64 does not hold: \<open>1.005\<close> is read as a number below it, and
  printed \<open>1.00\<close>; \<open>1e400\<close> is read as \<open>Infinity\<close>.\<close>

lemma parse_rounded:
  "parseFloat ''1.005'' = Fin (1131529406376837 / 1125899906842624)"
  "toFixed2 ts (parseFloat ''1.005'') = ''1.00''"
  "parseFloat ''1e400'' = PosInfinity"
  "js_sub (parseFloat ''1e400'') (parseFloat ''1e400'') = NaN"
proof -
  have r: "round64 (201 / 200) = 1131529406376837 / 1125899906842624"
    by (subst round64_at [where e = 0])
      (simp_all add: round_half_even_def Let_def power_int_minus)
  show p: "parseFloat ''1.005'' = Fin (1131529406376837 / 1125899906842624)"
    by (simp add: parseFloat_def StrWhiteSpaceChar_def is_digit_def digits_value_def
        digit_value_def exponent_part_def binary64_def r Let_def)
  show "toFixed2 ts (parseFloat ''1.005'') = ''1.00''"
    by (simp add: p toFixed2_def digits_small digits_large digit_char_def)
  have "(2::real) ^ 1024 \<le> round64 (10 ^ 400)"
    by (subst round64_at [where e = 1328])
      (simp_all add: round_half_even_def Let_def)
  then have "binary64 (10 ^ 400) = PosInfinity"
    by (simp only: binary64_def Let_def if_True)
  then show i: "parseFloat ''1e400'' = PosInfinity"
    by (simp add: parseFloat_def StrWhiteSpaceChar_def is_digit_def digits_value_def
        digit_value_def exponent_part_def del: power_numeral)
  show "js_sub (parseFloat ''1e400'') (parseFloat ''1e400'') = NaN"
    by (simp add: i js_sub_def)
qed

subsection \<open>Where the claim fails\<close>

lemma code_rows:
  "file_lines ''2024-01-01,2000,,5,0\<newline>2024-01-02,1000,,7,0''
     = [''2024-01-01,2000,,5,0'', ''2024-01-02,1000,,7,0'']"
  "split CHR '','' ''2024-01-01,2000,,5,0'' = [''2024-01-01'', ''2000'', [], ''5'', ''0'']"
  "split CHR '','' ''2024-01-02,1000,,7,0'' = [''2024-01-02'', ''1000'', [], ''7'', ''0'']"
  by (simp_all add: file_lines_def trim_def StrWhiteSpaceChar_def)

lemma code_rows_read:
  "carries_numbers ''2024-01-01,2000,,5,0''" "carries_numbers ''2024-01-02,1000,,7,0''"
  "account_of ''2024-01-01,2000,,5,0'' = ''2000''"
  "account_of ''2024-01-02,1000,,7,0'' = ''1000''"
  "line_account ''2024-01-01,2000,,5,0'' = Some ''2000''"
  "line_account ''2024-01-02,1000,,7,0'' = Some ''1000''"
  "line_amount ''2024-01-01,2000,,5,0'' = Fin 5"
  "line_amount ''2024-01-02,1000,,7,0'' = Fin 7"
  by (simp_all only: carries_numbers_def account_of_def line_account_def line_amount_def
      code_rows)
    (simp_all add: element_def parse_numbers parseFloat_or_0_def property_key_def
      row_amount_def js_sub_def)

lemma toFixed2_5_7: "toFixed2 ts (Fin 5) = ''5.00''" "toFixed2 ts (Fin 7) = ''7.00''"
  by (simp_all add: toFixed2_def digits_small digits_large digit_char_def)

text \<open>
  The claim as it stands fails on account names that are numerals: in the ledger the
  account \<open>2000\<close> is met before the account \<open>1000\<close>, and the report lists \<open>1000\<close> first.
  And it fails on amounts that binary64 does not hold: the three \<open>Cash\<close> rows in tenths
  have debits minus credits that add up to zero, and the report prints \<open>-0.00\<close>.
\<close>

theorem accounts_report_counterexample:
  "list_all carries_numbers [''2024-01-01,2000,,5,0'', ''2024-01-02,1000,,7,0'']
   \<and> first_seen (map account_of [''2024-01-01,2000,,5,0'', ''2024-01-02,1000,,7,0''])
       = [''2000'', ''1000'']
   \<and> accountsAsync_try two_codes
       = Inr (''out/accounts.csv'', ''Account,Balance\<newline>1000,7.00\<newline>2000,5.00'')
   \<and> list_all carries_numbers
        [''2024-01-01,Cash,,0,0.1'', ''2024-01-02,Cash,,0,0.2'', ''2024-01-03,Cash,,0.3,0'']
   \<and> (0 - 1 / 10) + (0 - 2 / 10) + (3 / 10 - 0) = (0::real)
   \<and> toFixed2 (toStringLarge tenths) (Fin 0) = ''0.00''
   \<and> accountsAsync_try tenths
       = Inr (''out/accounts.csv'', ''Account,Balance\<newline>Cash,-0.00'')"
proof -
  have n: "list_all carries_numbers [''2024-01-01,2000,,5,0'', ''2024-01-02,1000,,7,0'']"
    by (simp add: code_rows_read)
  have f: "first_seen (map account_of [''2024-01-01,2000,,5,0'', ''2024-01-02,1000,,7,0''])
       = [''2000'', ''1000'']"
    by (simp add: code_rows_read first_seen_def)
  have b: "accounts_file ''2024-01-01,2000,,5,0\<newline>2024-01-02,1000,,7,0'' []
      = [(''2000'', Num (Fin 5)), (''1000'', Num (Fin 7))]"
    unfolding accounts_file_def accounts_line_def code_rows
    by (simp add: code_rows_read property_key_def add_to_def get_def put_def truthy_def
        truthy_number_def plus_amount_def Object_prototype_names_def)
  have i: "is_array_index ''2000''" "is_array_index ''1000''"
    "digits_value ''2000'' = 2000" "digits_value ''1000'' = 1000"
    by (simp_all add: is_array_index_def is_digit_def digits_value_def digit_value_def)
  have o: "accounts_output (toStringLarge two_codes)
        [(''2000'', Num (Fin 5)), (''1000'', Num (Fin 7))]
      = Inr [''Account,Balance'', ''1000,7.00'', ''2000,5.00'']"
    by (simp add: accounts_output_def entries_def i toFixed2_5_7)
  have r: "readdir two_codes ''tmp'' = Inr [''ledger.csv'']"
    "completion two_codes [''ledger.csv''] = [''ledger.csv'']"
    "readFile two_codes (path_join ''tmp'' ''ledger.csv'')
       = Inr ''2024-01-01,2000,,5,0\<newline>2024-01-02,1000,,7,0''"
    "\<And>text. writeFile two_codes ''out/accounts.csv'' text = None"
    by (simp_all add: two_codes_def path_join_def)
  have c: "accounts_csvFiles [''ledger.csv''] = [''ledger.csv'']"
    by (simp add: accounts_csvFiles_def endsWith_def)
  have run: "accountsAsync_try two_codes
       = Inr (''out/accounts.csv'', ''Account,Balance\<newline>1000,7.00\<newline>2000,5.00'')"
    by (simp add: accountsAsync_try_def r c b o Let_def)
  have t: "list_all carries_numbers
        [''2024-01-01,Cash,,0,0.1'', ''2024-01-02,Cash,,0,0.2'', ''2024-01-03,Cash,,0.3,0'']"
    by (simp add: tenths_rows_read)
  have z: "(0 - 1 / 10) + (0 - 2 / 10) + (3 / 10 - 0) = (0::real)" by simp
  from n f run t z toFixed2_0 [of "toStringLarge tenths"] tenths_report show ?thesis
    by (simp only: simp_thms)
qed

end
